theory Spec2Isabelle
  imports Complex_Main "HOL-Library.Word"
begin

unbundle bit_operations_syntax

section \<open>The pickup winder firmware (pickup\_winder.ino, version 1.2.0)\<close>

text \<open>
  The firmware runs on an Arduino Uno (AVR): \<^verbatim>\<open>int\<close> has 16 bits and \<^verbatim>\<open>sizeof(int) = 2\<close>;
  \<^verbatim>\<open>long\<close>, \<^verbatim>\<open>unsigned long\<close> and \<^verbatim>\<open>float\<close> have 32 bits and size 4, \<^verbatim>\<open>double\<close> is
  \<^verbatim>\<open>float\<close>; data is little-endian.

  \<^item> \<^verbatim>\<open>unsigned long\<close> is \<open>32 word\<close>: its arithmetic wraps, its comparisons are unsigned.
  \<^item> \<^verbatim>\<open>int\<close> and \<^verbatim>\<open>long\<close> are \<open>int\<close>. A result that can leave the type is reduced to it by
    \<open>int16\<close> or \<open>long32\<close>: two's complement wrap-around, which is what the AVR computes
    (C leaves the overflow of signed arithmetic undefined and the narrowing conversions
    to the implementation).
  \<^item> \<^verbatim>\<open>float\<close> is the datatype \<open>float\<close> below, with the arithmetic of IEEE-754 binary32:
    every operation gives its exact result rounded to the nearest binary32 number.
\<close>

subsection \<open>Integers\<close>

text \<open>C's \<^verbatim>\<open>/\<close> and \<^verbatim>\<open>%\<close> on signed integers truncate towards zero.\<close>

definition c_div :: "int \<Rightarrow> int \<Rightarrow> int" where
  "c_div a b = sgn a * sgn b * (\<bar>a\<bar> div \<bar>b\<bar>)"

definition c_mod :: "int \<Rightarrow> int \<Rightarrow> int" where
  "c_mod a b = a - b * c_div a b"

text \<open>The value of an integer in the 16-bit \<^verbatim>\<open>int\<close> and in the 32-bit \<^verbatim>\<open>long\<close>.\<close>

definition int16 :: "int \<Rightarrow> int" where
  "int16 n = (n + 32768) mod 65536 - 32768"

definition long32 :: "int \<Rightarrow> int" where
  "long32 n = (n + 2147483648) mod 4294967296 - 2147483648"

subsection \<open>Floats\<close>

text \<open>
  A binary32 value is a NaN, a finite number, or one of the two infinities. The two
  zeros are the one value \<open>Fin 0\<close>: the sign of a zero is not part of the model.
\<close>

datatype float = NaN | Fin real | PInf | MInf

subsubsection \<open>Rounding\<close>

text \<open>
  \<open>rnd x\<close> is the binary32 number nearest to \<open>x\<close>, ties to the even significand, and
  \<open>rmag\<close> the same for a magnitude. The exponent \<open>e\<close> of a magnitude \<open>a\<close> is the least one
  from \<open>-126\<close> on with \<open>a < 2 powi (e + 1)\<close>; the numbers of that binade are the multiples
  of \<open>2 powi (e - 23)\<close>. Beyond the largest binade \<open>rmag\<close> gives \<open>2 ^ 128\<close>, which \<open>round_to\<close>
  turns into an infinity.
\<close>

definition round_even :: "real \<Rightarrow> int" where
  "round_even x =
     (let f = \<lfloor>x\<rfloor>; d = x - real_of_int f
      in if d < 1 / 2 then f else if 1 / 2 < d then f + 1 else if even f then f else f + 1)"

fun find_exponent :: "nat \<Rightarrow> int \<Rightarrow> real \<Rightarrow> int option" where
  "find_exponent 0 e a = None"
| "find_exponent (Suc n) e a =
     (if a < 2 powi (e + 1) then Some e else find_exponent n (e + 1) a)"

definition rmag :: "real \<Rightarrow> real" where
  "rmag a =
     (case find_exponent 254 (-126) a of
        None \<Rightarrow> 2 ^ 128
      | Some e \<Rightarrow> real_of_int (round_even (a / 2 powi (e - 23))) * 2 powi (e - 23))"

definition rnd :: "real \<Rightarrow> real" where
  "rnd x = sgn x * rmag \<bar>x\<bar>"

definition round_to :: "real \<Rightarrow> float" where
  "round_to x =
     (let r = rnd x
      in if 2 ^ 128 \<le> r then PInf else if r \<le> - (2 ^ 128) then MInf else Fin r)"

text \<open>A float that holds a binary32 value: it is its own rounding.\<close>

fun is_binary32 :: "float \<Rightarrow> bool" where
  "is_binary32 (Fin x) = (round_to x = Fin x)"
| "is_binary32 _ = True"

subsubsection \<open>Arithmetic and comparison\<close>

text \<open>
  The operations of IEEE-754: a NaN operand gives a NaN, so do \<open>\<infinity> - \<infinity>\<close>, \<open>0 * \<infinity>\<close>,
  \<open>0 / 0\<close> and \<open>\<infinity> / \<infinity>\<close>; every comparison with a NaN is false. A zero divisor counts
  as \<open>+0\<close>.
\<close>

fun sign :: "float \<Rightarrow> real" where
  "sign (Fin a) = sgn a"
| "sign PInf = 1"
| "sign MInf = - 1"
| "sign NaN = 0"

definition infinity :: "real \<Rightarrow> float" where
  "infinity sg = (if sg < 0 then MInf else PInf)"

instantiation float :: "{zero, one, plus, minus, times, inverse, ord}"
begin

definition zero_float :: float where
  "zero_float = Fin 0"

definition one_float :: float where
  "one_float = Fin 1"

fun plus_float :: "float \<Rightarrow> float \<Rightarrow> float" where
  "plus_float (Fin a) (Fin b) = round_to (a + b)"
| "plus_float NaN _ = NaN"
| "plus_float _ NaN = NaN"
| "plus_float PInf MInf = NaN"
| "plus_float MInf PInf = NaN"
| "plus_float PInf _ = PInf"
| "plus_float _ PInf = PInf"
| "plus_float MInf _ = MInf"
| "plus_float _ MInf = MInf"

fun minus_float :: "float \<Rightarrow> float \<Rightarrow> float" where
  "minus_float (Fin a) (Fin b) = round_to (a - b)"
| "minus_float NaN _ = NaN"
| "minus_float _ NaN = NaN"
| "minus_float PInf PInf = NaN"
| "minus_float MInf MInf = NaN"
| "minus_float PInf _ = PInf"
| "minus_float _ PInf = MInf"
| "minus_float MInf _ = MInf"
| "minus_float _ MInf = PInf"

fun times_float :: "float \<Rightarrow> float \<Rightarrow> float" where
  "times_float (Fin a) (Fin b) = round_to (a * b)"
| "times_float x y = (if sign x * sign y = 0 then NaN else infinity (sign x * sign y))"

fun divide_float :: "float \<Rightarrow> float \<Rightarrow> float" where
  "divide_float (Fin a) (Fin b) =
     (if b \<noteq> 0 then round_to (a / b) else if a = 0 then NaN else infinity (sgn a))"
| "divide_float (Fin a) PInf = Fin 0"
| "divide_float (Fin a) MInf = Fin 0"
| "divide_float PInf (Fin b) = infinity (if b < 0 then - 1 else 1)"
| "divide_float MInf (Fin b) = infinity (if b < 0 then 1 else - 1)"
| "divide_float _ _ = NaN"

fun inverse_float :: "float \<Rightarrow> float" where
  "inverse_float (Fin b) = (if b \<noteq> 0 then round_to (1 / b) else PInf)"
| "inverse_float PInf = Fin 0"
| "inverse_float MInf = Fin 0"
| "inverse_float NaN = NaN"

fun less_float :: "float \<Rightarrow> float \<Rightarrow> bool" where
  "less_float (Fin a) (Fin b) = (a < b)"
| "less_float MInf (Fin b) = True"
| "less_float MInf PInf = True"
| "less_float (Fin a) PInf = True"
| "less_float _ _ = False"

fun less_eq_float :: "float \<Rightarrow> float \<Rightarrow> bool" where
  "less_eq_float (Fin a) (Fin b) = (a \<le> b)"
| "less_eq_float NaN _ = False"
| "less_eq_float _ NaN = False"
| "less_eq_float MInf _ = True"
| "less_eq_float _ PInf = True"
| "less_eq_float _ _ = False"

instance ..

end

fun isnan :: "float \<Rightarrow> bool" where
  "isnan NaN = True"
| "isnan _ = False"

subsubsection \<open>Conversions and the library\<close>

text \<open>
  The casts \<^verbatim>\<open>(long)\<close> and \<^verbatim>\<open>(int)\<close> of a float drop the fraction. The cast of a NaN, of an
  infinity or of a number outside the target type is undefined in C; the model gives
  0 for the first two and reduces the last to the type. The cast of an integer to
  \<^verbatim>\<open>float\<close> rounds.
\<close>

definition c_trunc :: "real \<Rightarrow> int" where
  "c_trunc x = (if 0 \<le> x then \<lfloor>x\<rfloor> else \<lceil>x\<rceil>)"

fun to_long :: "float \<Rightarrow> int" where
  "to_long (Fin x) = long32 (c_trunc x)"
| "to_long _ = 0"

fun to_int :: "float \<Rightarrow> int" where
  "to_int (Fin x) = int16 (c_trunc x)"
| "to_int _ = 0"

definition of_long :: "int \<Rightarrow> float" where
  "of_long n = round_to (real_of_int n)"

text \<open>
  \<^verbatim>\<open>cos\<close> of the C library is taken as correctly rounded: the binary32 number nearest
  to the cosine. \<^verbatim>\<open>PI\<close> is the macro of \<^verbatim>\<open>Arduino.h\<close>, a decimal literal.
\<close>

fun fcos :: "float \<Rightarrow> float" where
  "fcos (Fin x) = round_to (cos x)"
| "fcos _ = NaN"

definition PI :: float where
  "PI = round_to (31415926535897932384626433832795 / 10 ^ 31)"

subsubsection \<open>The binary32 pattern of a float\<close>

definition float_of_bits :: "32 word \<Rightarrow> float" where
  "float_of_bits w =
     (let e = uint (drop_bit 23 w AND 0xFF);
          m = uint (w AND 0x7FFFFF);
          v = (if e = 0 then real_of_int m * 2 powi (-149)
               else real_of_int (2 ^ 23 + m) * 2 powi (e - 150))
      in if e = 255 then (if m \<noteq> 0 then NaN else if bit w 31 then MInf else PInf)
         else Fin (if bit w 31 then - v else v))"

text \<open>
  The pattern of the nearest binary32 number. A zero is stored as \<open>+0\<close>, a NaN as the
  quiet NaN \<open>0x7FC00000\<close>.
\<close>

definition bits_of_float :: "float \<Rightarrow> 32 word" where
  "bits_of_float f =
     (case f of
        NaN \<Rightarrow> 0x7FC00000
      | PInf \<Rightarrow> 0x7F800000
      | MInf \<Rightarrow> 0xFF800000
      | Fin r \<Rightarrow>
          (let a = \<bar>r\<bar>; sgn = (if r < 0 then 0x80000000 else 0)
           in case find_exponent 254 (-126) a of
                None \<Rightarrow> sgn + 0x7F800000
              | Some e \<Rightarrow>
                  sgn + word_of_int ((e + 126) * 2 ^ 23 + round_even (a / 2 powi (e - 23)))))"

subsection \<open>The persistent store\<close>

type_synonym byte = "8 word"
type_synonym eeprom = "int \<Rightarrow> byte"

text \<open>
  The EEPROM of the Uno has 1024 cells, and its address register holds ten bits: an
  access at the address \<open>a\<close> goes to the cell \<open>a mod 1024\<close>. \<^verbatim>\<open>EEPROM.get\<close> and \<^verbatim>\<open>EEPROM.put\<close>
  copy the bytes of an object from and to consecutive addresses, lowest byte first.
\<close>

definition cell :: "int \<Rightarrow> int" where
  "cell a = a mod 1024"

definition get16 :: "eeprom \<Rightarrow> int \<Rightarrow> 16 word" where
  "get16 m a = ucast (m (cell a)) OR push_bit 8 (ucast (m (cell (a + 1))))"

definition get32 :: "eeprom \<Rightarrow> int \<Rightarrow> 32 word" where
  "get32 m a =
     ucast (m (cell a)) OR push_bit 8 (ucast (m (cell (a + 1))))
       OR push_bit 16 (ucast (m (cell (a + 2)))) OR push_bit 24 (ucast (m (cell (a + 3))))"

definition put16 :: "eeprom \<Rightarrow> int \<Rightarrow> 16 word \<Rightarrow> eeprom" where
  "put16 m a w = m(cell a := ucast w, cell (a + 1) := ucast (drop_bit 8 w))"

definition put32 :: "eeprom \<Rightarrow> int \<Rightarrow> 32 word \<Rightarrow> eeprom" where
  "put32 m a w =
     m(cell a := ucast w, cell (a + 1) := ucast (drop_bit 8 w),
       cell (a + 2) := ucast (drop_bit 16 w), cell (a + 3) := ucast (drop_bit 24 w))"

subsection \<open>The global variables\<close>

datatype SweepControlMode = SWEEP_MODE_FIRMWARE | SWEEP_MODE_GUI | SWEEP_MODE_PATTERN

fun int_of_mode :: "SweepControlMode \<Rightarrow> int" where
  "int_of_mode SWEEP_MODE_FIRMWARE = 0"
| "int_of_mode SWEEP_MODE_GUI = 1"
| "int_of_mode SWEEP_MODE_PATTERN = 2"

datatype error = DivisionByZero | NullPointer

text \<open>
  \<open>enPin\<close> is the level of \<^verbatim>\<open>EN_PIN\<close> (\<open>True\<close> is HIGH, the stepper driver disabled),
  \<open>attached\<close> is \<^verbatim>\<open>layServo.attached()\<close>, \<open>layServo\<close> the angle given to the last call of
  \<^verbatim>\<open>layServo.write\<close> (\<open>None\<close> before the first), \<open>eeprom\<close> the persistent store and \<open>out\<close> the
  log of the reports written to the serial port, in order: of every report its first
  line, as the literal text of that line without the numbers printed into it.
\<close>

record state =
  targetTurns :: int
  running :: bool
  paused :: bool
  verboseMode :: bool
  stepperForward :: bool
  servoMinAngle :: float
  servoMaxAngle :: float
  servoPos :: float
  bobbinHeight :: float
  wireDiameter :: float
  turnsPerLayer :: int
  bobbinLength :: float
  bobbinWidth :: float
  avgTurnLength :: float
  lastCalcRequestedResistance :: float
  lastCommandTime :: "32 word"
  timeoutLimit :: "32 word"
  outputsEnabled :: bool
  stepCount :: int
  totalSteps :: int
  initialStepDelay :: int
  minStepDelay :: int
  accelSteps :: int
  sweepControlMode :: SweepControlMode
  patternMinAngle :: float
  patternMaxAngle :: float
  patternScatter :: float
  patternTurnsPerLayer :: int
  addr :: int
  enPin :: bool
  attached :: bool
  layServo :: "int option"
  eeprom :: eeprom
  out :: "string list"

definition stepsPerTurn :: int where
  "stepsPerTurn = 3200"

text \<open>The initialisers of the globals; the store is what the chip holds at power-up.\<close>

definition power_up :: "eeprom \<Rightarrow> state" where
  "power_up m =
     \<lparr> targetTurns = 0, running = False, paused = False, verboseMode = False,
       stepperForward = True, servoMinAngle = Fin 70, servoMaxAngle = Fin 100,
       servoPos = Fin 70, bobbinHeight = Fin 9, wireDiameter = round_to (2 / 10),
       turnsPerLayer = 45, bobbinLength = Fin 60, bobbinWidth = Fin 4,
       avgTurnLength = Fin 140, lastCalcRequestedResistance = 0,
       lastCommandTime = 0, timeoutLimit = 10000, outputsEnabled = True,
       stepCount = 0, totalSteps = 0, initialStepDelay = 1000, minStepDelay = 300,
       accelSteps = 400, sweepControlMode = SWEEP_MODE_FIRMWARE,
       patternMinAngle = 0, patternMaxAngle = 0, patternScatter = 0,
       patternTurnsPerLayer = 0, addr = 0, enPin = False, attached = False,
       layServo = None, eeprom = m, out = [] \<rparr>"

definition println :: "string \<Rightarrow> state \<Rightarrow> state" where
  "println l s = s\<lparr>out := out s @ [l]\<rparr>"

definition layServo_write :: "int \<Rightarrow> state \<Rightarrow> state" where
  "layServo_write angle s = s\<lparr>layServo := Some angle\<rparr>"

subsection \<open>Outputs\<close>

definition enableOutputs :: "state \<Rightarrow> state" where
  "enableOutputs s =
     println ''STATUS: Outputs ENABLED''
       (s\<lparr>enPin := False, attached := True, outputsEnabled := True\<rparr>)"

definition disableOutputs :: "state \<Rightarrow> state" where
  "disableOutputs s =
     println ''STATUS: Outputs DISABLED''
       (s\<lparr>enPin := True, attached := False, outputsEnabled := False\<rparr>)"

definition enableServo :: "state \<Rightarrow> state" where
  "enableServo s = s\<lparr>attached := True\<rparr>"

definition disableServo :: "state \<Rightarrow> state" where
  "disableServo s = s\<lparr>attached := False\<rparr>"

subsection \<open>Derived winding parameters\<close>

definition computeWindingParameters :: "state \<Rightarrow> state" where
  "computeWindingParameters s =
     (let s = (if 0 < wireDiameter s
               then s\<lparr>turnsPerLayer := to_long (bobbinHeight s / wireDiameter s)\<rparr> else s)
      in s\<lparr>servoPos := servoMinAngle s\<rparr>)"

text \<open>The two sanity checks of \<^verbatim>\<open>updateAndValidate\<close>, then the computation.\<close>

definition recheck_servo_angles :: "state \<Rightarrow> state" where
  "recheck_servo_angles s =
     (let (s, anglesInvalid) =
            (if isnan (servoMinAngle s) \<or> servoMinAngle s < 0 \<or> Fin 180 < servoMinAngle s
                \<or> servoMaxAngle s \<le> servoMinAngle s
             then (s\<lparr>servoMinAngle := Fin 77\<rparr>, True) else (s, False));
          (s, anglesInvalid) =
            (if isnan (servoMaxAngle s) \<or> servoMaxAngle s < 0 \<or> Fin 180 < servoMaxAngle s
                \<or> servoMaxAngle s \<le> servoMinAngle s
             then (s\<lparr>servoMaxAngle := Fin 103\<rparr>, True) else (s, anglesInvalid))
      in if anglesInvalid
         then println ''WARN: Invalid servo angles detected, resetting to defaults.'' s
         else s)"

definition recheck_wire_diameter :: "state \<Rightarrow> state" where
  "recheck_wire_diameter s =
     (if isnan (wireDiameter s) \<or> wireDiameter s \<le> 0
      then println ''WARN: Invalid wire diameter detected, resetting to default.''
             (s\<lparr>wireDiameter := round_to (2 / 10)\<rparr>)
      else s)"

definition updateAndValidate :: "state \<Rightarrow> state" where
  "updateAndValidate s =
     computeWindingParameters (recheck_wire_diameter (recheck_servo_angles s))"

subsection \<open>Servo positioning\<close>

text \<open>The locals \<^verbatim>\<open>effectiveMin\<close> and \<^verbatim>\<open>effectiveMax\<close> of \<^verbatim>\<open>updateServoPosition\<close>.\<close>

definition effectiveMin :: "float \<Rightarrow> float \<Rightarrow> float \<Rightarrow> float" where
  "effectiveMin minAngle maxAngle scatterPercent =
     (let angleRange = maxAngle - minAngle;
          scatterAmount = angleRange * (scatterPercent / Fin 100)
      in minAngle + scatterAmount / Fin 2)"

definition effectiveMax :: "float \<Rightarrow> float \<Rightarrow> float \<Rightarrow> float" where
  "effectiveMax minAngle maxAngle scatterPercent =
     (let angleRange = maxAngle - minAngle;
          scatterAmount = angleRange * (scatterPercent / Fin 100)
      in maxAngle - scatterAmount / Fin 2)"

text \<open>
  The two divisions by \<^verbatim>\<open>totalTurnsInLayer\<close> come first in the body, before the test
  \<^verbatim>\<open>totalTurnsInLayer <= 1\<close>: with a zero divisor the call has no result. The servo
  gets the position cast to \<^verbatim>\<open>int\<close>.
\<close>

definition updateServoPosition ::
    "int \<Rightarrow> int \<Rightarrow> float \<Rightarrow> float \<Rightarrow> float \<Rightarrow> state \<Rightarrow> error + state" where
  "updateServoPosition currentStepCount totalTurnsInLayer minAngle maxAngle scatterPercent s =
     (let currentTurn = c_div currentStepCount stepsPerTurn
      in if totalTurnsInLayer = 0 then Inl DivisionByZero
         else
           let layer = c_div currentTurn totalTurnsInLayer;
               turnInLayer = c_mod currentTurn totalTurnsInLayer;
               effMin = effectiveMin minAngle maxAngle scatterPercent;
               effMax = effectiveMax minAngle maxAngle scatterPercent
           in if totalTurnsInLayer \<le> 1
              then
                let s = s\<lparr>servoPos := (if c_mod layer 2 = 0 then effMin else effMax)\<rparr>
                in Inr (layServo_write (to_int (servoPos s)) s)
              else
                let sweepRange = effMax - effMin;
                    pitchAngle = sweepRange / of_long (totalTurnsInLayer - 1);
                    s = (if c_mod layer 2 = 0
                         then s\<lparr>servoPos := effMin + of_long turnInLayer * pitchAngle\<rparr>
                         else s\<lparr>servoPos := effMax - of_long turnInLayer * pitchAngle\<rparr>)
                in Inr (layServo_write (to_int (servoPos s)) s))"

subsection \<open>The safety timeout\<close>

text \<open>\<open>now\<close> is the value \<^verbatim>\<open>millis()\<close> returns.\<close>

definition checkTimeout :: "32 word \<Rightarrow> state \<Rightarrow> state" where
  "checkTimeout now s =
     (if timeoutLimit s < now - lastCommandTime s
      then if outputsEnabled s
           then println ''STATUS: AUTO-TIMEOUT - Outputs disabled''
                  ((disableOutputs s)\<lparr>running := False\<rparr>)
           else s
      else s)"

subsection \<open>Settings in the persistent store\<close>

text \<open>
  The address macros. \<^verbatim>\<open>ADDR_SERVO_MIN\<close> is \<^verbatim>\<open>(addr)\<close>; every other one is
  \<^verbatim>\<open>(addr += sizeof(T))\<close>: it advances the global \<^verbatim>\<open>addr\<close>, an \<^verbatim>\<open>int\<close>, and yields the new
  value. \<^verbatim>\<open>addr\<close> is assigned nowhere else. \<^verbatim>\<open>EEPROM_SIZE\<close> is \<^verbatim>\<open>(addr + sizeof(int))\<close>, an
  \<^verbatim>\<open>unsigned int\<close>.
\<close>

definition ADDR_SERVO_MIN :: "state \<Rightarrow> state" where
  "ADDR_SERVO_MIN s = s"

definition ADDR_SERVO_MAX :: "state \<Rightarrow> state" where
  "ADDR_SERVO_MAX s = s\<lparr>addr := int16 (addr s + 4)\<rparr>"

definition ADDR_WIRE_DIAM :: "state \<Rightarrow> state" where
  "ADDR_WIRE_DIAM s = s\<lparr>addr := int16 (addr s + 4)\<rparr>"

definition ADDR_STEP_DELAY :: "state \<Rightarrow> state" where
  "ADDR_STEP_DELAY s = s\<lparr>addr := int16 (addr s + 4)\<rparr>"

definition ADDR_TIMEOUT :: "state \<Rightarrow> state" where
  "ADDR_TIMEOUT s = s\<lparr>addr := int16 (addr s + 2)\<rparr>"

definition ADDR_ACCEL_STEPS :: "state \<Rightarrow> state" where
  "ADDR_ACCEL_STEPS s = s\<lparr>addr := int16 (addr s + 4)\<rparr>"

definition ADDR_BOBBIN_LEN :: "state \<Rightarrow> state" where
  "ADDR_BOBBIN_LEN s = s\<lparr>addr := int16 (addr s + 4)\<rparr>"

definition ADDR_BOBBIN_WID :: "state \<Rightarrow> state" where
  "ADDR_BOBBIN_WID s = s\<lparr>addr := int16 (addr s + 4)\<rparr>"

definition ADDR_BOBBIN_H :: "state \<Rightarrow> state" where
  "ADDR_BOBBIN_H s = s\<lparr>addr := int16 (addr s + 4)\<rparr>"

definition ADDR_LAST_CALC_R :: "state \<Rightarrow> state" where
  "ADDR_LAST_CALC_R s = s\<lparr>addr := int16 (addr s + 4)\<rparr>"

definition ADDR_SWEEP_MODE :: "state \<Rightarrow> state" where
  "ADDR_SWEEP_MODE s = s\<lparr>addr := int16 (addr s + 4)\<rparr>"

definition EEPROM_SIZE :: "state \<Rightarrow> int" where
  "EEPROM_SIZE s = (addr s + 2) mod 65536"

text \<open>\<^verbatim>\<open>EEPROM.put\<close> and \<^verbatim>\<open>EEPROM.get\<close> at the address the macro has just left in \<^verbatim>\<open>addr\<close>.\<close>

definition put_float :: "float \<Rightarrow> state \<Rightarrow> state" where
  "put_float v s = s\<lparr>eeprom := put32 (eeprom s) (addr s) (bits_of_float v)\<rparr>"

definition put_int :: "int \<Rightarrow> state \<Rightarrow> state" where
  "put_int v s = s\<lparr>eeprom := put16 (eeprom s) (addr s) (word_of_int v)\<rparr>"

definition put_long :: "int \<Rightarrow> state \<Rightarrow> state" where
  "put_long v s = s\<lparr>eeprom := put32 (eeprom s) (addr s) (word_of_int v)\<rparr>"

definition put_ulong :: "32 word \<Rightarrow> state \<Rightarrow> state" where
  "put_ulong v s = s\<lparr>eeprom := put32 (eeprom s) (addr s) v\<rparr>"

definition get_float :: "state \<Rightarrow> float" where
  "get_float s = float_of_bits (get32 (eeprom s) (addr s))"

definition get_int :: "state \<Rightarrow> int" where
  "get_int s = sint (get16 (eeprom s) (addr s))"

definition get_long :: "state \<Rightarrow> int" where
  "get_long s = sint (get32 (eeprom s) (addr s))"

definition get_ulong :: "state \<Rightarrow> 32 word" where
  "get_ulong s = get32 (eeprom s) (addr s)"

definition saveSettings :: "state \<Rightarrow> state" where
  "saveSettings s =
     (let s = put_float (servoMinAngle s) (ADDR_SERVO_MIN s);
          s = put_float (servoMaxAngle s) (ADDR_SERVO_MAX s);
          s = put_float (wireDiameter s) (ADDR_WIRE_DIAM s);
          s = put_int (initialStepDelay s) (ADDR_STEP_DELAY s);
          s = put_ulong (timeoutLimit s) (ADDR_TIMEOUT s);
          s = put_long (accelSteps s) (ADDR_ACCEL_STEPS s);
          s = put_float (bobbinLength s) (ADDR_BOBBIN_LEN s);
          s = put_float (bobbinWidth s) (ADDR_BOBBIN_WID s);
          s = put_float (bobbinHeight s) (ADDR_BOBBIN_H s);
          s = put_float (lastCalcRequestedResistance s) (ADDR_LAST_CALC_R s);
          s = put_int (int_of_mode (sweepControlMode s)) (ADDR_SWEEP_MODE s)
      in println ''STATUS: Settings saved to EEPROM'' s)"

text \<open>
  The loop of \<^verbatim>\<open>clearEEPROM\<close> writes \<open>0xFF\<close> at the addresses \<open>0, 1, \<dots>\<close> below
  \<^verbatim>\<open>EEPROM_SIZE\<close>, which is \<^verbatim>\<open>addr + sizeof(int)\<close> at the time of the call.
\<close>

fun clear_cells :: "nat \<Rightarrow> eeprom \<Rightarrow> eeprom" where
  "clear_cells 0 m = m"
| "clear_cells (Suc n) m = (clear_cells n m)(cell (int n) := 0xFF)"

definition clearEEPROM :: "state \<Rightarrow> state" where
  "clearEEPROM s =
     (let s = println ''INFO: Clearing EEPROM...'' s;
          s = s\<lparr>eeprom := clear_cells (nat (EEPROM_SIZE s)) (eeprom s)\<rparr>
      in println ''STATUS: EEPROM cleared.'' s)"

definition calculateAvgTurnLength :: "state \<Rightarrow> state" where
  "calculateAvgTurnLength s =
     (if bobbinLength s \<le> 0 \<or> bobbinWidth s \<le> 0 \<or> wireDiameter s \<le> 0 \<or> targetTurns s \<le> 0
      then s\<lparr>avgTurnLength := 0\<rparr>
      else
        let corePerimeter = Fin 2 * bobbinLength s + PI * bobbinWidth s;
            turnsPerLayerNow = to_long (bobbinHeight s / wireDiameter s);
            turnsPerLayerNow = (if turnsPerLayerNow \<le> 0 then 1 else turnsPerLayerNow);
            totalLayers = of_long (targetTurns s) / of_long turnsPerLayerNow;
            windingThickness = totalLayers * wireDiameter s;
            finalPerimeter =
              Fin 2 * bobbinLength s + PI * (bobbinWidth s + Fin 2 * windingThickness)
        in s\<lparr>avgTurnLength := (corePerimeter + finalPerimeter) / Fin 2\<rparr>)"

text \<open>
  \<^verbatim>\<open>loadSettings\<close> reads the eleven fields and then runs its sanity checks, one
  definition for each check of the source, in the source's order. \<open>check_sweep_mode\<close>
  gets the \<^verbatim>\<open>int\<close> that was read into \<^verbatim>\<open>sweepControlMode\<close>.
\<close>

definition check_servo_angles :: "state \<Rightarrow> state" where
  "check_servo_angles s =
     (let (s, servoAnglesInvalid) =
            (if isnan (servoMinAngle s) \<or> servoMinAngle s < 0 \<or> Fin 180 < servoMinAngle s
             then (s\<lparr>servoMinAngle := Fin 77\<rparr>, True) else (s, False));
          (s, servoAnglesInvalid) =
            (if isnan (servoMaxAngle s) \<or> servoMaxAngle s < 0 \<or> Fin 180 < servoMaxAngle s
             then (s\<lparr>servoMaxAngle := Fin 103\<rparr>, True) else (s, servoAnglesInvalid));
          (s, servoAnglesInvalid) =
            (if servoMaxAngle s \<le> servoMinAngle s
             then (s\<lparr>servoMinAngle := Fin 77, servoMaxAngle := Fin 103\<rparr>, True)
             else (s, servoAnglesInvalid))
      in if servoAnglesInvalid
         then println ''WARN: Invalid servo angles in EEPROM, reset to defaults.'' s
         else s)"

definition check_wire_diameter :: "state \<Rightarrow> state" where
  "check_wire_diameter s =
     (if isnan (wireDiameter s) \<or> wireDiameter s \<le> 0
      then println ''WARN: Invalid wire diameter in EEPROM, reset to default.''
             (s\<lparr>wireDiameter := round_to (2 / 10)\<rparr>)
      else s)"

definition check_step_delay :: "state \<Rightarrow> state" where
  "check_step_delay s =
     (if initialStepDelay s \<le> minStepDelay s \<or> 20000 < initialStepDelay s
      then println ''WARN: Invalid step delay in EEPROM, reset to default.''
             (s\<lparr>initialStepDelay := 1000\<rparr>)
      else s)"

definition check_timeout_limit :: "state \<Rightarrow> state" where
  "check_timeout_limit s =
     (if timeoutLimit s < 1000
      then println ''WARN: Invalid timeout in EEPROM, reset to default.''
             (s\<lparr>timeoutLimit := 10000\<rparr>)
      else s)"

definition check_accel_steps :: "state \<Rightarrow> state" where
  "check_accel_steps s =
     (if accelSteps s \<le> 0 \<or> 10000 < accelSteps s
      then println ''WARN: Invalid accel steps in EEPROM, reset to default.''
             (s\<lparr>accelSteps := 400\<rparr>)
      else s)"

definition check_bobbin_length :: "state \<Rightarrow> state" where
  "check_bobbin_length s =
     (if isnan (bobbinLength s) \<or> bobbinLength s \<le> 0 \<or> Fin 1000 < bobbinLength s
      then println ''WARN: Invalid bobbin length in EEPROM, reset to default.''
             (s\<lparr>bobbinLength := Fin 60\<rparr>)
      else s)"

definition check_bobbin_width :: "state \<Rightarrow> state" where
  "check_bobbin_width s =
     (if isnan (bobbinWidth s) \<or> bobbinWidth s \<le> 0 \<or> Fin 1000 < bobbinWidth s
      then println ''WARN: Invalid bobbin width in EEPROM, reset to default.''
             (s\<lparr>bobbinWidth := Fin 4\<rparr>)
      else s)"

definition check_bobbin_height :: "state \<Rightarrow> state" where
  "check_bobbin_height s =
     (if isnan (bobbinHeight s) \<or> bobbinHeight s \<le> 0 \<or> Fin 100 < bobbinHeight s
      then println ''WARN: Invalid bobbin height in EEPROM, reset to default.''
             (s\<lparr>bobbinHeight := Fin 9\<rparr>)
      else s)"

definition check_last_resistance :: "state \<Rightarrow> state" where
  "check_last_resistance s =
     (if isnan (lastCalcRequestedResistance s) \<or> lastCalcRequestedResistance s < 0
      then println ''WARN: Invalid last calculated resistance in EEPROM, reset to default.''
             (s\<lparr>lastCalcRequestedResistance := 0\<rparr>)
      else s)"

definition check_sweep_mode :: "int \<Rightarrow> state \<Rightarrow> state" where
  "check_sweep_mode mode s =
     (if mode \<noteq> 0 \<and> mode \<noteq> 1
      then println ''WARN: Invalid sweep control mode in EEPROM, reset to default.''
             (s\<lparr>sweepControlMode := SWEEP_MODE_FIRMWARE\<rparr>)
      else s\<lparr>sweepControlMode := (if mode = 0 then SWEEP_MODE_FIRMWARE else SWEEP_MODE_GUI)\<rparr>)"

definition loadSettings :: "state \<Rightarrow> state" where
  "loadSettings s =
     (let s = ADDR_SERVO_MIN s; s = s\<lparr>servoMinAngle := get_float s\<rparr>;
          s = ADDR_SERVO_MAX s; s = s\<lparr>servoMaxAngle := get_float s\<rparr>;
          s = ADDR_WIRE_DIAM s; s = s\<lparr>wireDiameter := get_float s\<rparr>;
          s = ADDR_STEP_DELAY s; s = s\<lparr>initialStepDelay := get_int s\<rparr>;
          s = ADDR_TIMEOUT s; s = s\<lparr>timeoutLimit := get_ulong s\<rparr>;
          s = ADDR_ACCEL_STEPS s; s = s\<lparr>accelSteps := get_long s\<rparr>;
          s = ADDR_BOBBIN_LEN s; s = s\<lparr>bobbinLength := get_float s\<rparr>;
          s = ADDR_BOBBIN_WID s; s = s\<lparr>bobbinWidth := get_float s\<rparr>;
          s = ADDR_BOBBIN_H s; s = s\<lparr>bobbinHeight := get_float s\<rparr>;
          s = ADDR_LAST_CALC_R s; s = s\<lparr>lastCalcRequestedResistance := get_float s\<rparr>;
          s = ADDR_SWEEP_MODE s; mode = get_int s;
          s = check_servo_angles s;
          s = check_wire_diameter s;
          s = check_step_delay s;
          s = check_timeout_limit s;
          s = check_accel_steps s;
          s = check_bobbin_length s;
          s = check_bobbin_width s;
          s = check_bobbin_height s;
          s = check_last_resistance s;
          s = check_sweep_mode mode s;
          s = println ''STATUS: Settings loaded from EEPROM'' s
      in calculateAvgTurnLength s)"

text \<open>
  \<^verbatim>\<open>printStatus\<close> writes the status report and changes no variable. \<^verbatim>\<open>setup\<close> switches
  the outputs off, loads the settings and computes the derived parameters.
\<close>

definition printStatus :: "state \<Rightarrow> state" where
  "printStatus s = println ''--- CURRENT STATUS ---'' s"

definition arduino_setup :: "state \<Rightarrow> state" where
  "arduino_setup s =
     (let s = s\<lparr>enPin := True, outputsEnabled := False\<rparr>;
          s = loadSettings s;
          s = computeWindingParameters s;
          s = println ''--- Initial Settings Loaded ---'' s;
          s = printStatus s
      in println ''Pickup Coil Winder READY'' s)"

subsection \<open>The acceleration ramp\<close>

text \<open>
  \<^verbatim>\<open>delayRange\<close> and the result are \<^verbatim>\<open>int\<close>: the two subtractions are done in 16 bits.
\<close>

definition calculateSCurveDelay :: "state \<Rightarrow> int \<Rightarrow> int \<Rightarrow> int" where
  "calculateSCurveDelay s currentStepInRamp totalRampSteps =
     (let cos_input = of_long currentStepInRamp / of_long totalRampSteps;
          cos_output = fcos (cos_input * PI);
          multiplier = (1 - cos_output) / Fin 2;
          delayRange = int16 (initialStepDelay s - minStepDelay s)
      in int16 (initialStepDelay s - to_int (of_long delayRange * multiplier)))"

text \<open>
  \<^verbatim>\<open>stepWithAcceleration\<close> emits one pulse with the delay it returns and counts it.
\<close>

definition stepWithAcceleration :: "state \<Rightarrow> int \<times> state" where
  "stepWithAcceleration s =
     (let currentTurn = c_div (stepCount s) stepsPerTurn;
          stepsIntoTurn = c_mod (stepCount s) stepsPerTurn;
          delayNow =
            (if currentTurn = 0 \<and> stepsIntoTurn < accelSteps s
             then calculateSCurveDelay s stepsIntoTurn (accelSteps s)
             else if currentTurn = long32 (targetTurns s - 1)
                     \<and> long32 (stepsPerTurn - accelSteps s) \<le> stepsIntoTurn
             then let decelStepCount =
                        long32 (stepsIntoTurn - long32 (stepsPerTurn - accelSteps s))
                  in calculateSCurveDelay s (long32 (accelSteps s - decelStepCount))
                       (accelSteps s)
             else minStepDelay s);
          delayNow = (if delayNow < minStepDelay s then minStepDelay s else delayNow)
      in (delayNow, s\<lparr>stepCount := long32 (stepCount s + 1)\<rparr>))"

subsection \<open>Command lines\<close>

text \<open>
  \<^verbatim>\<open>checkSerial\<close> hands over one line, converted to upper case. \<^verbatim>\<open>strtok_r\<close> with the
  delimiter \<^verbatim>\<open>" "\<close> yields the maximal runs of characters other than the space.
\<close>

fun tokenize :: "string \<Rightarrow> string \<Rightarrow> string list" where
  "tokenize [] cur = (if cur = [] then [] else [cur])"
| "tokenize (c # cs) cur =
     (if c = CHR '' '' then (if cur = [] then tokenize cs [] else cur # tokenize cs [])
      else tokenize cs (cur @ [c]))"

definition tokens :: "string \<Rightarrow> string list" where
  "tokens str = tokenize str []"

definition is_digit :: "char \<Rightarrow> bool" where
  "is_digit c = (48 \<le> (of_char c :: nat) \<and> (of_char c :: nat) \<le> 57)"

definition number :: "string \<Rightarrow> int" where
  "number ds = foldl (\<lambda>n c. 10 * n + (int (of_char c) - 48)) 0 ds"

text \<open>
  \<^verbatim>\<open>atol\<close>, \<^verbatim>\<open>atoi\<close> and \<^verbatim>\<open>atof\<close> of the C library read the longest numeric prefix of
  a token, 0 when there is none. \<^verbatim>\<open>atol\<close> and \<^verbatim>\<open>atoi\<close> do not check for overflow: the
  number read is reduced to the type. \<^verbatim>\<open>atof\<close> reads a decimal number with an optional
  fraction and exponent (the letter \<^verbatim>\<open>E\<close>: the line is in upper case), and the words
  \<^verbatim>\<open>INF\<close> and \<^verbatim>\<open>NAN\<close>; its result is taken as the binary32 number nearest to the number
  read.
\<close>

definition digits :: "string \<Rightarrow> int" where
  "digits str =
     (case str of
        [] \<Rightarrow> 0
      | c # cs \<Rightarrow>
          if c = CHR ''-'' then - number (takeWhile is_digit cs)
          else if c = CHR ''+'' then number (takeWhile is_digit cs)
          else number (takeWhile is_digit str))"

definition atol :: "string \<Rightarrow> int" where
  "atol str = long32 (digits str)"

definition atoi :: "string \<Rightarrow> int" where
  "atoi str = int16 (digits str)"

definition atof :: "string \<Rightarrow> float" where
  "atof str =
     (let (sg, r) =
            (case str of
               [] \<Rightarrow> (1, [])
             | c # cs \<Rightarrow>
                 if c = CHR ''-'' then (- 1, cs) else if c = CHR ''+'' then (1, cs) else (1, str))
      in if take 3 r = ''INF'' then infinity sg
         else if take 3 r = ''NAN'' then NaN
         else
           let ip = takeWhile is_digit r;
               r = dropWhile is_digit r;
               (fp, r) =
                 (case r of
                    [] \<Rightarrow> ([], [])
                  | c # cs \<Rightarrow>
                      if c = CHR ''.'' then (takeWhile is_digit cs, dropWhile is_digit cs)
                      else ([], r));
               ex = (case r of [] \<Rightarrow> 0 | c # cs \<Rightarrow> if c = CHR ''E'' then digits cs else 0)
           in round_to (sg * (real_of_int (number ip) + real_of_int (number fp) / 10 ^ length fp)
                          * 10 powi ex))"

definition toupper :: "char \<Rightarrow> char" where
  "toupper c =
     (if 97 \<le> (of_char c :: nat) \<and> (of_char c :: nat) \<le> 122
      then char_of ((of_char c :: nat) - 32) else c)"

subsection \<open>The command handlers\<close>

text \<open>
  Each handler below is one branch of \<^verbatim>\<open>processCommand\<close>. \<open>action\<close> is the second token
  and \<open>args\<close> the tokens after it, in the order \<^verbatim>\<open>strtok_r\<close> hands them out; a call of
  \<^verbatim>\<open>strtok_r\<close> that finds no token returns \<^verbatim>\<open>NULL\<close>. Pulses on the step pin are outside
  the state.
\<close>

definition cmd_WIND :: "string \<Rightarrow> string list \<Rightarrow> state \<Rightarrow> error + state" where
  "cmd_WIND action args s =
     (if action = ''START'' then
        let s = s\<lparr>verboseMode := (case args of [] \<Rightarrow> False | arg # _ \<Rightarrow> arg = ''-V'')\<rparr>;
            s = (if verboseMode s then println ''INFO: Verbose mode enabled.'' s else s);
            s = printStatus s;
            s = enableOutputs s;
            s = s\<lparr>servoPos := (if sweepControlMode s = SWEEP_MODE_PATTERN
                               then patternMinAngle s else servoMinAngle s)\<rparr>;
            s = layServo_write (to_int (servoPos s)) s;
            s = s\<lparr>totalSteps := long32 (targetTurns s * stepsPerTurn), stepCount := 0,
                  running := True, paused := False\<rparr>
        in Inr (println ''STATUS: Winding STARTED'' s)
      else if action = ''STOP'' then
        Inr (println ''STATUS: Winding STOPPED'' (s\<lparr>running := False, verboseMode := False\<rparr>))
      else if action = ''PAUSE'' then
        Inr (if running s
             then println ''STATUS: Winding PAUSED'' (s\<lparr>running := False, paused := True\<rparr>)
             else s)
      else if action = ''RESUME'' then
        Inr (if paused s
             then println ''STATUS: Winding RESUMED''
                    ((enableOutputs s)\<lparr>running := True, paused := False\<rparr>)
             else s)
      else if action = ''COUNT'' then
        Inr (case args of
               [] \<Rightarrow> s
             | v # _ \<Rightarrow>
                 let s = s\<lparr>targetTurns := atol v, stepCount := 0\<rparr>;
                     s = calculateAvgTurnLength s;
                     s = s\<lparr>lastCalcRequestedResistance := 0\<rparr>
                 in println ''PARAM: Target turns = '' s)
      else if action = ''SPEED'' then
        Inr (case args of
               [] \<Rightarrow> s
             | v # _ \<Rightarrow>
                 let speed = atoi v
                 in if 0 < speed
                    then println ''PARAM: Speed set to  steps/sec (delay: us)''
                           (s\<lparr>minStepDelay := int16 (1000000 div speed div 2)\<rparr>)
                    else s)
      else if action = ''DIR'' then
        Inr (case args of
               [] \<Rightarrow> s
             | v # _ \<Rightarrow>
                 println ''PARAM: Stepper direction = '' (s\<lparr>stepperForward := (v = ''FWD'')\<rparr>))
      else if action = ''SWEEP'' then
        (case args of
           [] \<Rightarrow> Inl NullPointer
         | mode # _ \<Rightarrow>
             Inr (if mode = ''FIRMWARE''
                  then println ''PARAM: Sweep control set to FIRMWARE.''
                         (s\<lparr>sweepControlMode := SWEEP_MODE_FIRMWARE\<rparr>)
                  else if mode = ''GUI''
                  then println ''PARAM: Sweep control set to GUI.''
                         (s\<lparr>sweepControlMode := SWEEP_MODE_GUI\<rparr>)
                  else if mode = ''PATTERN''
                  then println ''PARAM: Sweep control set to PATTERN.''
                         (s\<lparr>sweepControlMode := SWEEP_MODE_PATTERN\<rparr>)
                  else s))
      else if action = ''PATTERN'' then
        Inr (case args of
               min_str # max_str # tpl_str # scatter_str # _ \<Rightarrow>
                 println ''PARAM: Sweep pattern received.''
                   (s\<lparr>patternMinAngle := atof min_str, patternMaxAngle := atof max_str,
                      patternTurnsPerLayer := atol tpl_str, patternScatter := atof scatter_str\<rparr>)
             | _ \<Rightarrow> s)
      else if action = ''SCATTER'' then
        Inr (case args of
               [] \<Rightarrow> s
             | v # _ \<Rightarrow> println ''PARAM: Live scatter updated to '' (s\<lparr>patternScatter := atof v\<rparr>))
      else Inr s)"

definition cmd_SERVO :: "string \<Rightarrow> string list \<Rightarrow> state \<Rightarrow> state" where
  "cmd_SERVO action args s =
     (if action = ''STATUS'' then
        println (if attached s then ''SERVO_STATUS: ENABLED | POS: ''
                 else ''SERVO_STATUS: DISABLED | POS: '') s
      else if action = ''ENABLE'' then println ''STATUS: Servo ENABLED'' (enableServo s)
      else if action = ''DISABLE'' then println ''STATUS: Servo DISABLED'' (disableServo s)
      else if action = ''POS'' then
        (case args of
           [] \<Rightarrow> s
         | v # _ \<Rightarrow>
             let s = s\<lparr>servoPos := atof v\<rparr>;
                 s = (if \<not> attached s then enableServo s else s);
                 s = layServo_write (to_int (servoPos s)) s
             in println ''STATUS: Servo moved to '' s)
      else if action = ''CALIBRATE'' then
        (case args of
           minStr # maxStr # _ \<Rightarrow>
             let s = enableOutputs s;
                 s = s\<lparr>servoMinAngle := atof minStr\<rparr>;
                 s = s\<lparr>servoMaxAngle := atof maxStr\<rparr>;
                 s = updateAndValidate s;
                 s = println ''PARAM: Servo Min/Max Angle = /'' s;
                 s = layServo_write (to_int (servoMinAngle s)) s;
                 s = layServo_write (to_int (servoMaxAngle s)) s;
                 s = layServo_write (to_int (servoMinAngle s)) s
             in disableOutputs s
         | _ \<Rightarrow> println ''ERROR: Invalid format. Use: SERVO CALIBRATE <min> <max>'' s)
      else s)"

definition cmd_STEPPER :: "string \<Rightarrow> string list \<Rightarrow> state \<Rightarrow> state" where
  "cmd_STEPPER action args s =
     (if action = ''STATUS'' then
        println (if \<not> enPin s then ''STEPPER_STATUS: ENABLED'' else ''STEPPER_STATUS: DISABLED'') s
      else if action = ''ENABLE'' then println ''STATUS: Stepper ENABLED'' (s\<lparr>enPin := False\<rparr>)
      else if action = ''DISABLE'' then println ''STATUS: Stepper DISABLED'' (s\<lparr>enPin := True\<rparr>)
      else if action = ''MOVE'' then
        (case args of
           [] \<Rightarrow> s
         | v # _ \<Rightarrow>
             let s = println ''INFO: Stepper moving  steps...'' s;
                 s = enableOutputs s;
                 s = println ''STATUS: Stepper move completed.'' s
             in disableOutputs s)
      else s)"

definition restoreDefaults :: "state \<Rightarrow> state" where
  "restoreDefaults s =
     (let s = println ''INFO: Restoring all settings to factory defaults.'' s;
          s = clearEEPROM s;
          s = loadSettings s;
          s = s\<lparr>lastCalcRequestedResistance := 0\<rparr>;
          s = updateAndValidate s
      in saveSettings s)"

definition cmd_SYS :: "string \<Rightarrow> state \<Rightarrow> state" where
  "cmd_SYS action s =
     (if action = ''STATUS'' then printStatus s
      else if action = ''SAVE'' then saveSettings s
      else if action = ''LOAD'' then updateAndValidate (loadSettings s)
      else if action = ''RESET'' then restoreDefaults s
      else if action = ''VERSION'' then println ''FIRMWARE_VERSION: 1.2.0'' s
      else if action = ''HELP'' then println ''Commands:'' s
      else s)"

definition cmd_BOBBIN :: "string \<Rightarrow> string list \<Rightarrow> state \<Rightarrow> state" where
  "cmd_BOBBIN action args s =
     (case args of
        w_str # h_str # _ \<Rightarrow>
          let l = atof action; w = atof w_str; h = atof h_str
          in if l \<le> 0 \<or> w \<le> 0 \<or> h \<le> 0
             then println ''ERROR: Bobbin dimensions must be positive numbers.'' s
             else
               let s = s\<lparr>bobbinLength := l, bobbinWidth := w, bobbinHeight := h\<rparr>;
                   s = updateAndValidate s;
                   s = calculateAvgTurnLength s
               in println ''PARAM: Bobbin dimensions updated:'' s
      | _ \<Rightarrow> println ''ERROR: Invalid BOBBIN format. Use: BOBBIN <len> <wid> <hgt>'' s)"

definition cmd_WIRE_DIA :: "string \<Rightarrow> state \<Rightarrow> state" where
  "cmd_WIRE_DIA action s =
     (let s = s\<lparr>wireDiameter := atof action\<rparr>;
          s = updateAndValidate s;
          s = calculateAvgTurnLength s
      in println ''PARAM: Wire diameter = '' s)"

definition COPPER_RESISTIVITY :: float where
  "COPPER_RESISTIVITY = round_to (168 / 10 ^ 10)"

text \<open>
  The ten rounds of the solver in \<^verbatim>\<open>CALC\<close>; \<open>Inl\<close> is the early \<^verbatim>\<open>return\<close> inside the loop.
\<close>

fun calc_rounds :: "nat \<Rightarrow> float \<Rightarrow> float \<Rightarrow> int \<Rightarrow> state \<Rightarrow> state + int \<times> state" where
  "calc_rounds 0 targetResistance area_m2 calculatedTurns s = Inr (calculatedTurns, s)"
| "calc_rounds (Suc n) targetResistance area_m2 calculatedTurns s =
     (let s = calculateAvgTurnLength (s\<lparr>targetTurns := calculatedTurns\<rparr>)
      in if avgTurnLength s \<le> 0
         then Inl ((println ''ERROR: Could not calculate average turn length.'' s)
                     \<lparr>targetTurns := 0\<rparr>)
         else
           let totalLength_m = (targetResistance * area_m2) / COPPER_RESISTIVITY
           in calc_rounds n targetResistance area_m2
                (to_long ((totalLength_m * Fin 1000) / avgTurnLength s)) s)"

definition cmd_CALC :: "string \<Rightarrow> state \<Rightarrow> state" where
  "cmd_CALC action s =
     (let (s, ready) =
            (if bobbinLength s \<le> 0 \<or> bobbinWidth s \<le> 0 \<or> bobbinHeight s \<le> 0
             then (println ''ERROR: Bobbin dimensions not set. Use: BOBBIN <L> <W> <H>'' s, False)
             else (s, True));
          (s, ready) =
            (if wireDiameter s \<le> 0
             then (println ''ERROR: Wire diameter not set. Use: WIRE_DIA <mm>'' s, False)
             else (s, ready))
      in if \<not> ready then s
         else
           let targetResistance = atof action;
               unit = toupper (last action)
           in if unit \<noteq> CHR ''K'' \<and> unit \<noteq> CHR ''R''
              then println ''ERROR: Invalid CALC format. Use: CALC <value>R or CALC <value>K'' s
              else
                let targetResistance =
                      (if unit = CHR ''K'' then targetResistance * Fin 1000
                       else targetResistance)
                in if targetResistance \<le> 0
                   then println ''ERROR: Target resistance must be positive.'' s
                   else
                     let s = println ''INFO: Calculating turns for  Ohms...'' s;
                         s = s\<lparr>lastCalcRequestedResistance := targetResistance\<rparr>;
                         radius_m = (wireDiameter s / Fin 2) / Fin 1000;
                         area_m2 = PI * radius_m * radius_m
                     in case calc_rounds 10 targetResistance area_m2 1000 s of
                          Inl s \<Rightarrow> s
                        | Inr (calculatedTurns, s) \<Rightarrow>
                            let s = calculateAvgTurnLength (s\<lparr>targetTurns := calculatedTurns\<rparr>);
                                s = println ''--- CALCULATION RESULTS ---'' s
                            in println ''STATUS: Target turns updated.'' s)"

subsection \<open>The diagnostic commands\<close>

text \<open>
  \<^verbatim>\<open>TEST_LAYER\<close> reads its arguments by their first letter: \<^verbatim>\<open>C\<close> the turns, \<^verbatim>\<open>A\<close> the sweep
  angle, \<^verbatim>\<open>R1\<close> resume, \<^verbatim>\<open>S\<close> the speed (which only sets the delay of the test's pulses).
  The local variables are the tuple \<open>(testTurns, testMinAngle, testMaxAngle, resume)\<close>.
\<close>

fun test_layer_args ::
    "string list \<Rightarrow> state \<Rightarrow> int \<times> float \<times> float \<times> bool \<Rightarrow> int \<times> float \<times> float \<times> bool" where
  "test_layer_args [] s v = v"
| "test_layer_args (token # rest) s (testTurns, testMinAngle, testMaxAngle, resume) =
     test_layer_args rest s
       (if take 1 token = ''C'' then (atol (drop 1 token), testMinAngle, testMaxAngle, resume)
        else if take 1 token = ''A'' then
          let sweepAngle = atof (drop 1 token)
          in if 0 < sweepAngle \<and> sweepAngle \<le> Fin 180
             then let center = (servoMinAngle s + servoMaxAngle s) / Fin 2
                  in (testTurns, center - sweepAngle / Fin 2, center + sweepAngle / Fin 2,
                      resume)
             else (testTurns, testMinAngle, testMaxAngle, resume)
        else if take 1 token = ''R'' then
          (testTurns, testMinAngle, testMaxAngle, if drop 1 token = ''1'' then True else resume)
        else (testTurns, testMinAngle, testMaxAngle, resume))"

text \<open>
  The test's own loop, for a test during which no line arrives on the serial port:
  \<^verbatim>\<open>running\<close> stays set, and the guard \<^verbatim>\<open>stepCount < totalSteps\<close> holds for exactly the
  number of rounds given as the first argument.
\<close>

fun test_layer_loop :: "nat \<Rightarrow> int \<Rightarrow> float \<Rightarrow> float \<Rightarrow> state \<Rightarrow> error + state" where
  "test_layer_loop 0 testTurns testMinAngle testMaxAngle s = Inr s"
| "test_layer_loop (Suc n) testTurns testMinAngle testMaxAngle s =
     (let s = s\<lparr>stepCount := long32 (stepCount s + 1)\<rparr>
      in if 0 < stepCount s \<and> c_mod (stepCount s) stepsPerTurn = 0
         then case updateServoPosition (stepCount s) testTurns testMinAngle testMaxAngle 0
                     (println ''  -> Turn:  | Servo Pos: '' s) of
                Inl e \<Rightarrow> Inl e
              | Inr s \<Rightarrow> test_layer_loop n testTurns testMinAngle testMaxAngle s
         else test_layer_loop n testTurns testMinAngle testMaxAngle s)"

definition cmd_TEST_LAYER :: "string \<Rightarrow> state \<Rightarrow> error + state" where
  "cmd_TEST_LAYER args s =
     (let (testTurns, testMinAngle, testMaxAngle, resume) =
            test_layer_args (tokens args) s
              (turnsPerLayer s, servoMinAngle s, servoMaxAngle s, False);
          s = (if \<not> resume
               then layServo_write (to_int testMinAngle) (s\<lparr>servoPos := testMinAngle\<rparr>)
               else s);
          s = enableOutputs s;
          s = println ''INFO: Testing 1 layer...'' s;
          s = s\<lparr>totalSteps := long32 (testTurns * stepsPerTurn), stepCount := 0,
                running := True\<rparr>
      in case test_layer_loop (nat (totalSteps s)) testTurns testMinAngle testMaxAngle s of
           Inl e \<Rightarrow> Inl e
         | Inr s \<Rightarrow>
             Inr (disableOutputs ((println ''STATUS: Layer test done.'' s)\<lparr>running := False\<rparr>)))"

definition cmd_TEST_STEPPER :: "state \<Rightarrow> state" where
  "cmd_TEST_STEPPER s =
     (let s = enableOutputs s;
          s = println ''INFO: Stepper buzz test (50 steps)...'' s;
          s = println ''STATUS: Stepper buzz test done.'' s
      in disableOutputs s)"

definition cmd_TEST_STEPPER_MOVE :: "state \<Rightarrow> state" where
  "cmd_TEST_STEPPER_MOVE s =
     (let s = println ''INFO: Stepper moving  steps  at  steps/sec'' s;
          s = enableOutputs s;
          s = println ''STATUS: Stepper test move completed.'' s
      in disableOutputs s)"

subsection \<open>The dispatcher\<close>

text \<open>
  \<open>now\<close> is the value of \<^verbatim>\<open>millis()\<close> at entry. A missing action is replaced by the
  literal \<^verbatim>\<open>"STATUS"\<close>.
\<close>

definition processCommand :: "string \<Rightarrow> 32 word \<Rightarrow> state \<Rightarrow> error + state" where
  "processCommand cmd_str now s =
     (let s = s\<lparr>lastCommandTime := now\<rparr>
      in if take 10 cmd_str = ''TEST_LAYER'' then cmd_TEST_LAYER (drop 10 cmd_str) s
         else if cmd_str = ''TEST_STEPPER'' then Inr (cmd_TEST_STEPPER s)
         else if take 18 cmd_str = ''TEST_STEPPER_MOVE '' then Inr (cmd_TEST_STEPPER_MOVE s)
         else if cmd_str = ''RESTORE_DEFAULTS'' then Inr (restoreDefaults s)
         else if cmd_str = ''STATUS'' then Inr (printStatus s)
         else
           case tokens cmd_str of
             [] \<Rightarrow> Inr s
           | component # rest \<Rightarrow>
               let (action, args) = (case rest of [] \<Rightarrow> (''STATUS'', []) | a # as \<Rightarrow> (a, as))
               in if component = ''WIND'' then cmd_WIND action args s
                  else if component = ''SERVO'' then Inr (cmd_SERVO action args s)
                  else if component = ''STEPPER'' then Inr (cmd_STEPPER action args s)
                  else if component = ''SYS'' then Inr (cmd_SYS action s)
                  else if component = ''BOBBIN'' then Inr (cmd_BOBBIN action args s)
                  else if component = ''WIRE_DIA'' then Inr (cmd_WIRE_DIA action s)
                  else if component = ''CALC'' then Inr (cmd_CALC action s)
                  else Inr (println ''ERROR: Unknown command.'' s))"

subsection \<open>The main loop\<close>

text \<open>
  One round of \<^verbatim>\<open>loop\<close>. \<open>line\<close> is the command line \<^verbatim>\<open>checkSerial\<close> has completed in this
  round, if any, with the clock value \<^verbatim>\<open>processCommand\<close> reads; \<open>now\<close> is the clock value
  \<^verbatim>\<open>checkTimeout\<close> reads.
\<close>

definition loop :: "(string \<times> 32 word) option \<Rightarrow> 32 word \<Rightarrow> state \<Rightarrow> error + state" where
  "loop line now s =
     (case (case line of None \<Rightarrow> Inr s | Some (cmd_str, t) \<Rightarrow> processCommand cmd_str t s) of
        Inl e \<Rightarrow> Inl e
      | Inr s \<Rightarrow>
          let s = checkTimeout now s
          in if running s \<and> outputsEnabled s \<and> stepCount s < totalSteps s
             then
               let (currentDelay, s) = stepWithAcceleration s;
                   s = (if verboseMode s \<and> 0 < stepCount s \<and> c_mod (stepCount s) stepsPerTurn = 0
                        then println ''  -> Turn:  | Servo Pos: '' s else s)
               in case (if 0 < stepCount s \<and> c_mod (stepCount s) stepsPerTurn = 0
                        then if sweepControlMode s = SWEEP_MODE_FIRMWARE
                             then updateServoPosition (stepCount s) (turnsPerLayer s)
                                    (servoMinAngle s) (servoMaxAngle s) 0 s
                             else if sweepControlMode s = SWEEP_MODE_PATTERN
                             then updateServoPosition (stepCount s) (patternTurnsPerLayer s)
                                    (patternMinAngle s) (patternMaxAngle s) (patternScatter s) s
                             else Inr s
                        else Inr s) of
                    Inl e \<Rightarrow> Inl e
                  | Inr s \<Rightarrow>
                      Inr (if totalSteps s \<le> stepCount s
                           then disableOutputs
                                  (println ''STATUS: Winding completed.''
                                     (s\<lparr>running := False, verboseMode := False\<rparr>))
                           else s)
             else Inr s)"

text \<open>A run of the loop over a list of rounds; it stops at the first error.\<close>

fun run :: "((string \<times> 32 word) option \<times> 32 word) list \<Rightarrow> state \<Rightarrow> error + state" where
  "run [] s = Inr s"
| "run ((line, now) # rounds) s =
     (case loop line now s of Inl e \<Rightarrow> Inl e | Inr s \<Rightarrow> run rounds s)"

subsection \<open>Power-up\<close>

text \<open>
  An erased store holds \<open>0xFF\<close> in every cell, as \<^verbatim>\<open>clearEEPROM\<close> writes it. \<open>boot\<close> is
  the state after \<^verbatim>\<open>setup\<close> on a chip with an erased store.
\<close>

definition erased :: eeprom where
  "erased = (\<lambda>_. 0xFF)"

definition boot :: state where
  "boot = arduino_setup (power_up erased)"

text \<open>
  The value of \<open>boot\<close>, field by field (lemma \<open>boot_eq\<close> below). The wire diameter is the
  binary32 number nearest to 0.2.
\<close>

definition boot_state :: state where
  "boot_state =
     \<lparr> targetTurns = 0, running = False, paused = False, verboseMode = False,
       stepperForward = True, servoMinAngle = Fin 77, servoMaxAngle = Fin 103,
       servoPos = Fin 77, bobbinHeight = Fin 9, wireDiameter = Fin (13421773 / 67108864),
       turnsPerLayer = 45, bobbinLength = Fin 60, bobbinWidth = Fin 4,
       avgTurnLength = Fin 0, lastCalcRequestedResistance = Fin 0, lastCommandTime = 0,
       timeoutLimit = 4294967295, outputsEnabled = False, stepCount = 0, totalSteps = 0,
       initialStepDelay = 1000, minStepDelay = 300, accelSteps = 400,
       sweepControlMode = SWEEP_MODE_FIRMWARE, patternMinAngle = Fin 0,
       patternMaxAngle = Fin 0, patternScatter = Fin 0, patternTurnsPerLayer = 0,
       addr = 38, enPin = True, attached = False, layServo = None, eeprom = erased,
       out =
         [''WARN: Invalid servo angles in EEPROM, reset to defaults.'',
          ''WARN: Invalid wire diameter in EEPROM, reset to default.'',
          ''WARN: Invalid step delay in EEPROM, reset to default.'',
          ''WARN: Invalid accel steps in EEPROM, reset to default.'',
          ''WARN: Invalid bobbin length in EEPROM, reset to default.'',
          ''WARN: Invalid bobbin width in EEPROM, reset to default.'',
          ''WARN: Invalid bobbin height in EEPROM, reset to default.'',
          ''WARN: Invalid last calculated resistance in EEPROM, reset to default.'',
          ''WARN: Invalid sweep control mode in EEPROM, reset to default.'',
          ''STATUS: Settings loaded from EEPROM'',
          ''--- Initial Settings Loaded ---'', ''--- CURRENT STATUS ---'',
          ''Pickup Coil Winder READY''] \<rparr>"

text \<open>The state after the command \<^verbatim>\<open>SERVO CALIBRATE 10 20\<close>, given to the booted machine.\<close>

definition calibrated :: state where
  "calibrated = cmd_SERVO ''CALIBRATE'' [''10'', ''20''] boot"

text \<open>
  A winding job of one turn in \<^verbatim>\<open>PATTERN\<close> mode, started without any \<^verbatim>\<open>WIND PATTERN\<close>
  command; each command arrives in a round of its own at clock value 0.
\<close>

definition pattern_job :: "((string \<times> 32 word) option \<times> 32 word) list" where
  "pattern_job =
     [(Some (''WIND SWEEP PATTERN'', 0), 0), (Some (''WIND COUNT 1'', 0), 0),
      (Some (''WIND START'', 0), 0)]"

text \<open>
  A store that is erased but for the cells 14 to 17, where \<^verbatim>\<open>timeoutLimit\<close> lies at the
  first \<^verbatim>\<open>loadSettings\<close>: they hold 10000 (\<open>0x00002710\<close>). \<open>boot_10s\<close> is the machine booted
  from it, with the timeout of ten seconds. \<open>paused_job\<close> starts a job of five turns,
  pauses it at 100 ms and lets the clock reach 20 s without a further command.
\<close>

definition timeout_10s :: eeprom where
  "timeout_10s = erased(14 := 0x10, 15 := 0x27, 16 := 0, 17 := 0)"

definition boot_10s :: state where
  "boot_10s = arduino_setup (power_up timeout_10s)"

definition paused_job :: "((string \<times> 32 word) option \<times> 32 word) list" where
  "paused_job =
     [(Some (''WIND COUNT 5'', 0), 0), (Some (''WIND START'', 0), 0),
      (Some (''WIND PAUSE'', 100), 100), (None, 20000)]"

section \<open>Properties\<close>

subsection \<open>Rounding to binary32\<close>

lemma find_exponent_Some_iff:
  "find_exponent n e a = Some e' \<longleftrightarrow>
     e \<le> e' \<and> e' < e + int n \<and> a < 2 powi (e' + 1) \<and> (e < e' \<longrightarrow> 2 powi e' \<le> a)"
proof (induction n arbitrary: e)
  case 0
  then show ?case by simp
next
  case (Suc n)
  show ?case
  proof (cases "a < 2 powi (e + 1)")
    case True
    have "\<not> 2 powi e' \<le> a" if "e < e'"
    proof -
      have "(2::real) powi (e + 1) \<le> 2 powi e'"
        using that by (intro power_int_increasing) simp_all
      with True show ?thesis by simp
    qed
    with True show ?thesis by auto
  next
    case False
    have ih: "find_exponent n (e + 1) a = Some e' \<longleftrightarrow>
        e + 1 \<le> e' \<and> e' < e + 1 + int n \<and> a < 2 powi (e' + 1)
          \<and> (e + 1 < e' \<longrightarrow> 2 powi e' \<le> a)"
      by (rule Suc.IH)
    have lhs: "find_exponent (Suc n) e a = find_exponent n (e + 1) a"
      using False by simp
    consider "e' = e" | "e' = e + 1" | "e' \<noteq> e" "e' \<noteq> e + 1" by blast
    then show ?thesis
    proof cases
      case 1
      with False show ?thesis unfolding lhs ih by simp
    next
      case 2
      with False show ?thesis unfolding lhs ih by simp
    next
      case 3
      then show ?thesis unfolding lhs ih by auto
    qed
  qed
qed

lemma find_exponent_None_iff:
  "find_exponent n e a = None \<longleftrightarrow> n = 0 \<or> 2 powi (e + int n) \<le> a"
proof (induction n arbitrary: e)
  case 0
  then show ?case by simp
next
  case (Suc n)
  show ?case
  proof (cases "a < 2 powi (e + 1)")
    case True
    have "(2::real) powi (e + 1) \<le> 2 powi (e + int (Suc n))"
      by (intro power_int_increasing) simp_all
    with True show ?thesis by simp
  next
    case False
    with Suc.IH [of "e + 1"] show ?thesis by (auto simp add: add.assoc)
  qed
qed

lemma round_even_of_int [simp]: "round_even (real_of_int n) = n"
  by (simp add: round_even_def)

lemma round_even_0 [simp]: "round_even 0 = 0"
  by (simp add: round_even_def)

lemma round_even_cases: "round_even x = \<lfloor>x\<rfloor> \<or> round_even x = \<lfloor>x\<rfloor> + 1"
  by (simp add: round_even_def Let_def)

lemma round_even_err: "\<bar>real_of_int (round_even x) - x\<bar> \<le> 1 / 2"
  unfolding round_even_def Let_def by (auto; linarith)

lemma round_even_mono:
  assumes "x \<le> y"
  shows "round_even x \<le> round_even y"
proof (cases "\<lfloor>x\<rfloor> = \<lfloor>y\<rfloor>")
  case True
  with assms show ?thesis
    unfolding round_even_def Let_def by (auto; linarith)
next
  case False
  with assms have "\<lfloor>x\<rfloor> + 1 \<le> \<lfloor>y\<rfloor>"
    using floor_mono [of x y] by linarith
  moreover have "round_even x \<le> \<lfloor>x\<rfloor> + 1" using round_even_cases [of x] by auto
  moreover have "\<lfloor>y\<rfloor> \<le> round_even y" using round_even_cases [of y] by auto
  ultimately show ?thesis by linarith
qed

lemma two_powi_pos [simp]: "0 < (2::real) powi k"
  by (simp add: power_int_def)

lemma rnd_0 [simp]: "rnd 0 = 0"
  by (simp add: rnd_def)

lemma rnd_minus: "rnd (- x) = - rnd x"
  by (simp add: rnd_def sgn_minus)

lemma rnd_rmag: "rnd x = sgn x * rmag \<bar>x\<bar>"
  by (simp add: rnd_def)

lemma rmag_Some:
  assumes "find_exponent 254 (-126) a = Some e" "0 \<le> a"
  shows "rmag a = real_of_int (round_even (a / 2 powi (e - 23))) * 2 powi (e - 23)"
    and "- 126 \<le> e" and "e \<le> 127" and "a < 2 powi (e + 1)"
    and "- 126 < e \<Longrightarrow> 2 powi e \<le> a"
    and "round_even (a / 2 powi (e - 23)) \<le> 2 ^ 24"
    and "0 \<le> round_even (a / 2 powi (e - 23))"
    and "- 126 < e \<Longrightarrow> 2 ^ 23 \<le> round_even (a / 2 powi (e - 23))"
proof -
  from assms(1) have e: "- 126 \<le> e" "e \<le> 127" "a < 2 powi (e + 1)"
      and lo: "- 126 < e \<longrightarrow> 2 powi e \<le> a"
    by (simp_all add: find_exponent_Some_iff)
  show "rmag a = real_of_int (round_even (a / 2 powi (e - 23))) * 2 powi (e - 23)"
    using assms(1) by (simp add: rmag_def)
  show "- 126 \<le> e" "e \<le> 127" "a < 2 powi (e + 1)" by fact+
  show "2 powi e \<le> a" if "- 126 < e" using lo that by simp
  have q: "(2::real) powi (e + 1) = 2 ^ 24 * 2 powi (e - 23)"
    by (simp add: power_int_diff power_int_add)
  have "a < 2 ^ 24 * 2 powi (e - 23)" using e(3) unfolding q .
  then have "a / 2 powi (e - 23) \<le> real_of_int (2 ^ 24)"
    by (simp add: pos_divide_le_eq)
  from round_even_mono [OF this] show "round_even (a / 2 powi (e - 23)) \<le> 2 ^ 24"
    by (simp del: of_int_numeral of_int_power)
  have "real_of_int 0 \<le> a / 2 powi (e - 23)" using assms(2) by simp
  from round_even_mono [OF this] show "0 \<le> round_even (a / 2 powi (e - 23))"
    by simp
  show "2 ^ 23 \<le> round_even (a / 2 powi (e - 23))" if "- 126 < e"
  proof -
    have q': "(2::real) powi e = 2 ^ 23 * 2 powi (e - 23)"
      by (simp add: power_int_diff)
    have "2 ^ 23 * 2 powi (e - 23) \<le> a" using lo that unfolding q' by simp
    then have "real_of_int (2 ^ 23) \<le> a / 2 powi (e - 23)"
      by (simp add: pos_le_divide_eq)
    from round_even_mono [OF this] show ?thesis
      by (simp del: of_int_numeral of_int_power)
  qed
qed

lemma find_exponent_None: "find_exponent 254 (-126) a = None \<longleftrightarrow> 2 ^ 128 \<le> a"
  by (simp add: find_exponent_None_iff)

lemma rmag_None: "find_exponent 254 (-126) a = None \<Longrightarrow> rmag a = 2 ^ 128"
  unfolding rmag_def by simp

lemma rmag_nonneg: "0 \<le> a \<Longrightarrow> 0 \<le> rmag a"
  by (cases "find_exponent 254 (-126) a") (simp_all add: rmag_None rmag_Some)

lemma rmag_le_top: "0 \<le> a \<Longrightarrow> rmag a \<le> 2 ^ 128"
proof (cases "find_exponent 254 (-126) a")
  case None
  then show ?thesis by (simp add: rmag_None)
next
  case (Some e)
  assume "0 \<le> a"
  note s = rmag_Some [OF Some this]
  have "real_of_int (round_even (a / 2 powi (e - 23))) \<le> 2 ^ 24"
    using s(6) by (metis of_int_le_iff of_int_numeral of_int_power)
  then have "rmag a \<le> 2 ^ 24 * 2 powi (e - 23)"
    unfolding s(1) by (intro mult_right_mono) simp_all
  also have "\<dots> = 2 powi (e + 1)" by (simp add: power_int_diff power_int_add)
  also have "\<dots> \<le> 2 powi 128" using s(3) by (intro power_int_increasing) simp_all
  finally show ?thesis by simp
qed

lemma rmag_ge_binade:
  assumes "find_exponent 254 (-126) a = Some e" "0 \<le> a" "- 126 < e"
  shows "2 powi e \<le> rmag a"
proof -
  note s = rmag_Some [OF assms(1,2)]
  have "real_of_int (2 ^ 23) \<le> real_of_int (round_even (a / 2 powi (e - 23)))"
    using s(8) [OF assms(3)] by (simp only: of_int_le_iff)
  then have "2 ^ 23 * 2 powi (e - 23) \<le> rmag a"
    unfolding s(1) by (intro mult_right_mono) simp_all
  then show ?thesis by (simp add: power_int_diff)
qed

lemma rmag_le_binade:
  assumes "find_exponent 254 (-126) a = Some e" "0 \<le> a"
  shows "rmag a \<le> 2 powi (e + 1)"
proof -
  note s = rmag_Some [OF assms(1,2)]
  have "real_of_int (round_even (a / 2 powi (e - 23))) \<le> real_of_int (2 ^ 24)"
    using s(6) by (simp only: of_int_le_iff)
  then have "rmag a \<le> 2 ^ 24 * 2 powi (e - 23)"
    unfolding s(1) by (intro mult_right_mono) simp_all
  then show ?thesis by (simp add: power_int_diff power_int_add)
qed

lemma rmag_mono:
  assumes "0 \<le> x" "x \<le> y"
  shows "rmag x \<le> rmag y"
proof (cases "find_exponent 254 (-126) y")
  case None
  then show ?thesis using rmag_le_top [OF assms(1)] by (simp add: rmag_None)
next
  case (Some ey)
  from assms have y0: "0 \<le> y" by simp
  note sy = rmag_Some [OF Some y0]
  have "x < 2 ^ 128"
  proof -
    have "(2::real) powi (ey + 1) \<le> 2 powi 128"
      using sy(3) by (intro power_int_increasing) simp_all
    with sy(4) assms(2) show ?thesis by simp
  qed
  then obtain ex where ex: "find_exponent 254 (-126) x = Some ex"
    using find_exponent_None [of x] by (cases "find_exponent 254 (-126) x") simp_all
  note sx = rmag_Some [OF ex assms(1)]
  have le: "ex \<le> ey"
  proof (rule ccontr)
    assume "\<not> ex \<le> ey"
    then have "ey + 1 \<le> ex" "- 126 < ex" using sy(2) by simp_all
    then have "(2::real) powi (ey + 1) \<le> 2 powi ex"
      by (intro power_int_increasing) simp_all
    with sx(5) [OF \<open>- 126 < ex\<close>] sy(4) assms(2) show False by simp
  qed
  show ?thesis
  proof (cases "ex = ey")
    case True
    have "x / 2 powi (ey - 23) \<le> y / 2 powi (ey - 23)"
      using assms(2) by (simp add: divide_right_mono)
    from round_even_mono [OF this]
    have "real_of_int (round_even (x / 2 powi (ey - 23)))
        \<le> real_of_int (round_even (y / 2 powi (ey - 23)))" by simp
    then show ?thesis
      unfolding sx(1) sy(1) True by (intro mult_right_mono) simp_all
  next
    case False
    with le have lt: "ex + 1 \<le> ey" "- 126 < ey" using sx(2) by simp_all
    have "rmag x \<le> 2 powi (ex + 1)" using ex assms(1) by (rule rmag_le_binade)
    also have "\<dots> \<le> 2 powi ey" using lt by (intro power_int_increasing) simp_all
    also have "\<dots> \<le> rmag y" using Some y0 lt(2) by (rule rmag_ge_binade)
    finally show ?thesis .
  qed
qed

lemma rmag_0 [simp]: "rmag 0 = 0"
proof -
  have "find_exponent 254 (-126) 0 = Some (- 126)"
    by (simp add: find_exponent_Some_iff)
  then show ?thesis by (simp add: rmag_def)
qed

lemma rnd_nonneg: "0 \<le> x \<Longrightarrow> rnd x = rmag x"
  by (cases "x = 0") (simp_all add: rnd_rmag)

lemma rnd_mono:
  assumes "x \<le> y"
  shows "rnd x \<le> rnd y"
proof -
  consider "0 \<le> x" | "x < 0" "0 \<le> y" | "y < 0" by linarith
  then show ?thesis
  proof cases
    case 1
    with assms show ?thesis by (simp add: rnd_nonneg rmag_mono)
  next
    case 2
    have "rnd x = - rmag (- x)" using 2 rnd_minus [of "- x"] by (simp add: rnd_nonneg)
    moreover have "0 \<le> rmag (- x)" using 2 by (intro rmag_nonneg) simp
    moreover have "0 \<le> rnd y" using 2 by (simp add: rnd_nonneg rmag_nonneg)
    ultimately show ?thesis by simp
  next
    case 3
    have "rnd x = - rmag (- x)" using 3 assms rnd_minus [of "- x"] by (simp add: rnd_nonneg)
    moreover have "rnd y = - rmag (- y)" using 3 rnd_minus [of "- y"] by (simp add: rnd_nonneg)
    moreover have "rmag (- y) \<le> rmag (- x)" using 3 assms by (intro rmag_mono) simp_all
    ultimately show ?thesis by simp
  qed
qed

text \<open>Numbers of the form \<open>m * 2 powi k\<close> with a 24-bit \<open>m\<close> are their own rounding.\<close>

lemma rmag_repr:
  assumes "0 \<le> m" "m < 2 ^ 24" "- 149 \<le> k" "k \<le> 104"
  shows "rmag (real_of_int m * 2 powi k) = real_of_int m * 2 powi k"
proof -
  let ?a = "real_of_int m * 2 powi k"
  have a0: "0 \<le> ?a" using assms(1) by simp
  have "real_of_int m < real_of_int (2 ^ 24)" using assms(2) by (simp only: of_int_less_iff)
  then have "?a < 2 ^ 24 * 2 powi k" by (intro mult_strict_right_mono) simp_all
  then have top: "?a < 2 powi (k + 24)" by (simp add: power_int_add)
  also have "\<dots> \<le> 2 powi 128" using assms(4) by (intro power_int_increasing) simp_all
  finally have "?a < 2 ^ 128" by simp
  then obtain e where e: "find_exponent 254 (-126) ?a = Some e"
    using find_exponent_None [of ?a] by (cases "find_exponent 254 (-126) ?a") simp_all
  note s = rmag_Some [OF e a0]
  have ek: "e - 23 \<le> k"
  proof (rule ccontr)
    assume "\<not> e - 23 \<le> k"
    then have "k + 24 \<le> e" "- 126 < e" using assms(3) by simp_all
    then have "(2::real) powi (k + 24) \<le> 2 powi e"
      by (intro power_int_increasing) simp_all
    with s(5) [OF \<open>- 126 < e\<close>] top show False by simp
  qed
  define j where "j = nat (k - (e - 23))"
  have k: "k = (e - 23) + int j" using ek by (simp add: j_def)
  have "(2::real) powi k = 2 powi (e - 23) * 2 ^ j"
    unfolding k by (simp add: power_int_add)
  then have "?a / 2 powi (e - 23) = real_of_int (m * 2 ^ j)" by simp
  then have "round_even (?a / 2 powi (e - 23)) = m * 2 ^ j" by (simp only: round_even_of_int)
  then have "rmag ?a = real_of_int (m * 2 ^ j) * 2 powi (e - 23)" unfolding s(1) by simp
  also have "\<dots> = real_of_int m * (2 powi (e - 23) * 2 ^ j)" by simp
  also have "\<dots> = ?a" unfolding k by (simp add: power_int_add)
  finally show ?thesis .
qed

lemma rnd_repr:
  assumes "\<bar>m\<bar> < 2 ^ 24" "- 149 \<le> k" "k \<le> 104"
  shows "rnd (real_of_int m * 2 powi k) = real_of_int m * 2 powi k"
proof (cases "0 \<le> m")
  case True
  then have "rnd (real_of_int m * 2 powi k) = rmag (real_of_int m * 2 powi k)"
    by (intro rnd_nonneg) simp
  with True assms show ?thesis by (simp add: rmag_repr)
next
  case False
  then have "rnd (real_of_int (- m) * 2 powi k) = rmag (real_of_int (- m) * 2 powi k)"
    by (intro rnd_nonneg) (simp add: mult_le_0_iff)
  also have "\<dots> = real_of_int (- m) * 2 powi k"
    using False assms by (intro rmag_repr) simp_all
  finally have "rnd (- (real_of_int m * 2 powi k)) = - (real_of_int m * 2 powi k)" by simp
  then show ?thesis by (simp add: rnd_minus)
qed

lemma rnd_of_int: "\<bar>m\<bar> < 2 ^ 24 \<Longrightarrow> rnd (real_of_int m) = real_of_int m"
  using rnd_repr [of m 0] by simp

lemma rnd_top: "2 ^ 128 \<le> a \<Longrightarrow> rmag a = 2 ^ 128"
  using find_exponent_None [of a] by (simp add: rmag_None)

lemma rmag_idem:
  assumes "0 \<le> a"
  shows "rmag (rmag a) = rmag a"
proof (cases "find_exponent 254 (-126) a")
  case None
  then show ?thesis by (simp add: rmag_None rnd_top)
next
  case (Some e)
  note s = rmag_Some [OF Some assms]
  define n where "n = round_even (a / 2 powi (e - 23))"
  have r: "rmag a = real_of_int n * 2 powi (e - 23)" unfolding n_def by (rule s(1))
  show ?thesis
  proof (cases "n = 2 ^ 24")
    case True
    then have v: "rmag a = 2 powi (e + 1)"
      unfolding r by (simp add: power_int_diff power_int_add)
    show ?thesis
    proof (cases "e = 127")
      case True
      with v have "rmag a = 2 ^ 128" by simp
      then show ?thesis by (simp add: rnd_top)
    next
      case False
      have "rmag (real_of_int (2 ^ 23) * 2 powi (e - 22))
          = real_of_int (2 ^ 23) * 2 powi (e - 22)"
        using False s(2,3) by (intro rmag_repr) simp_all
      moreover have "real_of_int (2 ^ 23) * 2 powi (e - 22) = 2 powi (e + 1)"
        by (simp add: power_int_diff power_int_add)
      ultimately show ?thesis unfolding v by simp
    qed
  next
    case False
    then have "n < 2 ^ 24" using s(6) unfolding n_def by simp
    then show ?thesis
      unfolding r using s(2,3,7) by (intro rmag_repr) (simp_all add: n_def)
  qed
qed

lemma rnd_idem [simp]: "rnd (rnd x) = rnd x"
proof (cases "0 \<le> x")
  case True
  then show ?thesis by (simp add: rnd_nonneg rmag_nonneg rmag_idem)
next
  case False
  then have x: "rnd x = - rmag (- x)" using rnd_minus [of "- x"] by (simp add: rnd_nonneg)
  have "rnd (- rmag (- x)) = - rnd (rmag (- x))" by (rule rnd_minus)
  also have "\<dots> = - rmag (rmag (- x))" using False by (simp add: rnd_nonneg rmag_nonneg)
  also have "\<dots> = - rmag (- x)" using False by (simp add: rmag_idem)
  finally show ?thesis unfolding x .
qed

text \<open>The rounding error: half a unit in the last place.\<close>

lemma rmag_err:
  assumes "0 \<le> a" "a < 2 ^ 128"
  shows "\<bar>rmag a - a\<bar> \<le> a / 2 ^ 24 + 1 / 2 ^ 150"
proof -
  from assms(2) obtain e where e: "find_exponent 254 (-126) a = Some e"
    using find_exponent_None [of a] by (cases "find_exponent 254 (-126) a") simp_all
  note s = rmag_Some [OF e assms(1)]
  let ?q = "(2::real) powi (e - 23)"
  have "\<bar>real_of_int (round_even (a / ?q)) - a / ?q\<bar> \<le> 1 / 2" by (rule round_even_err)
  then have "\<bar>real_of_int (round_even (a / ?q)) - a / ?q\<bar> * ?q \<le> 1 / 2 * ?q"
    by (intro mult_right_mono) simp_all
  moreover have "\<bar>real_of_int (round_even (a / ?q)) - a / ?q\<bar> * ?q = \<bar>rmag a - a\<bar>"
  proof -
    have "(real_of_int (round_even (a / ?q)) - a / ?q) * ?q = rmag a - a"
      unfolding s(1) by (simp add: left_diff_distrib)
    then have "\<bar>rmag a - a\<bar> = \<bar>(real_of_int (round_even (a / ?q)) - a / ?q) * ?q\<bar>"
      by simp
    also have "\<dots> = \<bar>real_of_int (round_even (a / ?q)) - a / ?q\<bar> * ?q"
      by (simp only: abs_mult) simp
    finally show ?thesis by simp
  qed
  ultimately have "\<bar>rmag a - a\<bar> \<le> 1 / 2 * ?q" by (simp only:)
  moreover have "1 / 2 * ?q = 2 powi (e - 24)" by (simp add: power_int_diff)
  ultimately have err: "\<bar>rmag a - a\<bar> \<le> 2 powi (e - 24)" by (simp only:)
  show ?thesis
  proof (cases "e = - 126")
    case True
    have "(2::real) powi (- 150) = 1 / 2 ^ 150"
      by (simp add: power_int_def field_simps)
    with err True have "\<bar>rmag a - a\<bar> \<le> 1 / 2 ^ 150" by simp
    moreover have "0 \<le> a / 2 ^ 24" using assms(1) by simp
    ultimately show ?thesis by (rule add_increasing [rotated])
  next
    case False
    with s(2) have "- 126 < e" by simp
    from s(5) [OF this] have "2 powi e / 2 ^ 24 \<le> a / 2 ^ 24" by (simp add: divide_right_mono)
    then have "2 powi (e - 24) \<le> a / 2 ^ 24" by (simp add: power_int_diff)
    with err have "\<bar>rmag a - a\<bar> \<le> a / 2 ^ 24" by (rule order_trans)
    then show ?thesis by (rule add_increasing2 [rotated]) simp
  qed
qed

lemma rnd_err:
  assumes "\<bar>x\<bar> < 2 ^ 128"
  shows "\<bar>rnd x - x\<bar> \<le> \<bar>x\<bar> / 2 ^ 24 + 1 / 2 ^ 150"
proof (cases "0 \<le> x")
  case True
  with assms rmag_err [of x] show ?thesis by (simp add: rnd_nonneg)
next
  case False
  then have x: "rnd x = - rmag (- x)" using rnd_minus [of "- x"] by (simp add: rnd_nonneg)
  have "\<bar>rmag (- x) - (- x)\<bar> \<le> (- x) / 2 ^ 24 + 1 / 2 ^ 150"
    using False assms by (intro rmag_err) simp_all
  moreover have "\<bar>rnd x - x\<bar> = \<bar>rmag (- x) - (- x)\<bar>" unfolding x by simp
  ultimately show ?thesis using False by simp
qed

text \<open>Evaluation with a given exponent.\<close>

lemma rnd_eval:
  assumes "- 126 < e" "e \<le> 127" "2 powi e \<le> \<bar>x\<bar>" "\<bar>x\<bar> < 2 powi (e + 1)"
  shows "rnd x = sgn x * (real_of_int (round_even (\<bar>x\<bar> / 2 powi (e - 23))) * 2 powi (e - 23))"
proof -
  have "find_exponent 254 (-126) \<bar>x\<bar> = Some e"
    using assms by (simp add: find_exponent_Some_iff)
  then show ?thesis by (simp add: rnd_def rmag_def)
qed

lemma rnd_eval_subnormal:
  assumes "\<bar>x\<bar> < 2 powi (- 125)"
  shows "rnd x = sgn x * (real_of_int (round_even (\<bar>x\<bar> / 2 powi (- 149))) * 2 powi (- 149))"
proof -
  have "find_exponent 254 (-126) \<bar>x\<bar> = Some (- 126)"
    using assms by (simp add: find_exponent_Some_iff)
  then show ?thesis by (simp add: rnd_def rmag_def)
qed

subsection \<open>Integers\<close>

lemma int16_id: "- 32768 \<le> n \<Longrightarrow> n \<le> 32767 \<Longrightarrow> int16 n = n"
  by (simp add: int16_def)

lemma long32_id: "- 2147483648 \<le> n \<Longrightarrow> n \<le> 2147483647 \<Longrightarrow> long32 n = n"
  by (simp add: long32_def)

lemma int16_range: "- 32768 \<le> int16 n" "int16 n \<le> 32767"
proof -
  have "0 \<le> (n + 32768) mod 65536" "(n + 32768) mod 65536 < 65536" by simp_all
  then show "- 32768 \<le> int16 n" "int16 n \<le> 32767" unfolding int16_def by linarith+
qed

lemma int16_cancel: "int16 (a - int16 (a - b)) = int16 b"
proof -
  define k where "k = (a - b + 32768) div 65536"
  have "int16 (a - b) = a - b - 65536 * k"
    unfolding int16_def k_def by (simp add: minus_mult_div_eq_mod [symmetric])
  then have "a - int16 (a - b) + 32768 = b + 32768 + 65536 * k" by simp
  moreover have "(b + 32768 + 65536 * k) mod 65536 = (b + 32768) mod 65536"
    by (rule mod_mult_self2)
  ultimately show ?thesis unfolding int16_def [of "a - int16 (a - b)"] int16_def [of b]
    by (simp only:)
qed

lemma c_trunc_mono: "x \<le> y \<Longrightarrow> c_trunc x \<le> c_trunc y"
  unfolding c_trunc_def
  by (auto intro: floor_mono ceiling_mono) (smt (verit) ceiling_le_zero zero_le_floor)

lemma c_trunc_of_int [simp]: "c_trunc (real_of_int n) = n"
  by (simp add: c_trunc_def)

subsection \<open>Rounding to a float\<close>

lemma rnd_pow127: "rnd (2 ^ 127) = 2 ^ 127"
  using rnd_repr [of "2 ^ 23" 104] by simp

lemma rnd_abs_le:
  assumes "\<bar>x\<bar> \<le> 2 ^ 127"
  shows "\<bar>rnd x\<bar> \<le> 2 ^ 127"
proof -
  from assms have x: "x \<le> 2 ^ 127" "- (2 ^ 127) \<le> x" by (simp_all only: abs_le_iff) linarith
  have "rnd x \<le> rnd (2 ^ 127)" using x(1) by (rule rnd_mono)
  then have a: "rnd x \<le> 2 ^ 127" by (simp only: rnd_pow127)
  have "rnd (- (2 ^ 127)) \<le> rnd x" using x(2) by (rule rnd_mono)
  then have b: "- (2 ^ 127) \<le> rnd x" by (simp only: rnd_minus rnd_pow127)
  from b have "- rnd x \<le> 2 ^ 127" by (simp only: minus_le_iff)
  with a show ?thesis by (simp only: abs_le_iff)
qed

lemma round_to_Fin: "\<bar>x\<bar> \<le> 2 ^ 127 \<Longrightarrow> round_to x = Fin (rnd x)"
proof -
  assume "\<bar>x\<bar> \<le> 2 ^ 127"
  then have "\<bar>rnd x\<bar> \<le> 2 ^ 127" by (rule rnd_abs_le)
  moreover have "(2::real) ^ 127 < 2 ^ 128" by simp
  ultimately have "\<not> 2 ^ 128 \<le> rnd x" "\<not> rnd x \<le> - (2 ^ 128)" by linarith+
  then show ?thesis by (simp only: round_to_def Let_def if_False)
qed

lemma round_to_small: "\<bar>x\<bar> \<le> 4096 \<Longrightarrow> round_to x = Fin (rnd x)"
  by (rule round_to_Fin) simp

lemma round_to_int: "\<bar>m\<bar> < 2 ^ 24 \<Longrightarrow> round_to (real_of_int m) = Fin (real_of_int m)"
proof -
  assume m: "\<bar>m\<bar> < 2 ^ 24"
  then have "\<bar>real_of_int m\<bar> \<le> real_of_int (2 ^ 127)"
    unfolding of_int_abs [symmetric] by (simp only: of_int_le_iff) simp
  then have "round_to (real_of_int m) = Fin (rnd (real_of_int m))"
    by (intro round_to_Fin) simp
  with m show ?thesis by (simp add: rnd_of_int)
qed

lemma round_to_0 [simp]: "round_to 0 = Fin 0"
  using round_to_int [of 0] by simp

lemma round_to_1 [simp]: "round_to 1 = Fin 1"
  using round_to_int [of 1] by simp

lemma round_to_numeral [simp]:
  "numeral k < (16777216::int) \<Longrightarrow> round_to (numeral k) = Fin (numeral k)"
  using round_to_int [of "numeral k"] by simp

lemma round_to_neg_numeral [simp]:
  "numeral k < (16777216::int) \<Longrightarrow> round_to (- numeral k) = Fin (- numeral k)"
  using round_to_int [of "- numeral k"] by simp

lemma round_to_at:
  assumes "- 126 < e" "e \<le> 126" "2 powi e \<le> \<bar>x\<bar>" "\<bar>x\<bar> < 2 powi (e + 1)"
  shows "round_to x
    = Fin (sgn x * (real_of_int (round_even (\<bar>x\<bar> / 2 powi (e - 23))) * 2 powi (e - 23)))"
proof -
  have "(2::real) powi (e + 1) \<le> 2 powi 127"
    using assms(2) by (intro power_int_increasing) simp_all
  with assms(4) have "\<bar>x\<bar> \<le> 2 ^ 127" by simp
  then have "round_to x = Fin (rnd x)" by (rule round_to_Fin)
  moreover have "rnd x
      = sgn x * (real_of_int (round_even (\<bar>x\<bar> / 2 powi (e - 23))) * 2 powi (e - 23))"
    using assms by (intro rnd_eval) simp_all
  ultimately show ?thesis by simp
qed

lemmas float_consts = zero_float_def one_float_def

lemma PI_eq: "PI = Fin (13176795 / 4194304)"
  unfolding PI_def by (simp add: round_to_at [where e = 1] round_even_def)

lemma wire_default: "round_to (1 / 5) = Fin (13421773 / 67108864)"
  by (simp add: round_to_at [where e = "- 3"] round_even_def)

lemma turns_default: "round_to (603979776 / 13421773) = Fin 45"
  by (simp add: round_to_at [where e = 5] round_even_def)

lemma c_div_nonneg: "0 \<le> a \<Longrightarrow> 0 < b \<Longrightarrow> c_div a b = a div b"
  by (cases "a = 0") (simp_all add: c_div_def)

lemma c_mod_nonneg: "0 \<le> a \<Longrightarrow> 0 < b \<Longrightarrow> c_mod a b = a mod b"
  by (simp add: c_mod_def c_div_nonneg minus_mult_div_eq_mod)

lemma round_to_nonpos: "x \<le> 0 \<Longrightarrow> round_to x \<le> Fin 0"
proof -
  assume "x \<le> 0"
  then have "rnd x \<le> rnd 0" by (rule rnd_mono)
  then show ?thesis by (simp add: round_to_def Let_def)
qed

subsection \<open>Bounds of \<open>\<pi>\<close>\<close>

lemma sin_pos_less_pi:
  assumes "0 < sin x" "x < 4"
  shows "x < pi"
proof (rule ccontr)
  assume "\<not> x < pi"
  then have "pi \<le> x" by simp
  moreover have "x < 2 * pi" using assms(2) pi_ge_two by linarith
  ultimately have "sin x \<le> 0" by (rule sin_le_zero)
  with assms(1) show False by simp
qed

lemma sin_neg_greater_pi:
  assumes "sin x < 0" "0 \<le> x"
  shows "pi < x"
proof (rule ccontr)
  assume "\<not> pi < x"
  then have "x \<le> pi" by simp
  with assms(2) have "0 \<le> sin x" by (rule sin_ge_zero)
  with assms(1) show False by simp
qed

lemma sum_upto_numeral:
  "sum f {..<numeral k} = sum f {..<pred_numeral k} + f (pred_numeral k)" for f :: "nat \<Rightarrow> real"
  by (simp add: numeral_eq_Suc)

lemma sum_upto_1: "sum f {..<1} = f 0" for f :: "nat \<Rightarrow> real"
  by (simp add: lessThan_Suc [of 0, simplified])

lemma sin_taylor_21:
  "(\<Sum>m<21. sin_coeff m * x ^ m) =
     x - x ^ 3 / 6 + x ^ 5 / 120 - x ^ 7 / 5040 + x ^ 9 / 362880 - x ^ 11 / 39916800
       + x ^ 13 / 6227020800 - x ^ 15 / 1307674368000 + x ^ 17 / 355687428096000
       - x ^ 19 / 121645100408832000" for x :: real
  by (simp add: sum_upto_numeral sum_upto_1 sin_coeff_def fact_numeral)

lemma pi_lower: "26353589 / 8388608 < pi"
proof -
  let ?x = "26353589 / 8388608 :: real"
  have "\<bar>sin ?x - (\<Sum>m<21. sin_coeff m * ?x ^ m)\<bar> \<le> inverse (fact 21) * \<bar>?x\<bar> ^ 21"
    by (rule Maclaurin_sin_bound)
  then have "(\<Sum>m<21. sin_coeff m * ?x ^ m) - inverse (fact 21) * \<bar>?x\<bar> ^ 21 \<le> sin ?x"
    by linarith
  moreover have "0 < (\<Sum>m<21. sin_coeff m * ?x ^ m) - inverse (fact 21) * \<bar>?x\<bar> ^ 21"
    unfolding sin_taylor_21 by (simp add: fact_numeral power_divide)
  ultimately have "0 < sin ?x" by linarith
  then show ?thesis by (rule sin_pos_less_pi) simp
qed

lemma pi_upper: "pi < 13176795 / 4194304"
proof -
  let ?x = "13176795 / 4194304 :: real"
  have "\<bar>sin ?x - (\<Sum>m<21. sin_coeff m * ?x ^ m)\<bar> \<le> inverse (fact 21) * \<bar>?x\<bar> ^ 21"
    by (rule Maclaurin_sin_bound)
  then have "sin ?x \<le> (\<Sum>m<21. sin_coeff m * ?x ^ m) + inverse (fact 21) * \<bar>?x\<bar> ^ 21"
    by linarith
  moreover have "(\<Sum>m<21. sin_coeff m * ?x ^ m) + inverse (fact 21) * \<bar>?x\<bar> ^ 21 < 0"
    unfolding sin_taylor_21 by (simp add: fact_numeral power_divide)
  ultimately have "sin ?x < 0" by linarith
  then show ?thesis by (rule sin_neg_greater_pi) simp
qed

subsection \<open>The cosine at \<^verbatim>\<open>PI\<close> and at half of it\<close>

text \<open>
  \<^verbatim>\<open>PI\<close> is the binary32 number just above \<open>\<pi>\<close>, less than \<open>2 powi (- 23)\<close> away.
\<close>

lemma PI_minus_pi:
  "0 < 13176795 / 4194304 - pi" "13176795 / 4194304 - pi < 1 / 8388608"
  using pi_lower pi_upper by simp_all

lemma cos_ge_parabola: "1 - x\<^sup>2 / 2 \<le> cos x" for x :: real
proof -
  have "\<bar>sin (x / 2)\<bar> \<le> \<bar>x / 2\<bar>" by (rule abs_sin_x_le_abs_x)
  then have "(sin (x / 2))\<^sup>2 \<le> (x / 2)\<^sup>2" by (simp only: abs_le_square_iff)
  moreover have "cos x = 1 - 2 * (sin (x / 2))\<^sup>2"
    using cos_double_sin [of "x / 2"] by simp
  ultimately show ?thesis by (simp add: power2_eq_square)
qed

lemma rnd_near_minus_one: "rnd (- 1 + 1 / 2 ^ 26) = - 1"
  using rnd_eval [of "- 1" "- 1 + 1 / 2 ^ 26"] by (simp add: round_even_def)

lemma rnd_minus_one: "rnd (- 1) = - 1"
  using rnd_of_int [of "- 1"] by simp

lemma rnd_one: "rnd 1 = 1"
  using rnd_of_int [of 1] by simp

lemma rnd_cos_PI: "rnd (cos (13176795 / 4194304)) = - 1"
proof -
  define d where "d = 13176795 / 4194304 - pi"
  have d: "0 < d" "d < 1 / 8388608" unfolding d_def by (rule PI_minus_pi)+
  have "cos (13176795 / 4194304 :: real) = cos (d + pi)" by (simp add: d_def)
  also have "\<dots> = - cos d" by (rule cos_periodic_pi)
  finally have c: "cos (13176795 / 4194304 :: real) = - cos d" .
  have "d\<^sup>2 \<le> (1 / 8388608)\<^sup>2" using d by (intro power_mono) simp_all
  then have "d\<^sup>2 / 2 \<le> 1 / 2 ^ 26" by (simp add: power2_eq_square)
  with cos_ge_parabola [of d] have "1 - 1 / 2 ^ 26 \<le> cos d" by linarith
  then have up: "cos (13176795 / 4194304 :: real) \<le> - 1 + 1 / 2 ^ 26"
    unfolding c by linarith
  have lo: "- 1 \<le> cos (13176795 / 4194304 :: real)" by simp
  have "rnd (cos (13176795 / 4194304 :: real)) \<le> rnd (- 1 + 1 / 2 ^ 26)"
    using up by (rule rnd_mono)
  moreover have "rnd (- 1) \<le> rnd (cos (13176795 / 4194304 :: real))"
    using lo by (rule rnd_mono)
  ultimately show ?thesis
    by (simp only: rnd_near_minus_one rnd_minus_one)
qed

lemma fcos_PI: "fcos (Fin (13176795 / 4194304)) = Fin (- 1)"
proof -
  have "round_to (cos (13176795 / 4194304 :: real))
      = Fin (rnd (cos (13176795 / 4194304 :: real)))"
    by (rule round_to_Fin) (rule order_trans [OF abs_cos_le_one], simp)
  then show ?thesis by (simp add: rnd_cos_PI)
qed

lemma rnd_above_one: "rnd (1 + 1 / 2 ^ 24) = 1"
  using rnd_eval [of 0 "1 + 1 / 2 ^ 24"] by (simp add: round_even_def)

lemma rnd_tiny: "rnd (- (1 / 2 ^ 24)) = - (1 / 2 ^ 24)"
  using rnd_repr [of "- 1" "- 24"] by (simp add: power_int_def field_simps)

lemma one_minus_fcos_half_PI: "Fin 1 - fcos (Fin (13176795 / 8388608)) = Fin 1"
proof -
  define d where "d = 13176795 / 4194304 - pi"
  have d: "0 < d" "d < 1 / 8388608" unfolding d_def by (rule PI_minus_pi)+
  define c where "c = cos (13176795 / 8388608 :: real)"
  have "(13176795 / 8388608 :: real) = d / 2 + pi / 2" unfolding d_def by (simp add: field_simps)
  then have "c = cos (d / 2 + pi / 2)" by (simp only: c_def)
  also have "\<dots> = - sin (d / 2)" by (simp add: cos_add)
  finally have c: "c = - sin (d / 2)" .
  have "0 < sin (d / 2)" using d pi_ge_two by (intro sin_gt_zero) simp_all
  moreover have "sin (d / 2) \<le> d / 2" using d by (intro sin_x_le_x) simp
  ultimately have cb: "- (1 / 2 ^ 24) \<le> c" "c \<le> 0" using d unfolding c by simp_all
  have "rnd (- (1 / 2 ^ 24)) \<le> rnd c" using cb(1) by (rule rnd_mono)
  then have r1: "- (1 / 2 ^ 24) \<le> rnd c" by (simp only: rnd_tiny)
  have "rnd c \<le> rnd 0" using cb(2) by (rule rnd_mono)
  then have r2: "rnd c \<le> 0" by simp
  have "rnd (1 - rnd c) \<le> rnd (1 + 1 / 2 ^ 24)" using r1 by (intro rnd_mono) simp
  moreover have "rnd 1 \<le> rnd (1 - rnd c)" using r2 by (intro rnd_mono) simp
  ultimately have one: "rnd (1 - rnd c) = 1"
    by (simp only: rnd_above_one rnd_one)
  have "\<bar>c\<bar> \<le> 1" unfolding c_def by (rule abs_cos_le_one)
  then have "\<bar>c\<bar> \<le> 2 ^ 127" by simp
  then have "round_to c = Fin (rnd c)" by (rule round_to_Fin)
  then have f: "fcos (Fin (13176795 / 8388608)) = Fin (rnd c)"
    unfolding c_def by simp
  have "\<bar>1 - rnd c\<bar> \<le> 2 ^ 127" using r1 r2 by simp
  then have "round_to (1 - rnd c) = Fin (rnd (1 - rnd c))" by (rule round_to_Fin)
  with one f show ?thesis by simp
qed

subsection \<open>Rounding errors of the sweep\<close>

lemma rnd_nonneg_le: "0 \<le> x \<Longrightarrow> 0 \<le> rnd x"
  using rnd_mono [of 0 x] by simp

lemma rnd_nonpos_le: "x \<le> 0 \<Longrightarrow> rnd x \<le> 0"
  using rnd_mono [of x 0] by simp

lemma rnd_pow31: "rnd (2 ^ 31) = 2 ^ 31"
  using rnd_repr [of "2 ^ 23" 8] by simp

lemma rnd_close:
  assumes "\<bar>x\<bar> \<le> b" "b \<le> 4096"
  shows "\<bar>rnd x - x\<bar> \<le> b / 2 ^ 24 + 1 / 2 ^ 150"
proof -
  have "\<bar>x\<bar> < 2 ^ 128" using assms by simp
  then have "\<bar>rnd x - x\<bar> \<le> \<bar>x\<bar> / 2 ^ 24 + 1 / 2 ^ 150" by (rule rnd_err)
  moreover have "\<bar>x\<bar> / 2 ^ 24 \<le> b / 2 ^ 24" using assms(1) by (simp add: divide_right_mono)
  ultimately show ?thesis by linarith
qed

lemma rnd_close_1024: "\<bar>x\<bar> \<le> 1024 \<Longrightarrow> \<bar>rnd x - x\<bar> \<le> 1 / 16000"
  using rnd_close [of x 1024] by simp

lemma rnd_close_2048: "\<bar>x\<bar> \<le> 2048 \<Longrightarrow> \<bar>rnd x - x\<bar> \<le> 1 / 8000"
  using rnd_close [of x 2048] by simp

lemma rnd_close_4096: "\<bar>x\<bar> \<le> 4096 \<Longrightarrow> \<bar>rnd x - x\<bar> \<le> 1 / 4000"
  using rnd_close [of x 4096] by simp

text \<open>
  The product of the turn number and the pitch: \<open>d\<close> is the sweep range, \<open>m\<close> the
  number of intervals and \<open>k\<close> the turn, all as floats.
\<close>

lemma pitch_bound:
  assumes "0 \<le> d" "d \<le> 2048" "1 \<le> m" "m \<le> 2 ^ 31" "0 \<le> k" "k \<le> m"
  shows "0 \<le> rnd (k * rnd (d / m))" and "rnd (k * rnd (d / m)) \<le> d + 3 / 8000"
proof -
  define p where "p = rnd (d / m)"
  have dm: "0 \<le> d / m" "d / m \<le> d" using assms by (simp_all add: divide_le_eq mult_le_cancel_left1)
  have p0: "0 \<le> p" unfolding p_def using dm(1) by (rule rnd_nonneg_le)
  have "\<bar>d / m\<bar> < 2 ^ 128" using dm assms(2) by simp
  from rnd_err [OF this] have "p \<le> d / m + d / m / 2 ^ 24 + 1 / 2 ^ 150"
    unfolding p_def using dm(1) by simp
  then have "m * p \<le> m * (d / m + d / m / 2 ^ 24 + 1 / 2 ^ 150)"
    using assms(3) by (intro mult_left_mono) simp_all
  also have "\<dots> = d + d / 2 ^ 24 + m / 2 ^ 150"
    using assms(3) by (simp add: distrib_left)
  also have "\<dots> \<le> d + 2048 / 2 ^ 24 + 2 ^ 31 / 2 ^ 150"
    using assms(2,4) by (intro add_mono) (simp_all add: divide_right_mono)
  also have "\<dots> \<le> d + 1 / 8000" by simp
  finally have mp: "m * p \<le> d + 1 / 8000" .
  have "k * p \<le> m * p" using assms(6) p0 by (rule mult_right_mono)
  with mp have kp: "k * p \<le> d + 1 / 8000" by simp
  have kp0: "0 \<le> k * p" using assms(5) p0 by simp
  show "0 \<le> rnd (k * rnd (d / m))"
    unfolding p_def [symmetric] using kp0 by (rule rnd_nonneg_le)
  have "\<bar>k * p\<bar> \<le> 4096" using kp kp0 assms(2) by simp
  from rnd_close_4096 [OF this] have "rnd (k * p) \<le> k * p + 1 / 4000" by linarith
  with kp show "rnd (k * rnd (d / m)) \<le> d + 3 / 8000"
    unfolding p_def [symmetric] by simp
qed

lemma pitch_bound_neg:
  assumes "d \<le> 0" "- 2048 \<le> d" "1 \<le> m" "m \<le> 2 ^ 31" "0 \<le> k" "k \<le> m"
  shows "rnd (k * rnd (d / m)) \<le> 0" and "d - 3 / 8000 \<le> rnd (k * rnd (d / m))"
proof -
  have "rnd (k * rnd (- d / m)) = - rnd (k * rnd (d / m))"
    by (simp add: rnd_minus)
  moreover have "0 \<le> rnd (k * rnd (- d / m))" "rnd (k * rnd (- d / m)) \<le> - d + 3 / 8000"
    using assms by (intro pitch_bound; simp)+
  ultimately show "rnd (k * rnd (d / m)) \<le> 0" "d - 3 / 8000 \<le> rnd (k * rnd (d / m))"
    by simp_all
qed

lemma pitch_abs:
  assumes "\<bar>d\<bar> \<le> 2048" "1 \<le> m" "m \<le> 2 ^ 31" "0 \<le> k" "k \<le> m"
  shows "\<bar>rnd (d / m)\<bar> \<le> 2049" and "\<bar>k * rnd (d / m)\<bar> \<le> 2049"
    and "\<bar>rnd (k * rnd (d / m))\<bar> \<le> 2049"
proof -
  have "\<bar>d / m\<bar> \<le> 2048"
  proof -
    have "\<bar>d / m\<bar> = \<bar>d\<bar> / m" using assms(2) by simp
    also have "\<dots> \<le> \<bar>d\<bar>" using assms(2) by (simp add: divide_le_eq mult_le_cancel_left1)
    finally show ?thesis using assms(1) by simp
  qed
  from rnd_close_2048 [OF this] this show "\<bar>rnd (d / m)\<bar> \<le> 2049" by linarith
  consider "0 \<le> d" | "d \<le> 0" by linarith
  then have q: "\<bar>rnd (k * rnd (d / m))\<bar> \<le> 2049 \<and> \<bar>k * rnd (d / m)\<bar> \<le> 2049"
  proof cases
    case 1
    with assms have "0 \<le> d" "d \<le> 2048" by simp_all
    note b = pitch_bound [OF this assms(2-5)]
    have p0: "0 \<le> rnd (d / m)" using 1 assms(2) by (intro rnd_nonneg_le) simp
    have kp0: "0 \<le> k * rnd (d / m)" using assms(4) p0 by simp
    have "k * rnd (d / m) \<le> 2049"
    proof (rule ccontr)
      assume "\<not> k * rnd (d / m) \<le> 2049"
      then have "2049 \<le> k * rnd (d / m)" by simp
      then have "rnd 2049 \<le> rnd (k * rnd (d / m))" by (rule rnd_mono)
      moreover have "rnd 2049 = 2049" using rnd_of_int [of 2049] by simp
      ultimately show False using b(2) \<open>d \<le> 2048\<close> by simp
    qed
    with kp0 b \<open>d \<le> 2048\<close> show ?thesis by simp
  next
    case 2
    with assms have "d \<le> 0" "- 2048 \<le> d" by simp_all
    note b = pitch_bound_neg [OF this assms(2-5)]
    have p0: "rnd (d / m) \<le> 0" using 2 assms(2) by (intro rnd_nonpos_le) (simp add: divide_le_0_iff)
    have kp0: "k * rnd (d / m) \<le> 0" using assms(4) p0 by (simp add: mult_le_0_iff)
    have "- 2049 \<le> k * rnd (d / m)"
    proof (rule ccontr)
      assume "\<not> - 2049 \<le> k * rnd (d / m)"
      then have "k * rnd (d / m) \<le> - 2049" by simp
      then have "rnd (k * rnd (d / m)) \<le> rnd (- 2049)" by (rule rnd_mono)
      moreover have "rnd (- 2049) = - 2049" using rnd_of_int [of "- 2049"] by simp
      ultimately show False using b(2) \<open>- 2048 \<le> d\<close> by simp
    qed
    with kp0 b \<open>- 2048 \<le> d\<close> show ?thesis by simp
  qed
  then show "\<bar>k * rnd (d / m)\<bar> \<le> 2049" "\<bar>rnd (k * rnd (d / m))\<bar> \<le> 2049" by simp_all
qed

text \<open>
  The position on a layer: \<open>lo\<close> and \<open>hi\<close> are the effective bounds, which rounding may
  have left in the wrong order by a little.
\<close>

lemma sweep_bounds:
  assumes "\<bar>lo\<bar> \<le> 722" "\<bar>hi\<bar> \<le> 722" "lo - hi \<le> 3 / 8000"
    and "1 \<le> m" "m \<le> 2 ^ 31" "0 \<le> k" "k \<le> m"
  defines "q \<equiv> rnd (k * rnd (rnd (hi - lo) / m))"
  shows "lo - 1 / 1000 \<le> rnd (lo + q)" and "rnd (lo + q) \<le> hi + 1 / 1000"
    and "lo - 1 / 1000 \<le> rnd (hi - q)" and "rnd (hi - q) \<le> hi + 1 / 1000"
    and "\<bar>lo + q\<bar> \<le> 1024" and "\<bar>hi - q\<bar> \<le> 1024"
proof -
  define d where "d = rnd (hi - lo)"
  have "\<bar>hi - lo\<bar> \<le> 2048" using assms(1,2) by simp
  from rnd_close_2048 [OF this] have d: "\<bar>d - (hi - lo)\<bar> \<le> 1 / 8000" unfolding d_def .
  have dabs: "\<bar>d\<bar> \<le> 2048" using d assms(1,2) by linarith
  have q: "(0 \<le> d \<longrightarrow> 0 \<le> q \<and> q \<le> d + 3 / 8000)
      \<and> (d \<le> 0 \<longrightarrow> q \<le> 0 \<and> d - 3 / 8000 \<le> q)"
    unfolding q_def d_def [symmetric]
    using pitch_bound [of d m k] pitch_bound_neg [of d m k] dabs assms(4-7) by simp
  have range: "lo - 1 / 2000 - 3 / 8000 \<le> lo + q \<and> lo + q \<le> hi + 1 / 2000 + 3 / 8000
      \<and> lo - 1 / 2000 - 3 / 8000 \<le> hi - q \<and> hi - q \<le> hi + 1 / 2000 + 3 / 8000"
  proof (cases "0 \<le> d")
    case True
    with q have "0 \<le> q" "q \<le> d + 3 / 8000" by simp_all
    with d assms(3) show ?thesis by linarith
  next
    case False
    with q have "q \<le> 0" "d - 3 / 8000 \<le> q" by simp_all
    with d assms(3) show ?thesis by linarith
  qed
  then show a: "\<bar>lo + q\<bar> \<le> 1024" and b: "\<bar>hi - q\<bar> \<le> 1024"
    using assms(1,2) by linarith+
  from rnd_close_1024 [OF a] range
  show "lo - 1 / 1000 \<le> rnd (lo + q)" "rnd (lo + q) \<le> hi + 1 / 1000" by linarith+
  from rnd_close_1024 [OF b] range
  show "lo - 1 / 1000 \<le> rnd (hi - q)" "rnd (hi - q) \<le> hi + 1 / 1000" by linarith+
qed

text \<open>The effective bounds for angles \<open>a < b\<close> and a scatter share \<open>0 \<le> p \<le> 1\<close>.\<close>

lemma effective_bounds:
  assumes "- 360 \<le> a" "a < b" "b \<le> 360" "0 \<le> p" "p \<le> 100"
  defines "h \<equiv> rnd (rnd (rnd (b - a) * rnd (p / 100)) / 2)"
  shows "\<bar>rnd (b - a)\<bar> \<le> 1024" and "\<bar>rnd (b - a) * rnd (p / 100)\<bar> \<le> 1024"
    and "\<bar>rnd (rnd (b - a) * rnd (p / 100))\<bar> \<le> 1024" and "\<bar>h\<bar> \<le> 1024"
    and "\<bar>a + h\<bar> \<le> 1024" and "\<bar>b - h\<bar> \<le> 1024"
    and "\<bar>rnd (a + h)\<bar> \<le> 722" and "\<bar>rnd (b - h)\<bar> \<le> 722"
    and "rnd (a + h) - rnd (b - h) \<le> 3 / 8000"
proof -
  define g where "g = rnd (b - a)"
  define r where "r = rnd (p / 100)"
  define s where "s = rnd (g * r)"
  have h: "h = rnd (s / 2)" by (simp add: h_def s_def g_def r_def)
  have "\<bar>b - a\<bar> \<le> 1024" using assms(1-3) by simp
  from rnd_close_1024 [OF this] have g: "\<bar>g - (b - a)\<bar> \<le> 1 / 16000" unfolding g_def .
  have g0: "0 \<le> g" unfolding g_def using assms(2) by (intro rnd_nonneg_le) simp
  have g1: "g \<le> 721" using g assms(1-3) by linarith
  have r0: "0 \<le> r" unfolding r_def using assms(4) by (intro rnd_nonneg_le) simp
  have "rnd (p / 100) \<le> rnd 1" using assms(5) by (intro rnd_mono) simp
  then have r1: "r \<le> 1" unfolding r_def by (simp add: rnd_one)
  have gr0: "0 \<le> g * r" using g0 r0 by simp
  have "g * r \<le> g * 1" using r1 g0 by (rule mult_left_mono)
  then have gr1: "g * r \<le> g" by simp
  have s0: "0 \<le> s" unfolding s_def using gr0 by (rule rnd_nonneg_le)
  have "rnd (g * r) \<le> rnd g" using gr1 by (rule rnd_mono)
  then have s1: "s \<le> g" unfolding s_def g_def by simp
  have h0: "0 \<le> h" unfolding h using s0 by (intro rnd_nonneg_le) simp
  have "\<bar>s / 2\<bar> \<le> 1024" using s0 s1 g1 by simp
  from rnd_close_1024 [OF this] have h1: "h \<le> s / 2 + 1 / 16000" unfolding h by linarith
  show "\<bar>rnd (b - a)\<bar> \<le> 1024" using g0 g1 unfolding g_def by simp
  show "\<bar>rnd (b - a) * rnd (p / 100)\<bar> \<le> 1024"
    using gr0 gr1 g1 unfolding g_def r_def by simp
  show "\<bar>rnd (rnd (b - a) * rnd (p / 100))\<bar> \<le> 1024"
    using s0 s1 g1 unfolding s_def g_def r_def by simp
  show "\<bar>h\<bar> \<le> 1024" using h0 h1 s1 g1 by simp
  show ah: "\<bar>a + h\<bar> \<le> 1024" using h0 h1 s1 g1 assms(1-3) by simp
  show bh: "\<bar>b - h\<bar> \<le> 1024" using h0 h1 s1 g1 assms(1-3) by simp
  from rnd_close_1024 [OF ah] rnd_close_1024 [OF bh]
  have e: "\<bar>rnd (a + h) - (a + h)\<bar> \<le> 1 / 16000" "\<bar>rnd (b - h) - (b - h)\<bar> \<le> 1 / 16000" .
  show "\<bar>rnd (a + h)\<bar> \<le> 722" using e h0 h1 s1 g1 assms(1-3) by linarith
  show "\<bar>rnd (b - h)\<bar> \<le> 722" using e h0 h1 s1 g1 assms(1-3) by linarith
  show "rnd (a + h) - rnd (b - h) \<le> 3 / 8000" using e h1 s1 g by linarith
qed

subsection \<open>Evaluation\<close>

lemmas addr_defs = ADDR_SERVO_MIN_def ADDR_SERVO_MAX_def ADDR_WIRE_DIAM_def ADDR_STEP_DELAY_def
  ADDR_TIMEOUT_def ADDR_ACCEL_STEPS_def ADDR_BOBBIN_LEN_def ADDR_BOBBIN_WID_def
  ADDR_BOBBIN_H_def ADDR_LAST_CALC_R_def ADDR_SWEEP_MODE_def

lemmas get_defs = get_float_def get_int_def get_long_def get_ulong_def

lemmas put_defs = put_float_def put_int_def put_long_def put_ulong_def

lemmas check_defs = check_servo_angles_def check_wire_diameter_def check_step_delay_def
  check_timeout_limit_def check_accel_steps_def check_bobbin_length_def
  check_bobbin_width_def check_bobbin_height_def check_last_resistance_def
  check_sweep_mode_def

lemmas output_defs = println_def printStatus_def enableOutputs_def disableOutputs_def
  enableServo_def disableServo_def layServo_write_def

lemmas validate_defs = updateAndValidate_def recheck_servo_angles_def
  recheck_wire_diameter_def computeWindingParameters_def calculateAvgTurnLength_def
  c_trunc_def wire_default turns_default long32_def int16_def

lemmas parse_defs = tokens_def atof_def atol_def atoi_def digits_def number_def is_digit_def

lemmas cmd_defs = processCommand_def cmd_WIND_def cmd_SERVO_def cmd_STEPPER_def cmd_SYS_def
  cmd_BOBBIN_def cmd_WIRE_DIA_def restoreDefaults_def

lemma get32_erased: "get32 erased a = 0xFFFFFFFF"
  by (simp add: get32_def erased_def)

lemma get16_erased: "get16 erased a = 0xFFFF"
  by (simp add: get16_def erased_def)

lemma clear_cells_erased: "clear_cells n erased = erased"
  by (induction n) (simp_all add: erased_def fun_upd_idem_iff)

lemma boot_eq: "boot = boot_state"
  by (simp add: boot_state_def boot_def arduino_setup_def computeWindingParameters_def
      printStatus_def loadSettings_def check_defs println_def power_up_def float_consts
      addr_defs get_defs get32_erased get16_erased float_of_bits_def
      calculateAvgTurnLength_def c_trunc_def wire_default turns_default long32_def int16_def
      Let_def cong: let_weak_cong)

subsection \<open>The ramp\<close>

lemma rnd_PI: "rnd (13176795 / 4194304) = 13176795 / 4194304"
  using rnd_repr [of 13176795 "- 22"] by (simp add: power_int_def field_simps)

lemma rnd_two: "rnd 2 = 2"
  using rnd_of_int [of 2] by simp

lemma rnd_cos_range: "- 1 \<le> rnd (cos x)" "rnd (cos x) \<le> 1"
proof -
  have "rnd (- 1) \<le> rnd (cos x)" by (rule rnd_mono) simp
  then show "- 1 \<le> rnd (cos x)" by (simp only: rnd_minus_one)
  have "rnd (cos x) \<le> rnd 1" by (rule rnd_mono) simp
  then show "rnd (cos x) \<le> 1" by (simp only: rnd_one)
qed

text \<open>
  The rounded cosine does not increase from 0 to \<^verbatim>\<open>PI\<close>, although \<^verbatim>\<open>PI\<close> lies above \<open>\<pi>\<close>:
  from \<open>\<pi>\<close> to \<^verbatim>\<open>PI\<close> it is \<open>-1\<close>.
\<close>

lemma rnd_cos_antimono:
  assumes "0 \<le> x" "x \<le> y" "y \<le> 13176795 / 4194304"
  shows "rnd (cos y) \<le> rnd (cos x)"
proof (cases "y \<le> pi")
  case True
  with assms have "cos y \<le> cos x" by (intro cos_monotone_0_pi_le) simp_all
  then show ?thesis by (rule rnd_mono)
next
  case False
  define d where "d = y - pi"
  have d: "0 \<le> d" "d \<le> 1 / 8388608"
    using False assms(3) PI_minus_pi(2) by (simp_all add: d_def)
  have "cos y = cos (d + pi)" by (simp add: d_def)
  also have "\<dots> = - cos d" by (rule cos_periodic_pi)
  finally have c: "cos y = - cos d" .
  have "d\<^sup>2 \<le> (1 / 8388608)\<^sup>2" using d by (intro power_mono) simp_all
  then have "d\<^sup>2 / 2 \<le> 1 / 2 ^ 26" by (simp add: power2_eq_square)
  with cos_ge_parabola [of d] have "1 - 1 / 2 ^ 26 \<le> cos d" by linarith
  then have "cos y \<le> - 1 + 1 / 2 ^ 26" unfolding c by linarith
  then have "rnd (cos y) \<le> rnd (- 1 + 1 / 2 ^ 26)" by (rule rnd_mono)
  then have "rnd (cos y) \<le> - 1" by (simp only: rnd_near_minus_one)
  with rnd_cos_range(1) [of x] show ?thesis by linarith
qed

text \<open>
  The multiplier of \<^verbatim>\<open>calculateSCurveDelay\<close> as a function of the step number \<open>k\<close>, for
  \<open>n\<close> steps in the ramp (both as floats).
\<close>

lemma ramp_factor:
  fixes n :: real
  assumes "0 \<le> i" "i \<le> j" "j \<le> n" "1 \<le> n"
  defines "x \<equiv> \<lambda>k. rnd (rnd (k / n) * (13176795 / 4194304))"
  defines "f \<equiv> \<lambda>k. rnd (rnd (1 - rnd (cos (x k))) / 2)"
  shows "0 \<le> f i" and "f i \<le> f j" and "f j \<le> 1"
    and "0 \<le> rnd (i / n)" and "rnd (i / n) \<le> 1"
    and "0 \<le> x i" and "x i \<le> 13176795 / 4194304"
    and "0 \<le> rnd (1 - rnd (cos (x i)))" and "rnd (1 - rnd (cos (x i))) \<le> 2"
proof -
  have frac: "0 \<le> rnd (k / n) \<and> rnd (k / n) \<le> 1" if "0 \<le> k" "k \<le> n" for k
  proof -
    have "0 \<le> k / n" "k / n \<le> 1" using that assms(4) by simp_all
    then have "rnd 0 \<le> rnd (k / n)" "rnd (k / n) \<le> rnd 1" by (intro rnd_mono; simp)+
    then show ?thesis by (simp add: rnd_one)
  qed
  have xr: "0 \<le> x k \<and> x k \<le> 13176795 / 4194304" if "0 \<le> k" "k \<le> n" for k
  proof -
    from frac [OF that] have "0 \<le> rnd (k / n) * (13176795 / 4194304)"
        "rnd (k / n) * (13176795 / 4194304) \<le> 1 * (13176795 / 4194304)"
      by (simp_all add: mult_right_mono)
    then have "rnd 0 \<le> x k" "x k \<le> rnd (13176795 / 4194304)"
      unfolding x_def by (intro rnd_mono; simp)+
    then show ?thesis by (simp add: rnd_PI)
  qed
  have m: "0 \<le> rnd (1 - rnd (cos (x k))) \<and> rnd (1 - rnd (cos (x k))) \<le> 2" for k
  proof -
    have "0 \<le> 1 - rnd (cos (x k))" "1 - rnd (cos (x k)) \<le> 2"
      using rnd_cos_range [of "x k"] by simp_all
    then have "rnd 0 \<le> rnd (1 - rnd (cos (x k)))" "rnd (1 - rnd (cos (x k))) \<le> rnd 2"
      by (intro rnd_mono; simp)+
    then show ?thesis by (simp add: rnd_two)
  qed
  have fr: "0 \<le> f k \<and> f k \<le> 1" for k
  proof -
    from m [of k] have "0 \<le> rnd (1 - rnd (cos (x k))) / 2" "rnd (1 - rnd (cos (x k))) / 2 \<le> 1"
      by simp_all
    then have "rnd 0 \<le> f k" "f k \<le> rnd 1" unfolding f_def by (intro rnd_mono; simp)+
    then show ?thesis by (simp add: rnd_one)
  qed
  show "0 \<le> f i" "f j \<le> 1" using fr by simp_all
  have i: "0 \<le> i" "i \<le> n" and j: "0 \<le> j" "j \<le> n" using assms(1-3) by simp_all
  show "0 \<le> rnd (i / n)" "rnd (i / n) \<le> 1" using frac [OF i] by simp_all
  show "0 \<le> x i" "x i \<le> 13176795 / 4194304" using xr [OF i] by simp_all
  show "0 \<le> rnd (1 - rnd (cos (x i)))" "rnd (1 - rnd (cos (x i))) \<le> 2" using m by simp_all
  have "i / n \<le> j / n" using assms(2,4) by (simp add: divide_right_mono)
  then have "rnd (i / n) \<le> rnd (j / n)" by (rule rnd_mono)
  then have "rnd (i / n) * (13176795 / 4194304) \<le> rnd (j / n) * (13176795 / 4194304)"
    by (simp add: mult_right_mono)
  then have "x i \<le> x j" unfolding x_def by (rule rnd_mono)
  with xr [OF i] xr [OF j] have "rnd (cos (x j)) \<le> rnd (cos (x i))"
    by (intro rnd_cos_antimono) simp_all
  then have "1 - rnd (cos (x i)) \<le> 1 - rnd (cos (x j))" by simp
  then have "rnd (1 - rnd (cos (x i))) \<le> rnd (1 - rnd (cos (x j)))" by (rule rnd_mono)
  then have "rnd (1 - rnd (cos (x i))) / 2 \<le> rnd (1 - rnd (cos (x j))) / 2" by simp
  then show "f i \<le> f j" unfolding f_def by (rule rnd_mono)
qed

lemma round_to_cos: "round_to (cos x) = Fin (rnd (cos x))"
  by (rule round_to_Fin) (rule order_trans [OF abs_cos_le_one], simp)

lemma c_trunc_nonneg: "0 \<le> x \<Longrightarrow> 0 \<le> c_trunc x"
  by (simp add: c_trunc_def)

lemma SCurve_value:
  assumes "0 < N" "N \<le> 2147483647" "0 \<le> i" "i \<le> N"
    and "- 32768 \<le> minStepDelay s" "minStepDelay s < initialStepDelay s"
    and "initialStepDelay s \<le> 32767" "initialStepDelay s - minStepDelay s \<le> 32767"
  defines "v \<equiv> rnd (real_of_int (initialStepDelay s - minStepDelay s)
      * rnd (rnd (1 - rnd (cos (rnd (rnd (rnd (real_of_int i) / rnd (real_of_int N))
                                      * (13176795 / 4194304))))) / 2))"
  shows "calculateSCurveDelay s i N = initialStepDelay s - c_trunc v"
    and "0 \<le> c_trunc v" and "c_trunc v \<le> initialStepDelay s - minStepDelay s"
proof -
  define r where "r = initialStepDelay s - minStepDelay s"
  define a where "a = rnd (real_of_int i)"
  define n where "n = rnd (real_of_int N)"
  define c where "c = rnd (a / n)"
  define x where "x = rnd (c * (13176795 / 4194304))"
  define m where "m = rnd (1 - rnd (cos x))"
  define f where "f = rnd (m / 2)"
  have v: "v = rnd (real_of_int r * f)"
    by (simp add: v_def r_def f_def m_def x_def c_def a_def n_def)
  have r: "0 < r" "r \<le> 32767" using assms(6,8) by (simp_all add: r_def)
  have "rnd 1 \<le> n" unfolding n_def using assms(1) by (intro rnd_mono) simp
  then have n1: "1 \<le> n" by (simp only: rnd_one)
  have "n \<le> rnd (2 ^ 31)" unfolding n_def using assms(2) by (intro rnd_mono) simp
  then have n2: "n \<le> 2 ^ 31" by (simp only: rnd_pow31)
  have a0: "0 \<le> a" unfolding a_def using assms(3) by (intro rnd_nonneg_le) simp
  have an: "a \<le> n" unfolding a_def n_def using assms(4) by (intro rnd_mono) simp
  note rf = ramp_factor [OF a0 order_refl an n1,
      folded c_def, folded x_def, folded m_def, folded f_def]
  have o1: "of_long i = Fin a" unfolding of_long_def a_def
    using assms(2-4) by (intro round_to_Fin) simp
  have o2: "of_long N = Fin n" unfolding of_long_def n_def
    using assms(1,2) by (intro round_to_Fin) simp
  have "0 < n" using n1 by simp
  then have "a / n \<le> 1" "0 \<le> a / n" using an a0 by (simp_all add: pos_divide_le_eq)
  then have "\<bar>a / n\<bar> \<le> 4096" by simp
  then have s1: "round_to (a / n) = Fin c" unfolding c_def by (rule round_to_small)
  have "\<bar>c * (13176795 / 4194304)\<bar> \<le> 4096"
  proof -
    have "c * (13176795 / 4194304) \<le> 1 * (13176795 / 4194304)"
      using rf(5) by (intro mult_right_mono) simp_all
    moreover have "0 \<le> c * (13176795 / 4194304)" using rf(4) by simp
    ultimately show ?thesis by simp
  qed
  then have s2: "round_to (c * (13176795 / 4194304)) = Fin x"
    unfolding x_def by (rule round_to_small)
  then have s2': "round_to (c * 13176795 / 4194304) = Fin x" by simp
  have s3: "round_to (cos x) = Fin (rnd (cos x))" by (rule round_to_cos)
  have "\<bar>1 - rnd (cos x)\<bar> \<le> 4096" using rnd_cos_range [of x] by simp
  then have s4: "round_to (1 - rnd (cos x)) = Fin m" unfolding m_def by (rule round_to_small)
  have "\<bar>m / 2\<bar> \<le> 4096" using rf(8,9) by simp
  then have s5: "round_to (m / 2) = Fin f" unfolding f_def by (rule round_to_small)
  have dr: "int16 (initialStepDelay s - minStepDelay s) = r"
    unfolding r_def [symmetric] using r by (simp add: int16_id)
  have s6: "of_long r = Fin (real_of_int r)"
    unfolding of_long_def using r by (intro round_to_int) simp
  have rf0: "0 \<le> real_of_int r * f" using r rf(1) by simp
  have "real_of_int r * f \<le> real_of_int r * 1" using r rf(3) by (intro mult_left_mono) simp_all
  then have rf1: "real_of_int r * f \<le> real_of_int r" by simp
  have "real_of_int r \<le> 32767" using r by simp
  with rf0 rf1 have "\<bar>real_of_int r * f\<bar> \<le> 2 ^ 127" by simp
  then have s7: "round_to (real_of_int r * f) = Fin v" unfolding v by (rule round_to_Fin)
  have v0: "0 \<le> v" unfolding v using rf0 by (rule rnd_nonneg_le)
  have "v \<le> rnd (real_of_int r)" unfolding v using rf1 by (rule rnd_mono)
  then have v1: "v \<le> real_of_int r" using r by (simp add: rnd_of_int)
  show t0: "0 \<le> c_trunc v" using v0 by (rule c_trunc_nonneg)
  have "c_trunc v \<le> c_trunc (real_of_int r)" using v1 by (rule c_trunc_mono)
  then have t1: "c_trunc v \<le> r" by simp
  then show "c_trunc v \<le> initialStepDelay s - minStepDelay s" by (simp add: r_def)
  have w: "to_int (Fin v) = c_trunc v" using t0 t1 r by (simp add: int16_id)
  have res: "int16 (initialStepDelay s - c_trunc v) = initialStepDelay s - c_trunc v"
    using t0 t1 assms(5,7) by (intro int16_id) (simp_all add: r_def)
  have n0: "n \<noteq> 0" using n1 by simp
  show "calculateSCurveDelay s i N = initialStepDelay s - c_trunc v"
    unfolding calculateSCurveDelay_def Let_def o1 o2 dr s6 PI_eq
    using n0 by (simp add: s1 s2 s2' s3 s4 s5 s7 w res float_consts del: to_int.simps)
qed

text \<open>
  Wherever the two delays are \<^verbatim>\<open>int\<close> values whose difference fits an \<^verbatim>\<open>int\<close>, the delay
  is \<^verbatim>\<open>initialStepDelay\<close> at index 0 and \<^verbatim>\<open>minStepDelay\<close> at index \<open>N\<close>, does not increase from
  an index to a later one, and stays between the two.
\<close>

lemma ramp_where_delays_fit:
  assumes "0 < N" "N \<le> 2147483647" "0 \<le> i" "i \<le> j" "j \<le> N"
    and "- 32768 \<le> minStepDelay s" "minStepDelay s < initialStepDelay s"
    and "initialStepDelay s \<le> 32767" "initialStepDelay s - minStepDelay s \<le> 32767"
  shows "calculateSCurveDelay s 0 N = initialStepDelay s"
    and "calculateSCurveDelay s N N = minStepDelay s"
    and "calculateSCurveDelay s j N \<le> calculateSCurveDelay s i N"
    and "calculateSCurveDelay s (N - i) N \<le> calculateSCurveDelay s (N - j) N"
    and "minStepDelay s \<le> calculateSCurveDelay s i N"
    and "calculateSCurveDelay s i N \<le> initialStepDelay s"
proof -
  note d = assms(6-9)
  have n1: "1 \<le> rnd (real_of_int N)"
  proof -
    have "rnd 1 \<le> rnd (real_of_int N)" using assms(1) by (intro rnd_mono) simp
    then show ?thesis by (simp only: rnd_one)
  qed
  have r: "\<bar>initialStepDelay s - minStepDelay s\<bar> < 2 ^ 24" using d by simp
  show "calculateSCurveDelay s 0 N = initialStepDelay s"
    using SCurve_value(1) [OF assms(1,2) order_refl _ d] assms(1)
    by (simp add: rnd_one c_trunc_def)
  show "calculateSCurveDelay s N N = minStepDelay s"
  proof -
    have "rnd (real_of_int N) \<noteq> 0" using n1 by simp
    then have "rnd (rnd (1 - rnd (cos (rnd (rnd (rnd (real_of_int N) / rnd (real_of_int N))
        * (13176795 / 4194304))))) / 2) = 1"
      by (simp add: rnd_one rnd_PI rnd_cos_PI rnd_two)
    moreover have "rnd (real_of_int (initialStepDelay s - minStepDelay s))
        = real_of_int (initialStepDelay s - minStepDelay s)"
      using r by (rule rnd_of_int)
    moreover have "0 \<le> N" using assms(1) by simp
    ultimately have "calculateSCurveDelay s N N
        = initialStepDelay s - c_trunc (real_of_int (initialStepDelay s - minStepDelay s))"
      using SCurve_value(1) [OF assms(1,2) _ order_refl d]
      by (simp only: mult_1_right)
    then show ?thesis by (simp only: c_trunc_of_int)
  qed
  have mono: "calculateSCurveDelay s l N \<le> calculateSCurveDelay s k N"
    if "0 \<le> k" "k \<le> l" "l \<le> N" for k l
  proof -
    from that have k: "0 \<le> k" "k \<le> N" and l: "0 \<le> l" "l \<le> N" by simp_all
    have a: "0 \<le> rnd (real_of_int k)" using k(1) by (intro rnd_nonneg_le) simp
    have b: "rnd (real_of_int k) \<le> rnd (real_of_int l)" using that(2) by (intro rnd_mono) simp
    have c: "rnd (real_of_int l) \<le> rnd (real_of_int N)" using that(3) by (intro rnd_mono) simp
    note f = ramp_factor(2) [OF a b c n1]
    have "real_of_int (initialStepDelay s - minStepDelay s) * rnd (rnd (1 - rnd (cos
          (rnd (rnd (rnd (real_of_int k) / rnd (real_of_int N)) * (13176795 / 4194304))))) / 2)
        \<le> real_of_int (initialStepDelay s - minStepDelay s) * rnd (rnd (1 - rnd (cos
          (rnd (rnd (rnd (real_of_int l) / rnd (real_of_int N)) * (13176795 / 4194304))))) / 2)"
      using f d by (intro mult_left_mono) simp_all
    then show ?thesis
      unfolding SCurve_value(1) [OF assms(1,2) k d] SCurve_value(1) [OF assms(1,2) l d]
      by (simp add: rnd_mono c_trunc_mono)
  qed
  show "calculateSCurveDelay s j N \<le> calculateSCurveDelay s i N"
    using assms(3-5) by (rule mono)
  show "calculateSCurveDelay s (N - i) N \<le> calculateSCurveDelay s (N - j) N"
    using assms(3-5) by (intro mono) simp_all
  have i: "0 \<le> i" "i \<le> N" using assms(3-5) by simp_all
  show "minStepDelay s \<le> calculateSCurveDelay s i N"
    using SCurve_value [OF assms(1,2) i d] by simp
  show "calculateSCurveDelay s i N \<le> initialStepDelay s"
    using SCurve_value [OF assms(1,2) i d] by simp
qed

lemma round_to_cos_PI: "round_to (cos (13176795 / 4194304)) = Fin (- 1)"
  using fcos_PI by simp

lemma one_minus_cos_half_PI: "Fin 1 - round_to (cos (13176795 / 8388608)) = Fin 1"
  using one_minus_fcos_half_PI by simp

lemmas ramp_eval = calculateSCurveDelay_def of_long_def float_consts PI_eq round_to_cos_PI
  one_minus_cos_half_PI round_to_at [where e = "- 1"] round_to_at [where e = 0]
  round_to_at [where e = 1] round_to_at [where e = 13] round_even_def c_trunc_def int16_def
  Let_def

lemma ramp_after_slow_speed:
  assumes "initialStepDelay s = 1000" "minStepDelay s = - 32203"
  shows "calculateSCurveDelay s 0 400 = 1000"
    and "calculateSCurveDelay s 200 400 = 17166"
    and "calculateSCurveDelay s 400 400 = - 32203"
  using assms by (simp_all add: ramp_eval)

text \<open>
  Claim C8 (the delay of the ramp does not increase from index 0 to index \<open>N\<close>) fails
  after \<^verbatim>\<open>WIND SPEED 15\<close>. The command stores \<^verbatim>\<open>1000000UL / 15 / 2 = 33333\<close> in the
  \<^verbatim>\<open>int\<close> \<^verbatim>\<open>minStepDelay\<close>, which makes it \<open>-32203\<close>; \<^verbatim>\<open>initialStepDelay\<close> is 1000 and
  greater. In \<^verbatim>\<open>calculateSCurveDelay\<close> the difference 33203 does not fit \<^verbatim>\<open>delayRange\<close>,
  which becomes \<open>-32333\<close>, and the delay rises from 1000 at index 0 to 17166 at index
  200 of 400, before it ends at \<open>-32203\<close> at index 400. \<^verbatim>\<open>stepWithAcceleration\<close> emits
  the 17166 at the pulse 200 of the first rotation.
\<close>

theorem ramp_rises_after_slow_speed:
  "map_sum id
     (\<lambda>s. (initialStepDelay s, minStepDelay s, accelSteps s, calculateSCurveDelay s 0 400,
           calculateSCurveDelay s 200 400, calculateSCurveDelay s 400 400,
           fst (stepWithAcceleration (s\<lparr>stepCount := 200\<rparr>))))
     (processCommand ''WIND SPEED 15'' 0 boot)
   = Inr (1000, - 32203, 400, 1000, 17166, - 32203, 17166)"
proof -
  define s where "s = (println ''PARAM: Speed set to  steps/sec (delay: us)''
      (boot_state\<lparr>lastCommandTime := 0, minStepDelay := - 32203\<rparr>))"
  have p: "processCommand ''WIND SPEED 15'' 0 boot = Inr s"
    by (simp add: s_def boot_eq boot_state_def processCommand_def cmd_WIND_def parse_defs
        int16_def)
  have f: "initialStepDelay s = 1000" "minStepDelay s = - 32203" "accelSteps s = 400"
    by (simp_all add: s_def boot_state_def println_def)
  note r = ramp_after_slow_speed [OF f(1,2)]
  have g: "initialStepDelay (s\<lparr>stepCount := 200\<rparr>) = 1000"
      "minStepDelay (s\<lparr>stepCount := 200\<rparr>) = - 32203"
    using f by simp_all
  have e: "fst (stepWithAcceleration (s\<lparr>stepCount := 200\<rparr>)) = 17166"
    using f by (simp add: stepWithAcceleration_def Let_def c_div_def c_mod_def stepsPerTurn_def
        ramp_after_slow_speed(2) [OF g])
  from p f r e show ?thesis by simp
qed

subsection \<open>Settings in the persistent store\<close>

text \<open>
  Every call of \<^verbatim>\<open>saveSettings\<close> or \<^verbatim>\<open>loadSettings\<close> leaves \<^verbatim>\<open>addr\<close> 38 further on (as
  long as it stays an \<^verbatim>\<open>int\<close>): the eleven fields lie at \<^verbatim>\<open>addr\<close>, \<^verbatim>\<open>addr + 4\<close>, \<open>\<dots>\<close>,
  \<^verbatim>\<open>addr + 38\<close> of the value \<^verbatim>\<open>addr\<close> has at the call, not at fixed cells.
\<close>

lemma saveSettings_addr:
  "0 \<le> addr s \<Longrightarrow> addr s \<le> 32000 \<Longrightarrow> addr (saveSettings s) = addr s + 38"
  by (simp add: saveSettings_def addr_defs put_defs println_def int16_id Let_def
      cong: let_weak_cong)

lemma check_addr:
  "addr (check_servo_angles s) = addr s" "addr (check_wire_diameter s) = addr s"
  "addr (check_step_delay s) = addr s" "addr (check_timeout_limit s) = addr s"
  "addr (check_accel_steps s) = addr s" "addr (check_bobbin_length s) = addr s"
  "addr (check_bobbin_width s) = addr s" "addr (check_bobbin_height s) = addr s"
  "addr (check_last_resistance s) = addr s" "addr (check_sweep_mode m s) = addr s"
  by (simp_all add: check_defs println_def Let_def)

lemma loadSettings_addr:
  "0 \<le> addr s \<Longrightarrow> addr s \<le> 32000 \<Longrightarrow> addr (loadSettings s) = addr s + 38"
  by (simp add: loadSettings_def addr_defs check_addr println_def calculateAvgTurnLength_def
      int16_id Let_def cong: let_weak_cong)

lemma calibrated_eq:
  "calibrated =
     boot_state\<lparr>servoMinAngle := Fin 10, servoMaxAngle := Fin 20, servoPos := Fin 10,
       layServo := Some 10,
       out := out boot_state @
         [''STATUS: Outputs ENABLED'', ''PARAM: Servo Min/Max Angle = /'',
          ''STATUS: Outputs DISABLED'']\<rparr>"
  by (simp add: calibrated_def boot_eq boot_state_def cmd_defs parse_defs validate_defs
      output_defs float_consts Let_def cong: let_weak_cong)

lemma load_save_calibrated:
  "(let s = loadSettings (saveSettings calibrated)
    in (servoMinAngle s, servoMaxAngle s)) = (Fin 77, Fin 103)"
  by (simp add: calibrated_eq boot_state_def float_consts saveSettings_def loadSettings_def
      addr_defs put_defs get_defs check_defs put32_def put16_def get32_def get16_def
      cell_def int16_def erased_def println_def calculateAvgTurnLength_def float_of_bits_def
      Let_def cong: let_weak_cong)

text \<open>
  Claim C1 (save followed by load gives back every field, each field at one fixed
  cell) fails. On the booted machine \<^verbatim>\<open>addr\<close> is 38. After \<^verbatim>\<open>SERVO CALIBRATE 10 20\<close> the
  angles are 10 and 20; \<^verbatim>\<open>saveSettings\<close> writes them to the cells 38 and 42 and leaves
  \<^verbatim>\<open>addr = 76\<close>; \<^verbatim>\<open>loadSettings\<close> then reads the angles from the cells 76 and 80, finds no
  valid angle there and sets the defaults 77 and 103.
\<close>

theorem save_then_load_loses_settings:
  "processCommand ''SERVO CALIBRATE 10 20'' 0 boot = Inr calibrated
   \<and> servoMinAngle calibrated = Fin 10 \<and> servoMaxAngle calibrated = Fin 20
   \<and> addr calibrated = 38
   \<and> addr (saveSettings calibrated) = 76
   \<and> servoMinAngle (loadSettings (saveSettings calibrated)) = Fin 77
   \<and> servoMaxAngle (loadSettings (saveSettings calibrated)) = Fin 103
   \<and> addr (loadSettings (saveSettings calibrated)) = 114"
proof -
  have a: "processCommand ''SERVO CALIBRATE 10 20'' 0 boot = Inr calibrated"
    by (simp add: calibrated_def boot_eq boot_state_def processCommand_def parse_defs)
  have b: "servoMinAngle calibrated = Fin 10 \<and> servoMaxAngle calibrated = Fin 20
      \<and> addr calibrated = 38"
    by (simp add: calibrated_eq boot_state_def)
  have c: "servoMinAngle (loadSettings (saveSettings calibrated)) = Fin 77
      \<and> servoMaxAngle (loadSettings (saveSettings calibrated)) = Fin 103"
    using load_save_calibrated by (simp add: Let_def)
  have d: "addr (saveSettings calibrated) = 76"
    using b by (simp add: saveSettings_addr)
  have e: "addr (loadSettings (saveSettings calibrated)) = 114"
    using d by (simp add: loadSettings_addr)
  from a b c d e show ?thesis by simp
qed

text \<open>
  Claim C2 (after \<^verbatim>\<open>clearEEPROM\<close> has filled the store with \<open>0xFF\<close>, \<^verbatim>\<open>loadSettings\<close> sets
  every field to its default) fails for \<^verbatim>\<open>timeoutLimit\<close>. The four bytes \<open>0xFF\<close> are the
  number 4294967295, which passes the only check, \<^verbatim>\<open>timeoutLimit < 1000\<close>; the default
  10000 is not set. The other ten fields get their defaults.
\<close>

theorem load_after_clear_keeps_timeout:
  "eeprom (clearEEPROM boot) = erased
   \<and> (let s = loadSettings (clearEEPROM boot)
      in (timeoutLimit s, servoMinAngle s, servoMaxAngle s, wireDiameter s,
          initialStepDelay s, accelSteps s, bobbinLength s, bobbinWidth s, bobbinHeight s,
          lastCalcRequestedResistance s, sweepControlMode s))
     = (4294967295, Fin 77, Fin 103, round_to (2 / 10), 1000, 400, Fin 60, Fin 4, Fin 9, 0,
        SWEEP_MODE_FIRMWARE)"
proof -
  have a: "eeprom (clearEEPROM boot) = erased"
    by (simp add: boot_eq boot_state_def clearEEPROM_def println_def clear_cells_erased
        Let_def)
  have b: "(let s = loadSettings (clearEEPROM boot)
      in (timeoutLimit s, servoMinAngle s, servoMaxAngle s, wireDiameter s,
          initialStepDelay s, accelSteps s, bobbinLength s, bobbinWidth s, bobbinHeight s,
          lastCalcRequestedResistance s, sweepControlMode s))
     = (4294967295, Fin 77, Fin 103, round_to (2 / 10), 1000, 400, Fin 60, Fin 4, Fin 9, 0,
        SWEEP_MODE_FIRMWARE)"
    by (simp add: boot_eq boot_state_def clearEEPROM_def println_def clear_cells_erased
        loadSettings_def addr_defs get_defs check_defs get32_erased get16_erased
        calculateAvgTurnLength_def float_of_bits_def float_consts int16_def Let_def
        cong: let_weak_cong)
  from a b show ?thesis by simp
qed

subsection \<open>Turns per layer\<close>

text \<open>
  Claim C3 (\<^verbatim>\<open>turnsPerLayer\<close> is the floor of height over diameter and never less than
  1) fails where the height is below the diameter. \<^verbatim>\<open>WIRE_DIA 2\<close> and \<^verbatim>\<open>BOBBIN 60 4 1\<close>
  are both accepted, height and diameter are positive, and \<^verbatim>\<open>computeWindingParameters\<close>
  stores \<^verbatim>\<open>(long)(1.0 / 2.0)\<close>, which is 0. (\<^verbatim>\<open>calculateAvgTurnLength\<close> replaces such a
  value by 1 in its own local copy; \<^verbatim>\<open>computeWindingParameters\<close> does not.)
\<close>

theorem turnsPerLayer_zero:
  "map_sum id (\<lambda>s. (bobbinHeight s, wireDiameter s, turnsPerLayer s))
     (run [(Some (''WIRE_DIA 2'', 0), 0), (Some (''BOBBIN 60 4 1'', 0), 0)] boot)
   = Inr (Fin 1, Fin 2, 0)"
  by (simp add: boot_eq boot_state_def loop_def checkTimeout_def cmd_defs parse_defs
      validate_defs output_defs float_consts round_to_at [where e = "- 1"] round_even_def
      Let_def cong: let_weak_cong)

subsection \<open>Servo positioning\<close>

lemma effective_Fin:
  assumes "- 360 \<le> a" "a < b" "b \<le> 360" "0 \<le> p" "p \<le> 100"
  shows "effectiveMin (Fin a) (Fin b) (Fin p)
      = Fin (rnd (a + rnd (rnd (rnd (b - a) * rnd (p / 100)) / 2)))"
    and "effectiveMax (Fin a) (Fin b) (Fin p)
      = Fin (rnd (b - rnd (rnd (rnd (b - a) * rnd (p / 100)) / 2)))"
proof -
  note e = effective_bounds [OF assms]
  have ba: "round_to (b - a) = Fin (rnd (b - a))"
    using assms(1-3) by (intro round_to_small) simp
  have pc: "round_to (p / 100) = Fin (rnd (p / 100))"
    using assms(4,5) by (intro round_to_small) simp
  have gr: "round_to (rnd (b - a) * rnd (p / 100)) = Fin (rnd (rnd (b - a) * rnd (p / 100)))"
    using e(2) by (intro round_to_small) simp
  have h: "round_to (rnd (rnd (b - a) * rnd (p / 100)) / 2)
      = Fin (rnd (rnd (rnd (b - a) * rnd (p / 100)) / 2))"
    using e(3) by (intro round_to_small) simp
  have lo: "round_to (a + rnd (rnd (rnd (b - a) * rnd (p / 100)) / 2))
      = Fin (rnd (a + rnd (rnd (rnd (b - a) * rnd (p / 100)) / 2)))"
    using e(5) by (intro round_to_small) simp
  have hi: "round_to (b - rnd (rnd (rnd (b - a) * rnd (p / 100)) / 2))
      = Fin (rnd (b - rnd (rnd (rnd (b - a) * rnd (p / 100)) / 2)))"
    using e(6) by (intro round_to_small) simp
  show "effectiveMin (Fin a) (Fin b) (Fin p)
      = Fin (rnd (a + rnd (rnd (rnd (b - a) * rnd (p / 100)) / 2)))"
    by (simp add: effectiveMin_def Let_def ba pc gr h lo)
  show "effectiveMax (Fin a) (Fin b) (Fin p)
      = Fin (rnd (b - rnd (rnd (rnd (b - a) * rnd (p / 100)) / 2)))"
    by (simp add: effectiveMax_def Let_def ba pc gr h hi)
qed

lemma effective_no_scatter:
  assumes "is_binary32 (Fin a)" "is_binary32 (Fin b)" "- 360 \<le> a" "a < b" "b \<le> 360"
  shows "effectiveMin (Fin a) (Fin b) 0 = Fin a" and "effectiveMax (Fin a) (Fin b) 0 = Fin b"
proof -
  have ba: "round_to (b - a) = Fin (rnd (b - a))"
    using assms(3-5) by (intro round_to_small) simp
  show "effectiveMin (Fin a) (Fin b) 0 = Fin a"
    using assms(1) by (simp add: effectiveMin_def Let_def ba float_consts)
  show "effectiveMax (Fin a) (Fin b) 0 = Fin b"
    using assms(2) by (simp add: effectiveMax_def Let_def ba float_consts)
qed

text \<open>The number of intervals and the turn number, as floats.\<close>

lemma of_long_turns:
  assumes "1 < n" "n \<le> 2147483647" "0 \<le> t" "t < n"
  shows "of_long (n - 1) = Fin (rnd (real_of_int (n - 1)))"
    and "of_long t = Fin (rnd (real_of_int t))"
    and "1 \<le> rnd (real_of_int (n - 1))" and "rnd (real_of_int (n - 1)) \<le> 2 ^ 31"
    and "0 \<le> rnd (real_of_int t)" and "rnd (real_of_int t) \<le> rnd (real_of_int (n - 1))"
proof -
  have n: "real_of_int (n - 1) \<le> 2 ^ 31" "1 \<le> real_of_int (n - 1)"
    using assms(1,2) by simp_all
  have t: "0 \<le> real_of_int t" "real_of_int t \<le> real_of_int (n - 1)"
    using assms(3,4) by simp_all
  have "\<bar>real_of_int (n - 1)\<bar> \<le> 2 ^ 127" using n by simp
  then show "of_long (n - 1) = Fin (rnd (real_of_int (n - 1)))"
    unfolding of_long_def by (rule round_to_Fin)
  have "\<bar>real_of_int t\<bar> \<le> 2 ^ 127" using n t by simp
  then show "of_long t = Fin (rnd (real_of_int t))"
    unfolding of_long_def by (rule round_to_Fin)
  have "rnd 1 \<le> rnd (real_of_int (n - 1))" using n(2) by (rule rnd_mono)
  then show "1 \<le> rnd (real_of_int (n - 1))" by (simp only: rnd_one)
  have "rnd (real_of_int (n - 1)) \<le> rnd (2 ^ 31)" using n(1) by (rule rnd_mono)
  then show "rnd (real_of_int (n - 1)) \<le> 2 ^ 31" by (simp only: rnd_pow31)
  show "0 \<le> rnd (real_of_int t)" using t(1) by (rule rnd_nonneg_le)
  show "rnd (real_of_int t) \<le> rnd (real_of_int (n - 1))" using t(2) by (rule rnd_mono)
qed

lemma sweep_Fin:
  assumes "\<bar>lo\<bar> \<le> 722" "\<bar>hi\<bar> \<le> 722" "lo - hi \<le> 3 / 8000"
    and "1 < n" "n \<le> 2147483647" "0 \<le> t" "t < n"
  defines "q \<equiv> rnd (rnd (real_of_int t)
                    * rnd (rnd (hi - lo) / rnd (real_of_int (n - 1))))"
  shows "Fin lo + of_long t * ((Fin hi - Fin lo) / of_long (n - 1)) = Fin (rnd (lo + q))"
    and "Fin hi - of_long t * ((Fin hi - Fin lo) / of_long (n - 1)) = Fin (rnd (hi - q))"
proof -
  note o = of_long_turns [OF assms(4-7)]
  define m where "m = rnd (real_of_int (n - 1))"
  define k where "k = rnd (real_of_int t)"
  define d where "d = rnd (hi - lo)"
  have hl: "\<bar>hi - lo\<bar> \<le> 2048" using assms(1,2) by simp
  from rnd_close_2048 [OF this] assms(1,2) have dabs: "\<bar>d\<bar> \<le> 2048"
    unfolding d_def by linarith
  note pa = pitch_abs [OF dabs o(3,4,5,6) [folded m_def k_def]]
  note sb = sweep_bounds [OF assms(1-3) o(3,4,5,6)]
  have m0: "m \<noteq> 0" using o(3) unfolding m_def by simp
  have s1: "round_to (hi - lo) = Fin d" unfolding d_def using hl by (intro round_to_small) simp
  have "\<bar>d / m\<bar> \<le> \<bar>d\<bar>"
    using o(3) unfolding m_def [symmetric] by (simp add: divide_le_eq mult_le_cancel_left1)
  with dabs have "\<bar>d / m\<bar> \<le> 4096" by simp
  then have s2: "round_to (d / m) = Fin (rnd (d / m))" by (rule round_to_small)
  have s3: "round_to (k * rnd (d / m)) = Fin (rnd (k * rnd (d / m)))"
    using pa(2) by (intro round_to_small) simp
  have q: "q = rnd (k * rnd (d / m))" by (simp add: q_def k_def d_def m_def)
  have s4: "round_to (lo + q) = Fin (rnd (lo + q))"
    using sb(5) unfolding q_def by (intro round_to_small) simp
  have s5: "round_to (hi - q) = Fin (rnd (hi - q))"
    using sb(6) unfolding q_def by (intro round_to_small) simp
  have pitch: "of_long t * ((Fin hi - Fin lo) / of_long (n - 1)) = Fin q"
    unfolding o(1,2) m_def [symmetric] k_def [symmetric] q
    using m0 by (simp add: s1 s2 s3)
  show "Fin lo + of_long t * ((Fin hi - Fin lo) / of_long (n - 1)) = Fin (rnd (lo + q))"
    unfolding pitch by (simp add: s4)
  show "Fin hi - of_long t * ((Fin hi - Fin lo) / of_long (n - 1)) = Fin (rnd (hi - q))"
    unfolding pitch by (simp add: s5)
qed

lemma to_int_small: "\<bar>x\<bar> \<le> 1024 \<Longrightarrow> to_int (Fin x) = c_trunc x"
proof -
  assume "\<bar>x\<bar> \<le> 1024"
  then have "c_trunc (- 1024) \<le> c_trunc x" "c_trunc x \<le> c_trunc 1024"
    by (intro c_trunc_mono; simp)+
  then have "- 32768 \<le> c_trunc x" "c_trunc x \<le> 32767" by (simp_all add: c_trunc_def)
  then show ?thesis by (simp add: int16_id)
qed

text \<open>
  Claim C9 (the position \<^verbatim>\<open>updateServoPosition\<close> sets lies within \<^verbatim>\<open>effectiveMin\<close> and
  \<^verbatim>\<open>effectiveMax\<close>) fails by rounding. With 45 turns in a layer, the angles 30 and 59
  and no scatter, the effective bounds are 30 and 59. In rotation 89, the last turn of
  the odd layer 1, the pitch \<^verbatim>\<open>29 / 44\<close> is rounded up, 44 times the pitch is rounded to
  the binary32 number above 29, and the position is the binary32 number below 30; the
  servo gets the angle 29.
\<close>

theorem servo_below_effective_min:
  "(1::int) < 45 \<and> Fin 30 < Fin 59 \<and> (0::float) \<le> 0 \<and> (0::float) \<le> Fin 100
   \<and> effectiveMin (Fin 30) (Fin 59) 0 = Fin 30 \<and> effectiveMax (Fin 30) (Fin 59) 0 = Fin 59
   \<and> map_sum id (\<lambda>s. (servoPos s, layServo s))
        (updateServoPosition 284800 45 (Fin 30) (Fin 59) 0 boot)
      = Inr (Fin (15728639 / 524288), Some 29)
   \<and> Fin (15728639 / 524288) < effectiveMin (Fin 30) (Fin 59) 0"
proof -
  have e: "effectiveMin (Fin 30) (Fin 59) 0 = Fin 30" "effectiveMax (Fin 30) (Fin 59) 0 = Fin 59"
    by (simp_all add: effectiveMin_def effectiveMax_def float_consts Let_def)
  have u: "map_sum id (\<lambda>s. (servoPos s, layServo s))
        (updateServoPosition 284800 45 (Fin 30) (Fin 59) 0 boot)
      = Inr (Fin (15728639 / 524288), Some 29)"
    by (simp add: updateServoPosition_def e of_long_def c_div_def c_mod_def stepsPerTurn_def
        layServo_write_def round_to_at [where e = "- 1"] round_to_at [where e = 4]
        round_even_def c_trunc_def int16_def Let_def)
  from e u show ?thesis by (simp add: float_consts)
qed

text \<open>
  Claim C9, amended. For more than one turn per layer, a step count that is not
  negative, binary32 angles \<open>- 360 \<le> minAngle < maxAngle \<le> 360\<close> and a scatter between 0
  and 100, \<^verbatim>\<open>updateServoPosition\<close> returns, and the position it sets lies between
  \<^verbatim>\<open>effectiveMin\<close> and \<^verbatim>\<open>effectiveMax\<close> up to the rounding of the arithmetic, which is
  less than a thousandth of a degree; the servo gets the integer part of the position.
  On the first turn of a layer (\<^verbatim>\<open>turnInLayer = 0\<close>) the position is \<^verbatim>\<open>effectiveMin\<close> on an
  even layer and \<^verbatim>\<open>effectiveMax\<close> on an odd one, exactly. With scatter 0 the effective
  bounds are \<^verbatim>\<open>minAngle\<close> and \<^verbatim>\<open>maxAngle\<close>, exactly.
\<close>

theorem servo_within_effective_range:
  assumes "1 < totalTurnsInLayer" "totalTurnsInLayer \<le> 2147483647" "0 \<le> currentStepCount"
    and "is_binary32 minAngle" "is_binary32 maxAngle"
    and "Fin (- 360) \<le> minAngle" "minAngle < maxAngle" "maxAngle \<le> Fin 360"
    and "0 \<le> scatterPercent" "scatterPercent \<le> Fin 100"
  shows "\<exists>s' lo hi x.
           updateServoPosition currentStepCount totalTurnsInLayer minAngle maxAngle
             scatterPercent s = Inr s'
           \<and> effectiveMin minAngle maxAngle scatterPercent = Fin lo
           \<and> effectiveMax minAngle maxAngle scatterPercent = Fin hi
           \<and> servoPos s' = Fin x \<and> lo - 1 / 1000 \<le> x \<and> x \<le> hi + 1 / 1000
           \<and> layServo s' = Some (c_trunc x)
           \<and> (c_mod (c_div currentStepCount stepsPerTurn) totalTurnsInLayer = 0 \<longrightarrow>
                x = (if c_mod (c_div (c_div currentStepCount stepsPerTurn) totalTurnsInLayer) 2
                          = 0
                     then lo else hi))
           \<and> effectiveMin minAngle maxAngle 0 = minAngle
           \<and> effectiveMax minAngle maxAngle 0 = maxAngle"
proof -
  from assms(6-8) obtain a b where ab: "minAngle = Fin a" "maxAngle = Fin b"
      "- 360 \<le> a" "a < b" "b \<le> 360"
    by (cases minAngle; cases maxAngle) simp_all
  from assms(9,10) obtain p where p: "scatterPercent = Fin p" "0 \<le> p" "p \<le> 100"
    by (cases scatterPercent) (simp_all add: float_consts)
  define h where "h = rnd (rnd (rnd (b - a) * rnd (p / 100)) / 2)"
  define lo where "lo = rnd (a + h)"
  define hi where "hi = rnd (b - h)"
  note eb = effective_bounds [OF ab(3-5) p(2,3), folded h_def, folded lo_def hi_def]
  have e: "effectiveMin minAngle maxAngle scatterPercent = Fin lo"
      "effectiveMax minAngle maxAngle scatterPercent = Fin hi"
    unfolding ab p lo_def hi_def h_def by (rule effective_Fin [OF ab(3-5) p(2,3)])+
  have z: "effectiveMin minAngle maxAngle 0 = minAngle"
      "effectiveMax minAngle maxAngle 0 = maxAngle"
    using assms(4,5) unfolding ab by (rule effective_no_scatter [OF _ _ ab(3-5)])+
  define n where "n = totalTurnsInLayer"
  define turn where "turn = c_div currentStepCount stepsPerTurn"
  define t where "t = c_mod turn n"
  define layer where "layer = c_div turn n"
  have n: "1 < n" "n \<le> 2147483647" using assms(1,2) by (simp_all add: n_def)
  have turn0: "0 \<le> turn"
    using assms(3) by (simp add: turn_def c_div_nonneg stepsPerTurn_def pos_imp_zdiv_nonneg_iff)
  have t: "0 \<le> t" "t < n" using n(1) turn0 by (simp_all add: t_def c_mod_nonneg)
  define q where "q = rnd (rnd (real_of_int t)
      * rnd (rnd (hi - lo) / rnd (real_of_int (n - 1))))"
  note sf = sweep_Fin [OF eb(7-9) n t, folded q_def]
  note o = of_long_turns [OF n t]
  note sb = sweep_bounds [OF eb(7-9) o(3,4,5,6), folded q_def]
  define x where "x = (if c_mod layer 2 = 0 then rnd (lo + q) else rnd (hi - q))"
  have xb: "lo - 1 / 1000 \<le> x" "x \<le> hi + 1 / 1000" using sb(1-4) by (simp_all add: x_def)
  have "\<bar>x\<bar> \<le> 1024" using xb eb(7,8) by linarith
  then have w: "to_int (Fin x) = c_trunc x" by (rule to_int_small)
  have u: "updateServoPosition currentStepCount totalTurnsInLayer minAngle maxAngle
      scatterPercent s = Inr (s\<lparr>servoPos := Fin x, layServo := Some (c_trunc x)\<rparr>)"
  proof (cases "c_mod layer 2 = 0")
    case True
    with w have "to_int (Fin (rnd (lo + q))) = c_trunc (rnd (lo + q))" by (simp add: x_def)
    with True n(1) show ?thesis
      by (simp add: updateServoPosition_def e Let_def layServo_write_def
          n_def [symmetric] turn_def [symmetric] t_def [symmetric] layer_def [symmetric] sf
          x_def
          del: plus_float.simps minus_float.simps times_float.simps divide_float.simps
            to_int.simps)
  next
    case False
    with w have "to_int (Fin (rnd (hi - q))) = c_trunc (rnd (hi - q))" by (simp add: x_def)
    with False n(1) show ?thesis
      by (simp add: updateServoPosition_def e Let_def layServo_write_def
          n_def [symmetric] turn_def [symmetric] t_def [symmetric] layer_def [symmetric] sf
          x_def
          del: plus_float.simps minus_float.simps times_float.simps divide_float.simps
            to_int.simps)
  qed
  have first: "x = (if c_mod layer 2 = 0 then lo else hi)" if "t = 0"
  proof -
    from that have "q = 0" by (simp add: q_def)
    then show ?thesis by (simp add: x_def lo_def hi_def)
  qed
  from u e xb first z show ?thesis
    by (auto simp add: t_def turn_def layer_def n_def)
qed

theorem servo_within_effective_range_witness:
  "(1::int) < 45 \<and> (45::int) \<le> 2147483647 \<and> (0::int) \<le> 284800
   \<and> is_binary32 (Fin 30) \<and> is_binary32 (Fin 59)
   \<and> Fin (- 360) \<le> Fin 30 \<and> Fin 30 < Fin 59 \<and> Fin 59 \<le> Fin 360
   \<and> (0::float) \<le> 0 \<and> (0::float) \<le> Fin 100
   \<and> (\<exists>s' x. updateServoPosition 284800 45 (Fin 30) (Fin 59) 0 boot = Inr s'
          \<and> servoPos s' = Fin x \<and> 30 - 1 / 1000 \<le> x \<and> x \<le> 59 + 1 / 1000
          \<and> layServo s' = Some (c_trunc x))"
  using servo_within_effective_range [of 45 284800 "Fin 30" "Fin 59" 0 boot]
  by (auto simp add: float_consts)

subsection \<open>The main loop\<close>

lemma run_append:
  "run (xs @ ys) s = (case run xs s of Inl e \<Rightarrow> Inl e | Inr s' \<Rightarrow> run ys s')"
  by (induction xs arbitrary: s) (auto split: sum.splits)

lemma loop_tick:
  assumes "running s" "outputsEnabled s" "\<not> verboseMode s"
    and "\<not> timeoutLimit s < now - lastCommandTime s"
    and "0 \<le> stepCount s" "stepCount s + 1 < stepsPerTurn" "stepCount s + 1 < totalSteps s"
  shows "loop None now s = Inr (s\<lparr>stepCount := stepCount s + 1\<rparr>)"
  using assms
  by (simp add: loop_def checkTimeout_def stepWithAcceleration_def Let_def c_mod_nonneg
      stepsPerTurn_def long32_id)

lemma run_ticks:
  assumes "running s" "outputsEnabled s" "\<not> verboseMode s" "timeoutLimit s = - 1"
    and "0 \<le> stepCount s" "stepCount s + int (length clock) < stepsPerTurn"
    and "stepCount s + int (length clock) < totalSteps s"
  shows "run (map (Pair None) clock) s = Inr (s\<lparr>stepCount := stepCount s + int (length clock)\<rparr>)"
  using assms
proof (induction clock arbitrary: s)
  case Nil
  then show ?case by simp
next
  case (Cons now clock)
  have "loop None now s = Inr (s\<lparr>stepCount := stepCount s + 1\<rparr>)"
    using Cons.prems by (intro loop_tick) simp_all
  moreover have "run (map (Pair None) clock) (s\<lparr>stepCount := stepCount s + 1\<rparr>)
      = Inr (s\<lparr>stepCount := stepCount s + 1\<rparr>
               \<lparr>stepCount := stepCount (s\<lparr>stepCount := stepCount s + 1\<rparr>) + int (length clock)\<rparr>)"
    using Cons.prems by (intro Cons.IH) simp_all
  ultimately show ?case by (simp add: add.assoc)
qed

lemma loop_boundary:
  assumes "running s" "outputsEnabled s" "timeoutLimit s = - 1"
    and "sweepControlMode s = SWEEP_MODE_PATTERN" "patternTurnsPerLayer s = 0"
    and "stepCount s + 1 = stepsPerTurn" "stepCount s < totalSteps s"
  shows "loop None now s = Inl DivisionByZero"
  using assms
  by (simp add: loop_def checkTimeout_def stepWithAcceleration_def Let_def c_mod_nonneg
      stepsPerTurn_def updateServoPosition_def println_def long32_id)

lemma pattern_job_started:
  "\<exists>s. run pattern_job boot = Inr s \<and> running s \<and> outputsEnabled s \<and> \<not> verboseMode s
       \<and> timeoutLimit s = - 1 \<and> sweepControlMode s = SWEEP_MODE_PATTERN
       \<and> patternTurnsPerLayer s = 0 \<and> stepCount s = 1 \<and> totalSteps s = 3200"
  by (simp add: pattern_job_def boot_eq boot_state_def loop_def checkTimeout_def cmd_defs
      parse_defs validate_defs output_defs float_consts PI_eq stepWithAcceleration_def
      calculateSCurveDelay_def of_long_def c_div_def c_mod_def stepsPerTurn_def Let_def
      cong: let_weak_cong)

text \<open>
  Claim C10. \<^verbatim>\<open>updateServoPosition\<close> called with \<^verbatim>\<open>totalTurnsInLayer = 0\<close> divides by zero,
  whatever its other arguments. The call is reachable: \<^verbatim>\<open>patternTurnsPerLayer\<close> is 0 at
  power-up, \<^verbatim>\<open>WIND PATTERN\<close> stores whatever number its third argument reads as, without
  a check, and after \<^verbatim>\<open>WIND SWEEP PATTERN\<close>, \<^verbatim>\<open>WIND COUNT 1\<close>, \<^verbatim>\<open>WIND START\<close> the loop
  counts 3199 pulses without error (the first in the round of \<^verbatim>\<open>WIND START\<close>, 3198 in
  the rounds after it, at any clock values) and divides by zero in the round of pulse
  3200, the first rotation boundary.
\<close>

theorem pattern_start_divides_by_zero:
  assumes "length clock = 3198"
  shows "updateServoPosition currentStepCount 0 minAngle maxAngle scatterPercent s
           = Inl DivisionByZero
       \<and> patternTurnsPerLayer (power_up m) = 0
       \<and> cmd_WIND ''PATTERN'' [min_str, max_str, tpl_str, scatter_str] s
           = Inr (println ''PARAM: Sweep pattern received.''
                   (s\<lparr>patternMinAngle := atof min_str, patternMaxAngle := atof max_str,
                      patternTurnsPerLayer := atol tpl_str,
                      patternScatter := atof scatter_str\<rparr>))
       \<and> map_sum id stepCount (run (pattern_job @ map (Pair None) clock) boot) = Inr 3199
       \<and> run (pattern_job @ map (Pair None) clock @ [(None, now)]) boot = Inl DivisionByZero"
proof -
  have a: "updateServoPosition currentStepCount 0 minAngle maxAngle scatterPercent s
      = Inl DivisionByZero"
    by (simp add: updateServoPosition_def)
  have b: "patternTurnsPerLayer (power_up m) = 0"
    by (simp add: power_up_def)
  have c: "cmd_WIND ''PATTERN'' [min_str, max_str, tpl_str, scatter_str] s
      = Inr (println ''PARAM: Sweep pattern received.''
              (s\<lparr>patternMinAngle := atof min_str, patternMaxAngle := atof max_str,
                 patternTurnsPerLayer := atol tpl_str, patternScatter := atof scatter_str\<rparr>))"
    by (simp add: cmd_WIND_def)
  from pattern_job_started obtain s0 where s0: "run pattern_job boot = Inr s0" "running s0"
      "outputsEnabled s0" "\<not> verboseMode s0" "timeoutLimit s0 = - 1"
      "sweepControlMode s0 = SWEEP_MODE_PATTERN" "patternTurnsPerLayer s0 = 0"
      "stepCount s0 = 1" "totalSteps s0 = 3200"
    by blast
  have t: "run (map (Pair None) clock) s0 = Inr (s0\<lparr>stepCount := stepCount s0 + int (length clock)\<rparr>)"
    using s0 assms by (intro run_ticks) (simp_all add: stepsPerTurn_def)
  have l: "loop None now (s0\<lparr>stepCount := stepCount s0 + int (length clock)\<rparr>) = Inl DivisionByZero"
    using s0 assms by (intro loop_boundary) (simp_all add: stepsPerTurn_def)
  have d: "map_sum id stepCount (run (pattern_job @ map (Pair None) clock) boot) = Inr 3199"
    using s0 assms by (simp add: run_append t)
  have e: "run (pattern_job @ map (Pair None) clock @ [(None, now)]) boot = Inl DivisionByZero"
    by (simp add: run_append s0(1) t l)
  from a b c d e show ?thesis by simp
qed

theorem pattern_start_divides_by_zero_witness:
  "length (replicate 3198 (0 :: 32 word)) = 3198
   \<and> run (pattern_job @ map (Pair None) (replicate 3198 0) @ [(None, 0)]) boot
       = Inl DivisionByZero"
  using pattern_start_divides_by_zero [of "replicate 3198 0" 0 0 0 0 boot erased "[]" "[]" "[]" "[]" 0]
  by simp

subsection \<open>Pause, resume and the safety timeout\<close>

lemma WIND_PAUSE:
  "processCommand ''WIND PAUSE'' t s =
     Inr (if running s
          then println ''STATUS: Winding PAUSED''
                 (s\<lparr>lastCommandTime := t, running := False, paused := True\<rparr>)
          else s\<lparr>lastCommandTime := t\<rparr>)"
  by (simp add: processCommand_def cmd_WIND_def tokens_def)

lemma WIND_RESUME:
  "processCommand ''WIND RESUME'' t s =
     Inr (if paused s
          then println ''STATUS: Winding RESUMED''
                 ((enableOutputs (s\<lparr>lastCommandTime := t\<rparr>))\<lparr>running := True, paused := False\<rparr>)
          else s\<lparr>lastCommandTime := t\<rparr>)"
  by (simp add: processCommand_def cmd_WIND_def tokens_def)

lemma boot_10s_eq: "boot_10s = boot_state\<lparr>timeoutLimit := 10000, eeprom := timeout_10s,
   out := [''WARN: Invalid servo angles in EEPROM, reset to defaults.'',
          ''WARN: Invalid wire diameter in EEPROM, reset to default.'',
          ''WARN: Invalid step delay in EEPROM, reset to default.'',
          ''WARN: Invalid accel steps in EEPROM, reset to default.'',
          ''WARN: Invalid bobbin length in EEPROM, reset to default.'',
          ''WARN: Invalid bobbin width in EEPROM, reset to default.'',
          ''WARN: Invalid bobbin height in EEPROM, reset to default.'',
          ''WARN: Invalid last calculated resistance in EEPROM, reset to default.'',
          ''WARN: Invalid sweep control mode in EEPROM, reset to default.'',
          ''STATUS: Settings loaded from EEPROM'',
          ''--- Initial Settings Loaded ---'', ''--- CURRENT STATUS ---'',
          ''Pickup Coil Winder READY'']\<rparr>"
  by (simp add: boot_state_def boot_10s_def arduino_setup_def computeWindingParameters_def
      printStatus_def loadSettings_def check_defs println_def power_up_def float_consts
      addr_defs get_defs get32_def get16_def cell_def timeout_10s_def erased_def
      float_of_bits_def calculateAvgTurnLength_def c_trunc_def wire_default turns_default
      long32_def int16_def Let_def cong: let_weak_cong)

lemmas run_defs = loop_def checkTimeout_def cmd_defs parse_defs
      validate_defs output_defs float_consts PI_eq stepWithAcceleration_def
      calculateSCurveDelay_def of_long_def c_div_def c_mod_def stepsPerTurn_def

text \<open>
  Claim C4 (\<^verbatim>\<open>WIND PAUSE\<close> disables the outputs) fails: after \<^verbatim>\<open>WIND COUNT 5\<close>,
  \<^verbatim>\<open>WIND START\<close> and \<^verbatim>\<open>WIND PAUSE\<close> the machine is paused with one pulse counted and its
  outputs still enabled. The handler of \<^verbatim>\<open>PAUSE\<close> does not call \<^verbatim>\<open>disableOutputs\<close>.
\<close>

theorem pause_keeps_outputs_enabled:
  "map_sum id (\<lambda>s. (running s, paused s, outputsEnabled s, stepCount s))
     (run [(Some (''WIND COUNT 5'', 0), 0), (Some (''WIND START'', 0), 0),
           (Some (''WIND PAUSE'', 0), 0)] boot)
   = Inr (False, True, True, 1)"
  by (simp add: boot_eq boot_state_def run_defs Let_def cong: let_weak_cong)

text \<open>
  Claim C4, amended. \<^verbatim>\<open>WIND PAUSE\<close> on a running machine clears \<^verbatim>\<open>running\<close>, sets \<^verbatim>\<open>paused\<close>
  and leaves \<^verbatim>\<open>stepCount\<close> and the outputs as they are; \<^verbatim>\<open>WIND RESUME\<close> after it sets
  \<^verbatim>\<open>running\<close>, clears \<^verbatim>\<open>paused\<close>, enables the outputs and leaves \<^verbatim>\<open>stepCount\<close> as it was
  before the pause. On a machine that is not running, \<^verbatim>\<open>WIND PAUSE\<close> changes nothing but
  \<^verbatim>\<open>lastCommandTime\<close>; on a machine that is not paused, \<^verbatim>\<open>WIND RESUME\<close> changes nothing
  but \<^verbatim>\<open>lastCommandTime\<close>.
\<close>

theorem pause_resume:
  "(running s \<longrightarrow>
      (\<exists>p r. processCommand ''WIND PAUSE'' t s = Inr p
         \<and> \<not> running p \<and> paused p \<and> stepCount p = stepCount s
         \<and> outputsEnabled p = outputsEnabled s
         \<and> processCommand ''WIND RESUME'' t' p = Inr r
         \<and> running r \<and> \<not> paused r \<and> outputsEnabled r \<and> stepCount r = stepCount s))
   \<and> (\<not> running s \<longrightarrow> processCommand ''WIND PAUSE'' t s = Inr (s\<lparr>lastCommandTime := t\<rparr>))
   \<and> (paused s \<longrightarrow>
        (\<exists>r. processCommand ''WIND RESUME'' t s = Inr r
           \<and> running r \<and> \<not> paused r \<and> outputsEnabled r \<and> stepCount r = stepCount s))
   \<and> (\<not> paused s \<longrightarrow> processCommand ''WIND RESUME'' t s = Inr (s\<lparr>lastCommandTime := t\<rparr>))"
  by (simp add: WIND_PAUSE WIND_RESUME println_def enableOutputs_def)

theorem pause_resume_witness:
  "running (boot\<lparr>running := True, outputsEnabled := True, stepCount := 7\<rparr>)
   \<and> (\<exists>p r. processCommand ''WIND PAUSE'' 1 (boot\<lparr>running := True, outputsEnabled := True, stepCount := 7\<rparr>) = Inr p
         \<and> \<not> running p \<and> paused p \<and> stepCount p = 7 \<and> outputsEnabled p
         \<and> processCommand ''WIND RESUME'' 2 p = Inr r
         \<and> running r \<and> \<not> paused r \<and> outputsEnabled r \<and> stepCount r = 7)
   \<and> \<not> running boot \<and> processCommand ''WIND PAUSE'' 1 boot = Inr (boot\<lparr>lastCommandTime := 1\<rparr>)
   \<and> paused (boot\<lparr>paused := True, stepCount := 7\<rparr>)
   \<and> (\<exists>r. processCommand ''WIND RESUME'' 1 (boot\<lparr>paused := True, stepCount := 7\<rparr>) = Inr r
           \<and> running r \<and> \<not> paused r \<and> outputsEnabled r \<and> stepCount r = 7)
   \<and> \<not> paused boot \<and> processCommand ''WIND RESUME'' 1 boot = Inr (boot\<lparr>lastCommandTime := 1\<rparr>)"
  using pause_resume [of "boot\<lparr>running := True, outputsEnabled := True, stepCount := 7\<rparr>" 1 2]
    pause_resume [of boot 1 2]
    pause_resume [of "boot\<lparr>paused := True, stepCount := 7\<rparr>" 1 2]
  by (simp add: boot_eq boot_state_def)

text \<open>
  Claim C6 (after a timeout the job cannot be resumed by \<^verbatim>\<open>WIND RESUME\<close>) fails for a
  paused job. \<open>paused_job\<close> ends in a timeout: the machine is stopped with its outputs
  off, one pulse counted, and \<^verbatim>\<open>paused\<close> still set. \<^verbatim>\<open>WIND RESUME\<close> at 30 s then starts
  it again, and the count goes on to 3.
\<close>

theorem resume_after_timeout:
  "map_sum id (\<lambda>s. (running s, paused s, outputsEnabled s, stepCount s))
     (run paused_job boot_10s) = Inr (False, True, False, 1)
   \<and> map_sum id (\<lambda>s. (running s, paused s, outputsEnabled s, stepCount s))
     (run (paused_job @ [(Some (''WIND RESUME'', 30000), 30000), (None, 30001)]) boot_10s)
       = Inr (True, False, True, 3)"
  by (simp add: paused_job_def boot_10s_eq boot_state_def run_defs Let_def cong: let_weak_cong)

text \<open>
  Claim C6, amended. When more than \<^verbatim>\<open>timeoutLimit\<close> has passed since the last command
  and the outputs are enabled, \<^verbatim>\<open>checkTimeout\<close> disables the outputs and clears
  \<^verbatim>\<open>running\<close>, whatever the progress of the job; \<^verbatim>\<open>paused\<close> and \<^verbatim>\<open>stepCount\<close> stay as they
  are. A round of the loop without a command leaves a machine that is not running not
  running, with the same count. After the timeout \<^verbatim>\<open>WIND RESUME\<close> does not restart a job
  that was not paused; a job that was paused it restarts, with the outputs enabled and
  the count it had.
\<close>

theorem timeout_stops_job:
  "(timeoutLimit s < now - lastCommandTime s \<and> outputsEnabled s \<longrightarrow>
      \<not> running (checkTimeout now s) \<and> \<not> outputsEnabled (checkTimeout now s)
      \<and> paused (checkTimeout now s) = paused s
      \<and> stepCount (checkTimeout now s) = stepCount s)
   \<and> (\<not> running s \<longrightarrow>
        (\<exists>s'. loop None now s = Inr s' \<and> \<not> running s' \<and> stepCount s' = stepCount s
           \<and> paused s' = paused s))
   \<and> (\<not> paused s \<and> timeoutLimit s < now - lastCommandTime s \<and> outputsEnabled s \<longrightarrow>
        (\<exists>s'. processCommand ''WIND RESUME'' t (checkTimeout now s) = Inr s' \<and> \<not> running s'
           \<and> \<not> outputsEnabled s'))
   \<and> (paused s \<and> timeoutLimit s < now - lastCommandTime s \<and> outputsEnabled s \<longrightarrow>
        (\<exists>s'. processCommand ''WIND RESUME'' t (checkTimeout now s) = Inr s' \<and> running s'
           \<and> outputsEnabled s' \<and> stepCount s' = stepCount s))"
  by (simp add: checkTimeout_def loop_def WIND_RESUME println_def disableOutputs_def enableOutputs_def)

theorem timeout_stops_job_witness:
  "timeoutLimit (boot_10s\<lparr>running := True, outputsEnabled := True, stepCount := 7\<rparr>)
     < 20000 - lastCommandTime (boot_10s\<lparr>running := True, outputsEnabled := True, stepCount := 7\<rparr>)
   \<and> outputsEnabled (boot_10s\<lparr>running := True, outputsEnabled := True, stepCount := 7\<rparr>)
   \<and> \<not> paused (boot_10s\<lparr>running := True, outputsEnabled := True, stepCount := 7\<rparr>)
   \<and> \<not> running (checkTimeout 20000 (boot_10s\<lparr>running := True, outputsEnabled := True, stepCount := 7\<rparr>))
   \<and> \<not> outputsEnabled (checkTimeout 20000 (boot_10s\<lparr>running := True, outputsEnabled := True, stepCount := 7\<rparr>))
   \<and> stepCount (checkTimeout 20000 (boot_10s\<lparr>running := True, outputsEnabled := True, stepCount := 7\<rparr>)) = 7
   \<and> (\<exists>s'. processCommand ''WIND RESUME'' 30000
              (checkTimeout 20000 (boot_10s\<lparr>running := True, outputsEnabled := True, stepCount := 7\<rparr>)) = Inr s'
          \<and> \<not> running s' \<and> \<not> outputsEnabled s')
   \<and> \<not> running boot_10s
   \<and> (\<exists>s'. loop None 20000 boot_10s = Inr s' \<and> \<not> running s' \<and> stepCount s' = 0)
   \<and> paused (boot_10s\<lparr>paused := True, outputsEnabled := True, stepCount := 7\<rparr>)
   \<and> (\<exists>s'. processCommand ''WIND RESUME'' 30000
              (checkTimeout 20000 (boot_10s\<lparr>paused := True, outputsEnabled := True, stepCount := 7\<rparr>)) = Inr s'
          \<and> running s' \<and> outputsEnabled s' \<and> stepCount s' = 7)"
  using timeout_stops_job [of "boot_10s\<lparr>running := True, outputsEnabled := True, stepCount := 7\<rparr>" 20000 30000]
    timeout_stops_job [of boot_10s 20000 30000]
    timeout_stops_job [of "boot_10s\<lparr>paused := True, outputsEnabled := True, stepCount := 7\<rparr>" 20000 30000]
  by (simp add: boot_10s_eq boot_state_def checkTimeout_def loop_def WIND_RESUME println_def
      disableOutputs_def enableOutputs_def)

subsection \<open>The dispatcher\<close>

lemma short_args:
  "length args < 4 \<Longrightarrow>
     (case args of a # b # c # d # _ \<Rightarrow> f a b c d | _ \<Rightarrow> g) = g"
  "length args < 2 \<Longrightarrow> (case args of a # b # _ \<Rightarrow> h a b | _ \<Rightarrow> g) = g"
  by (auto split: list.splits)

lemma CALC_errors:
  "\<exists>errs. errs \<noteq> [] \<and> (\<forall>e\<in>set errs. take 6 e = ''ERROR:'')
     \<and> cmd_CALC ''STATUS'' s = s\<lparr>out := out s @ errs\<rparr>"
proof -
  let ?b = "''ERROR: Bobbin dimensions not set. Use: BOBBIN <L> <W> <H>''"
  let ?w = "''ERROR: Wire diameter not set. Use: WIRE_DIA <mm>''"
  let ?f = "''ERROR: Invalid CALC format. Use: CALC <value>R or CALC <value>K''"
  let ?errs =
    "if bobbinLength s \<le> 0 \<or> bobbinWidth s \<le> 0 \<or> bobbinHeight s \<le> 0
     then (if wireDiameter s \<le> 0 then [?b, ?w] else [?b])
     else (if wireDiameter s \<le> 0 then [?w] else [?f])"
  have "cmd_CALC ''STATUS'' s = s\<lparr>out := out s @ ?errs\<rparr>"
    by (simp add: cmd_CALC_def println_def toupper_def Let_def)
  moreover have "?errs \<noteq> []" by simp
  moreover have "\<forall>e\<in>set ?errs. take 6 e = ''ERROR:''" by simp
  ultimately show ?thesis by blast
qed

lemma CALC_not_positive:
  assumes "atof v \<le> 0"
  shows "\<exists>errs. errs \<noteq> [] \<and> (\<forall>e\<in>set errs. take 6 e = ''ERROR:'')
     \<and> cmd_CALC v s = s\<lparr>out := out s @ errs\<rparr>"
proof -
  let ?b = "''ERROR: Bobbin dimensions not set. Use: BOBBIN <L> <W> <H>''"
  let ?w = "''ERROR: Wire diameter not set. Use: WIRE_DIA <mm>''"
  let ?f = "''ERROR: Invalid CALC format. Use: CALC <value>R or CALC <value>K''"
  let ?p = "''ERROR: Target resistance must be positive.''"
  let ?errs =
    "if bobbinLength s \<le> 0 \<or> bobbinWidth s \<le> 0 \<or> bobbinHeight s \<le> 0
     then (if wireDiameter s \<le> 0 then [?b, ?w] else [?b])
     else (if wireDiameter s \<le> 0 then [?w]
           else if toupper (last v) \<noteq> CHR ''K'' \<and> toupper (last v) \<noteq> CHR ''R''
           then [?f] else [?p])"
  have k: "atof v * Fin 1000 \<le> 0"
    using assms by (cases "atof v") (simp_all add: float_consts round_to_nonpos infinity_def)
  have "cmd_CALC v s = s\<lparr>out := out s @ ?errs\<rparr>"
    using assms k by (simp add: cmd_CALC_def println_def Let_def)
  moreover have "?errs \<noteq> []" by simp
  moreover have "\<forall>e\<in>set ?errs. take 6 e = ''ERROR:''" by simp
  ultimately show ?thesis by blast
qed

text \<open>
  Claim C5 (a missing argument is a no-op without an error, but for \<^verbatim>\<open>BOBBIN\<close> and
  \<^verbatim>\<open>CALC\<close>) fails for \<^verbatim>\<open>SERVO CALIBRATE\<close>: with one angle missing it writes an error
  line.
\<close>

theorem calibrate_missing_argument_reports_error:
  "map_sum id out (processCommand ''SERVO CALIBRATE 10'' 0 boot)
     = Inr (out boot @ [''ERROR: Invalid format. Use: SERVO CALIBRATE <min> <max>''])"
  by (simp add: boot_eq boot_state_def processCommand_def cmd_SERVO_def tokens_def println_def)

text \<open>
  Claim C5, amended. For \<^verbatim>\<open>WIND COUNT\<close>, \<^verbatim>\<open>WIND SPEED\<close>, \<^verbatim>\<open>WIND DIR\<close>, \<^verbatim>\<open>WIND SCATTER\<close>,
  \<^verbatim>\<open>WIND PATTERN\<close>, \<^verbatim>\<open>SERVO POS\<close> and \<^verbatim>\<open>STEPPER MOVE\<close> without their argument the
  dispatcher writes nothing and changes nothing but \<^verbatim>\<open>lastCommandTime\<close>; so does
  \<^verbatim>\<open>WIND PATTERN\<close> with fewer than four arguments. \<^verbatim>\<open>SERVO CALIBRATE\<close> with fewer than two
  arguments, \<^verbatim>\<open>BOBBIN\<close> with fewer than three numbers or with a number that is not
  positive, and \<^verbatim>\<open>CALC\<close> without a value or with a value that is not positive write
  error lines and change nothing else but \<^verbatim>\<open>lastCommandTime\<close>. (\<^verbatim>\<open>WIND SWEEP\<close> and \<^verbatim>\<open>WIRE_DIA\<close> without argument are not
  covered.)
\<close>

theorem missing_arguments:
  "processCommand ''WIND COUNT'' now s = Inr (s\<lparr>lastCommandTime := now\<rparr>)
   \<and> processCommand ''WIND SPEED'' now s = Inr (s\<lparr>lastCommandTime := now\<rparr>)
   \<and> processCommand ''WIND DIR'' now s = Inr (s\<lparr>lastCommandTime := now\<rparr>)
   \<and> processCommand ''WIND SCATTER'' now s = Inr (s\<lparr>lastCommandTime := now\<rparr>)
   \<and> processCommand ''WIND PATTERN'' now s = Inr (s\<lparr>lastCommandTime := now\<rparr>)
   \<and> processCommand ''SERVO POS'' now s = Inr (s\<lparr>lastCommandTime := now\<rparr>)
   \<and> processCommand ''STEPPER MOVE'' now s = Inr (s\<lparr>lastCommandTime := now\<rparr>)
   \<and> (length args < 4 \<longrightarrow> cmd_WIND ''PATTERN'' args s = Inr s)
   \<and> processCommand ''SERVO CALIBRATE'' now s
       = Inr (println ''ERROR: Invalid format. Use: SERVO CALIBRATE <min> <max>''
                (s\<lparr>lastCommandTime := now\<rparr>))
   \<and> (length args < 2 \<longrightarrow>
        cmd_SERVO ''CALIBRATE'' args s
          = println ''ERROR: Invalid format. Use: SERVO CALIBRATE <min> <max>'' s)
   \<and> processCommand ''BOBBIN'' now s
       = Inr (println ''ERROR: Invalid BOBBIN format. Use: BOBBIN <len> <wid> <hgt>''
                (s\<lparr>lastCommandTime := now\<rparr>))
   \<and> (length args < 2 \<longrightarrow>
        cmd_BOBBIN action args s
          = println ''ERROR: Invalid BOBBIN format. Use: BOBBIN <len> <wid> <hgt>'' s)
   \<and> (atof action \<le> 0 \<or> atof w_str \<le> 0 \<or> atof h_str \<le> 0 \<longrightarrow>
        cmd_BOBBIN action [w_str, h_str] s
          = println ''ERROR: Bobbin dimensions must be positive numbers.'' s)
   \<and> (\<exists>errs. errs \<noteq> [] \<and> (\<forall>e\<in>set errs. take 6 e = ''ERROR:'')
         \<and> processCommand ''CALC'' now s
             = Inr (s\<lparr>lastCommandTime := now, out := out s @ errs\<rparr>))
   \<and> (atof v \<le> 0 \<longrightarrow>
        (\<exists>errs. errs \<noteq> [] \<and> (\<forall>e\<in>set errs. take 6 e = ''ERROR:'')
           \<and> cmd_CALC v s = s\<lparr>out := out s @ errs\<rparr>))"
proof -
  have wind: "processCommand ''WIND COUNT'' now s = Inr (s\<lparr>lastCommandTime := now\<rparr>)"
    "processCommand ''WIND SPEED'' now s = Inr (s\<lparr>lastCommandTime := now\<rparr>)"
    "processCommand ''WIND DIR'' now s = Inr (s\<lparr>lastCommandTime := now\<rparr>)"
    "processCommand ''WIND SCATTER'' now s = Inr (s\<lparr>lastCommandTime := now\<rparr>)"
    "processCommand ''WIND PATTERN'' now s = Inr (s\<lparr>lastCommandTime := now\<rparr>)"
    by (simp_all add: processCommand_def cmd_WIND_def tokens_def)
  have other: "processCommand ''SERVO POS'' now s = Inr (s\<lparr>lastCommandTime := now\<rparr>)"
    "processCommand ''STEPPER MOVE'' now s = Inr (s\<lparr>lastCommandTime := now\<rparr>)"
    by (simp_all add: processCommand_def cmd_SERVO_def cmd_STEPPER_def tokens_def)
  have pat: "length args < 4 \<longrightarrow> cmd_WIND ''PATTERN'' args s = Inr s"
    by (simp add: cmd_WIND_def short_args)
  have cal: "processCommand ''SERVO CALIBRATE'' now s
       = Inr (println ''ERROR: Invalid format. Use: SERVO CALIBRATE <min> <max>''
                (s\<lparr>lastCommandTime := now\<rparr>))"
    "length args < 2 \<longrightarrow>
        cmd_SERVO ''CALIBRATE'' args s
          = println ''ERROR: Invalid format. Use: SERVO CALIBRATE <min> <max>'' s"
    by (simp_all add: processCommand_def cmd_SERVO_def tokens_def short_args)
  have bob: "processCommand ''BOBBIN'' now s
       = Inr (println ''ERROR: Invalid BOBBIN format. Use: BOBBIN <len> <wid> <hgt>''
                (s\<lparr>lastCommandTime := now\<rparr>))"
    "length args < 2 \<longrightarrow>
        cmd_BOBBIN action args s
          = println ''ERROR: Invalid BOBBIN format. Use: BOBBIN <len> <wid> <hgt>'' s"
    "atof action \<le> 0 \<or> atof w_str \<le> 0 \<or> atof h_str \<le> 0 \<longrightarrow>
        cmd_BOBBIN action [w_str, h_str] s
          = println ''ERROR: Bobbin dimensions must be positive numbers.'' s"
    by (simp_all add: processCommand_def cmd_BOBBIN_def tokens_def short_args Let_def)
  from CALC_errors [of "s\<lparr>lastCommandTime := now\<rparr>"]
  have calc: "\<exists>errs. errs \<noteq> [] \<and> (\<forall>e\<in>set errs. take 6 e = ''ERROR:'')
         \<and> processCommand ''CALC'' now s
             = Inr (s\<lparr>lastCommandTime := now, out := out s @ errs\<rparr>)"
    by (simp add: processCommand_def tokens_def)
  have neg: "atof v \<le> 0 \<longrightarrow>
        (\<exists>errs. errs \<noteq> [] \<and> (\<forall>e\<in>set errs. take 6 e = ''ERROR:'')
           \<and> cmd_CALC v s = s\<lparr>out := out s @ errs\<rparr>)"
    using CALC_not_positive by blast
  from wind other pat cal bob calc neg show ?thesis by simp
qed

theorem missing_arguments_witness:
  "length [''70''] < 4 \<and> cmd_WIND ''PATTERN'' [''70''] boot = Inr boot
   \<and> length [''70''] < 2
   \<and> cmd_SERVO ''CALIBRATE'' [''70''] boot
       = println ''ERROR: Invalid format. Use: SERVO CALIBRATE <min> <max>'' boot
   \<and> cmd_BOBBIN ''0'' [''70''] boot
       = println ''ERROR: Invalid BOBBIN format. Use: BOBBIN <len> <wid> <hgt>'' boot
   \<and> atof ''0'' \<le> 0
   \<and> cmd_BOBBIN ''0'' [''4'', ''9''] boot
       = println ''ERROR: Bobbin dimensions must be positive numbers.'' boot
   \<and> processCommand ''WIND COUNT'' 1 boot = Inr (boot\<lparr>lastCommandTime := 1\<rparr>)
   \<and> atof ''0R'' \<le> 0
   \<and> (\<exists>errs. errs \<noteq> [] \<and> cmd_CALC ''0R'' boot = boot\<lparr>out := out boot @ errs\<rparr>)"
  using missing_arguments [where now = 1 and s = boot and args = "[''70'']"
      and action = "''0''" and w_str = "''4''" and h_str = "''9''" and v = "''0R''"]
  by (auto simp add: parse_defs float_consts)

lemma output_clock:
  "lastCommandTime (println l s) = lastCommandTime s"
  "lastCommandTime (printStatus s) = lastCommandTime s"
  "lastCommandTime (enableOutputs s) = lastCommandTime s"
  "lastCommandTime (disableOutputs s) = lastCommandTime s"
  "lastCommandTime (enableServo s) = lastCommandTime s"
  "lastCommandTime (disableServo s) = lastCommandTime s"
  "lastCommandTime (layServo_write angle s) = lastCommandTime s"
  by (simp_all add: output_defs)

lemma validate_clock:
  "lastCommandTime (computeWindingParameters s) = lastCommandTime s"
  "lastCommandTime (recheck_servo_angles s) = lastCommandTime s"
  "lastCommandTime (recheck_wire_diameter s) = lastCommandTime s"
  "lastCommandTime (calculateAvgTurnLength s) = lastCommandTime s"
  by (simp_all add: computeWindingParameters_def recheck_servo_angles_def
      recheck_wire_diameter_def calculateAvgTurnLength_def println_def Let_def)

lemma updateAndValidate_clock: "lastCommandTime (updateAndValidate s) = lastCommandTime s"
  by (simp add: updateAndValidate_def validate_clock)

lemma check_clock:
  "lastCommandTime (check_servo_angles s) = lastCommandTime s"
  "lastCommandTime (check_wire_diameter s) = lastCommandTime s"
  "lastCommandTime (check_step_delay s) = lastCommandTime s"
  "lastCommandTime (check_timeout_limit s) = lastCommandTime s"
  "lastCommandTime (check_accel_steps s) = lastCommandTime s"
  "lastCommandTime (check_bobbin_length s) = lastCommandTime s"
  "lastCommandTime (check_bobbin_width s) = lastCommandTime s"
  "lastCommandTime (check_bobbin_height s) = lastCommandTime s"
  "lastCommandTime (check_last_resistance s) = lastCommandTime s"
  "lastCommandTime (check_sweep_mode m s) = lastCommandTime s"
  by (simp_all add: check_defs println_def Let_def)

lemma settings_clock:
  "lastCommandTime (loadSettings s) = lastCommandTime s"
  "lastCommandTime (saveSettings s) = lastCommandTime s"
  "lastCommandTime (clearEEPROM s) = lastCommandTime s"
  by (simp_all add: loadSettings_def saveSettings_def clearEEPROM_def addr_defs put_defs
      check_clock output_clock validate_clock Let_def cong: let_weak_cong)

lemma restoreDefaults_clock: "lastCommandTime (restoreDefaults s) = lastCommandTime s"
  by (simp add: restoreDefaults_def settings_clock output_clock updateAndValidate_clock Let_def)

lemma updateServoPosition_clock:
  "updateServoPosition c n a b p s = Inr s' \<Longrightarrow> lastCommandTime s' = lastCommandTime s"
  by (auto simp add: updateServoPosition_def Let_def output_clock split: if_splits)

lemma test_layer_loop_clock:
  "test_layer_loop n turns a b s = Inr s' \<Longrightarrow> lastCommandTime s' = lastCommandTime s"
proof (induction n arbitrary: s)
  case 0
  then show ?case by simp
next
  case (Suc n)
  define c where "c = long32 (stepCount s + 1)"
  show ?case
  proof (cases "0 < c \<and> c_mod c stepsPerTurn = 0")
    case True
    with Suc.prems obtain s1 where
      u: "updateServoPosition c turns a b 0
            (println ''  -> Turn:  | Servo Pos: '' (s\<lparr>stepCount := c\<rparr>)) = Inr s1"
      and r: "test_layer_loop n turns a b s1 = Inr s'"
      by (auto simp add: Let_def c_def split: sum.splits)
    from Suc.IH [OF r] updateServoPosition_clock [OF u] show ?thesis
      by (simp add: output_clock)
  next
    case False
    with Suc.prems have "test_layer_loop n turns a b (s\<lparr>stepCount := c\<rparr>) = Inr s'"
      by (auto simp add: Let_def c_def)
    from Suc.IH [OF this] show ?thesis by simp
  qed
qed

lemma cmd_TEST_LAYER_clock:
  "cmd_TEST_LAYER args s = Inr s' \<Longrightarrow> lastCommandTime s' = lastCommandTime s"
  by (auto simp add: cmd_TEST_LAYER_def Let_def output_clock split: prod.splits sum.splits
      dest!: test_layer_loop_clock)

lemma cmd_clock:
  "lastCommandTime (cmd_TEST_STEPPER s) = lastCommandTime s"
  "lastCommandTime (cmd_TEST_STEPPER_MOVE s) = lastCommandTime s"
  "lastCommandTime (cmd_STEPPER action args s) = lastCommandTime s"
  "lastCommandTime (cmd_SYS action s) = lastCommandTime s"
  "lastCommandTime (cmd_WIRE_DIA action s) = lastCommandTime s"
  by (simp_all add: cmd_TEST_STEPPER_def cmd_TEST_STEPPER_MOVE_def cmd_STEPPER_def cmd_SYS_def
      cmd_WIRE_DIA_def output_clock settings_clock restoreDefaults_clock
      updateAndValidate_clock validate_clock Let_def split: list.splits)

lemma cmd_SERVO_clock: "lastCommandTime (cmd_SERVO action args s) = lastCommandTime s"
  by (simp add: cmd_SERVO_def output_clock updateAndValidate_clock Let_def split: list.splits)

lemma cmd_BOBBIN_clock: "lastCommandTime (cmd_BOBBIN action args s) = lastCommandTime s"
  by (simp add: cmd_BOBBIN_def output_clock updateAndValidate_clock validate_clock Let_def
      split: list.splits)

lemma cmd_WIND_clock:
  "cmd_WIND action args s = Inr s' \<Longrightarrow> lastCommandTime s' = lastCommandTime s"
  by (auto simp add: cmd_WIND_def output_clock validate_clock Let_def
      split: if_splits list.splits)

lemma calc_rounds_clock:
  "calc_rounds n r a c s = Inl s' \<Longrightarrow> lastCommandTime s' = lastCommandTime s"
  "calc_rounds n r a c s = Inr (c', s') \<Longrightarrow> lastCommandTime s' = lastCommandTime s"
proof (induction n arbitrary: c s)
  case 0
  { case 1 then show ?case by simp }
  { case 2 then show ?case by simp }
next
  case (Suc n)
  { case 1
    then show ?case
      using Suc.IH(1) by (auto simp add: Let_def validate_clock output_clock split: if_splits) }
  { case 2
    then show ?case
      using Suc.IH(2) by (auto simp add: Let_def validate_clock output_clock split: if_splits) }
qed

lemma cmd_CALC_clock: "lastCommandTime (cmd_CALC action s) = lastCommandTime s"
  by (auto simp add: cmd_CALC_def Let_def output_clock validate_clock
      split: sum.splits prod.splits dest: calc_rounds_clock)

lemma processCommand_clock:
  "processCommand cmd_str now s = Inr s' \<Longrightarrow> lastCommandTime s' = now"
  by (auto simp add: processCommand_def Let_def output_clock cmd_clock cmd_SERVO_clock
      cmd_BOBBIN_clock cmd_CALC_clock restoreDefaults_clock
      split: if_splits list.splits prod.splits
      dest: cmd_TEST_LAYER_clock cmd_WIND_clock)

text \<open>
  Claim C7 (an unknown component or action is reported and changes no state; only
  accepted commands reset \<^verbatim>\<open>lastCommandTime\<close>) fails. The unknown command \<^verbatim>\<open>FOO\<close> at
  clock value 5 sets \<^verbatim>\<open>lastCommandTime\<close> from 0 to 5, and the unknown action in
  \<^verbatim>\<open>WIND FOO\<close> writes no report at all.
\<close>

theorem unknown_command_resets_clock:
  "lastCommandTime boot = 0
   \<and> map_sum id lastCommandTime (processCommand ''FOO'' 5 boot) = Inr 5
   \<and> map_sum id out (processCommand ''WIND FOO'' 5 boot) = Inr (out boot)"
  by (simp add: boot_eq boot_state_def processCommand_def cmd_WIND_def tokens_def println_def)

text \<open>
  Claim C7, amended. Every command line the dispatcher returns from sets
  \<^verbatim>\<open>lastCommandTime\<close> to the clock value, accepted or not. A line that is none of the
  whole-line forms and whose first token is none of the seven components writes
  \<^verbatim>\<open>ERROR: Unknown command.\<close> and changes nothing else. A line with a known component
  \<^verbatim>\<open>WIND\<close>, \<^verbatim>\<open>SERVO\<close>, \<^verbatim>\<open>STEPPER\<close> or \<^verbatim>\<open>SYS\<close> and an action that component does not
  have writes nothing and changes nothing else.
\<close>

theorem unknown_commands:
  "(processCommand cmd_str now s = Inr s' \<longrightarrow> lastCommandTime s' = now)
   \<and> (take 10 cmd_str \<noteq> ''TEST_LAYER'' \<and> cmd_str \<noteq> ''TEST_STEPPER''
        \<and> take 18 cmd_str \<noteq> ''TEST_STEPPER_MOVE '' \<and> cmd_str \<noteq> ''RESTORE_DEFAULTS''
        \<and> cmd_str \<noteq> ''STATUS'' \<and> tokens cmd_str = component # rest
        \<and> component \<notin> {''WIND'', ''SERVO'', ''STEPPER'', ''SYS'', ''BOBBIN'', ''WIRE_DIA'', ''CALC''}
      \<longrightarrow> processCommand cmd_str now s
            = Inr (println ''ERROR: Unknown command.'' (s\<lparr>lastCommandTime := now\<rparr>)))
   \<and> (take 10 cmd_str \<noteq> ''TEST_LAYER'' \<and> cmd_str \<noteq> ''TEST_STEPPER''
        \<and> take 18 cmd_str \<noteq> ''TEST_STEPPER_MOVE '' \<and> cmd_str \<noteq> ''RESTORE_DEFAULTS''
        \<and> cmd_str \<noteq> ''STATUS'' \<and> tokens cmd_str = component # action # args
        \<and> (component = ''WIND''
              \<and> action \<notin> {''START'', ''STOP'', ''PAUSE'', ''RESUME'', ''COUNT'', ''SPEED'',
                             ''DIR'', ''SWEEP'', ''PATTERN'', ''SCATTER''}
            \<or> component = ''SERVO''
              \<and> action \<notin> {''STATUS'', ''ENABLE'', ''DISABLE'', ''POS'', ''CALIBRATE''}
            \<or> component = ''STEPPER''
              \<and> action \<notin> {''STATUS'', ''ENABLE'', ''DISABLE'', ''MOVE''}
            \<or> component = ''SYS''
              \<and> action \<notin> {''STATUS'', ''SAVE'', ''LOAD'', ''RESET'', ''VERSION'', ''HELP''})
      \<longrightarrow> processCommand cmd_str now s = Inr (s\<lparr>lastCommandTime := now\<rparr>))"
proof -
  have a: "processCommand cmd_str now s = Inr s' \<longrightarrow> lastCommandTime s' = now"
    by (simp add: processCommand_clock)
  have b: "take 10 cmd_str \<noteq> ''TEST_LAYER'' \<and> cmd_str \<noteq> ''TEST_STEPPER''
        \<and> take 18 cmd_str \<noteq> ''TEST_STEPPER_MOVE '' \<and> cmd_str \<noteq> ''RESTORE_DEFAULTS''
        \<and> cmd_str \<noteq> ''STATUS'' \<and> tokens cmd_str = component # rest
        \<and> component \<notin> {''WIND'', ''SERVO'', ''STEPPER'', ''SYS'', ''BOBBIN'', ''WIRE_DIA'', ''CALC''}
      \<longrightarrow> processCommand cmd_str now s
            = Inr (println ''ERROR: Unknown command.'' (s\<lparr>lastCommandTime := now\<rparr>))"
    by (simp add: processCommand_def Let_def split: list.splits)
  have c: "take 10 cmd_str \<noteq> ''TEST_LAYER'' \<and> cmd_str \<noteq> ''TEST_STEPPER''
        \<and> take 18 cmd_str \<noteq> ''TEST_STEPPER_MOVE '' \<and> cmd_str \<noteq> ''RESTORE_DEFAULTS''
        \<and> cmd_str \<noteq> ''STATUS'' \<and> tokens cmd_str = component # action # args
        \<and> (component = ''WIND''
              \<and> action \<notin> {''START'', ''STOP'', ''PAUSE'', ''RESUME'', ''COUNT'', ''SPEED'',
                             ''DIR'', ''SWEEP'', ''PATTERN'', ''SCATTER''}
            \<or> component = ''SERVO''
              \<and> action \<notin> {''STATUS'', ''ENABLE'', ''DISABLE'', ''POS'', ''CALIBRATE''}
            \<or> component = ''STEPPER''
              \<and> action \<notin> {''STATUS'', ''ENABLE'', ''DISABLE'', ''MOVE''}
            \<or> component = ''SYS''
              \<and> action \<notin> {''STATUS'', ''SAVE'', ''LOAD'', ''RESET'', ''VERSION'', ''HELP''})
      \<longrightarrow> processCommand cmd_str now s = Inr (s\<lparr>lastCommandTime := now\<rparr>)"
    by (auto simp add: processCommand_def cmd_WIND_def cmd_SERVO_def cmd_STEPPER_def cmd_SYS_def
        Let_def)
  from a b c show ?thesis by blast
qed

theorem unknown_commands_witness:
  "tokens ''FOO BAR'' = [''FOO'', ''BAR'']
   \<and> processCommand ''FOO BAR'' 5 boot
       = Inr (println ''ERROR: Unknown command.'' (boot\<lparr>lastCommandTime := 5\<rparr>))
   \<and> lastCommandTime (println ''ERROR: Unknown command.'' (boot\<lparr>lastCommandTime := 5\<rparr>)) = 5
   \<and> tokens ''WIND FOO'' = [''WIND'', ''FOO'']
   \<and> processCommand ''WIND FOO'' 5 boot = Inr (boot\<lparr>lastCommandTime := 5\<rparr>)"
  using unknown_commands [where cmd_str = "''FOO BAR''" and now = 5 and s = boot
      and s' = "println ''ERROR: Unknown command.'' (boot\<lparr>lastCommandTime := 5\<rparr>)"
      and component = "''FOO''" and rest = "[''BAR'']" and action = "''BAR''" and args = "[]"]
    unknown_commands [where cmd_str = "''WIND FOO''" and now = 5 and s = boot
      and s' = "boot\<lparr>lastCommandTime := 5\<rparr>"
      and component = "''WIND''" and rest = "[''FOO'']" and action = "''FOO''" and args = "[]"]
  by (simp add: tokens_def println_def)

end
